theory Spec2Isabelle
  imports Main "HOL-Library.Sublist"
begin

chapter \<open>The model\<close>

section \<open>JavaScript values\<close>

text \<open>
  The route handler and the component work on values that come out of \<^verbatim>\<open>JSON.parse\<close>
  (request bodies, the answers of the services, the chunks of the model's stream, the
  \<^verbatim>\<open>hotels\<close> prop), and they test these values with \<^verbatim>\<open>typeof\<close>, truthiness,
  \<^verbatim>\<open>String(...)\<close>, arithmetic and optional chaining. A value is modelled as the JSON tree it
  is, with \<^verbatim>\<open>undefined\<close> added. Nothing is assumed about the shape of a value: where the
  code reads a property, converts to a string or computes with a value of unknown type, the
  model does what the language does for every value, exceptions included.

  A string is carried as the bytes of its UTF-8 form, one character of the model per byte:
  an ASCII character is itself, every other character is the two to four bytes of its
  encoding. The code never asks for the length of a string other than whether it is zero.
  A number is carried as the text that \<^verbatim>\<open>Number.prototype.toString\<close> gives for it (\<^verbatim>\<open>5\<close>,
  \<^verbatim>\<open>4.5\<close>, \<^verbatim>\<open>NaN\<close>; both zeros are \<^verbatim>\<open>0\<close>). An object is the list of its own properties;
  it inherits from \<^verbatim>\<open>Object.prototype\<close>, an array from \<^verbatim>\<open>Array.prototype\<close>. No value of
  the model is a function.
\<close>

type_synonym number = string

datatype jsval =
    JUndefined
  | JNull
  | JBool bool
  | JNum number
  | JStr string
  | JArr "jsval list"
  | JObj "(string \<times> jsval) list"

datatype exn =
    TypeError string
  | SyntaxError string
  | Error string

text \<open>The \<^verbatim>\<open>message\<close> of a thrown error.\<close>

fun message :: "exn \<Rightarrow> string" where
  "message (TypeError m) = m"
| "message (SyntaxError m) = m"
| "message (Error m) = m"

text \<open>ToBoolean: what \<^verbatim>\<open>if (v)\<close>, \<^verbatim>\<open>v || w\<close>, \<^verbatim>\<open>v && w\<close> and \<^verbatim>\<open>!v\<close> test.\<close>

fun truthy :: "jsval \<Rightarrow> bool" where
  "truthy JUndefined = False"
| "truthy JNull = False"
| "truthy (JBool b) = b"
| "truthy (JNum t) = (t \<noteq> ''0'' \<and> t \<noteq> ''NaN'')"
| "truthy (JStr s) = (s \<noteq> [])"
| "truthy (JArr xs) = True"
| "truthy (JObj kvs) = True"

text \<open>\<^verbatim>\<open>a || b\<close> on values.\<close>

definition js_or :: "jsval \<Rightarrow> jsval \<Rightarrow> jsval" where
  "js_or a b = (if truthy a then a else b)"

text \<open>The texts of the elements of an array, joined with a separator.\<close>

fun join :: "string \<Rightarrow> string list \<Rightarrow> string" where
  "join sep [] = []"
| "join sep [x] = x"
| "join sep (x # y # ys) = x @ sep @ join sep (y # ys)"

text \<open>
  ToString: what \<^verbatim>\<open>String(v)\<close>, a template literal, \<^verbatim>\<open>encodeURIComponent(v)\<close> and
  \<^verbatim>\<open>TextEncoder.encode(v)\<close> apply to a value. An array joins the texts of its elements with
  a comma, \<^verbatim>\<open>null\<close> and \<^verbatim>\<open>undefined\<close> elements giving the empty string. An object is
  converted by the method \<^verbatim>\<open>toString\<close> that it finds: the one of \<^verbatim>\<open>Object.prototype\<close>, which
  gives \<^verbatim>\<open>[object Object]\<close>, unless the object has a property \<^verbatim>\<open>toString\<close> of its own. Such
  a property is not a function, the inherited \<^verbatim>\<open>valueOf\<close> gives the object back and a
  \<^verbatim>\<open>valueOf\<close> of its own is not a function either, so the conversion throws a TypeError.
  \<^verbatim>\<open>element_texts\<close> is the conversion of the elements in \<^verbatim>\<open>Array.prototype.join\<close>, in
  order; the first exception ends it.
\<close>

fun ToString :: "jsval \<Rightarrow> exn + string"
  and element_texts :: "jsval list \<Rightarrow> exn + string list"
where
  "ToString JUndefined = Inr ''undefined''"
| "ToString JNull = Inr ''null''"
| "ToString (JBool b) = Inr (if b then ''true'' else ''false'')"
| "ToString (JNum t) = Inr t"
| "ToString (JStr s) = Inr s"
| "ToString (JArr xs) =
     (case element_texts xs of Inl e \<Rightarrow> Inl e | Inr ts \<Rightarrow> Inr (join '','' ts))"
| "ToString (JObj kvs) =
     (if ''toString'' \<in> set (map fst kvs)
      then Inl (TypeError ''Cannot convert object to primitive value'')
      else Inr ''[object Object]'')"
| "element_texts [] = Inr []"
| "element_texts (x # xs) =
     (case (if x = JUndefined \<or> x = JNull then Inr [] else ToString x) of
        Inl e \<Rightarrow> Inl e
      | Inr t \<Rightarrow> (case element_texts xs of Inl e \<Rightarrow> Inl e | Inr ts \<Rightarrow> Inr (t # ts)))"

text \<open>\<^verbatim>\<open>xs.join(sep)\<close> on an array.\<close>

definition js_join :: "string \<Rightarrow> jsval list \<Rightarrow> exn + string" where
  "js_join sep xs = (case element_texts xs of Inl e \<Rightarrow> Inl e | Inr ts \<Rightarrow> Inr (join sep ts))"

text \<open>
  The arithmetic of the language is floating point. It is a parameter of the model: the
  number that a string denotes, \<^verbatim>\<open>x / y\<close>, \<^verbatim>\<open>x % y\<close>, \<^verbatim>\<open>Math.floor(x)\<close>, \<^verbatim>\<open>x.toFixed(0)\<close>,
  \<^verbatim>\<open>x > y\<close>, the integer part of a number for \<^verbatim>\<open>new Date(x)\<close> (\<open>None\<close> when it is not
  finite), \<^verbatim>\<open>Math.round(d / 86400000)\<close> for a whole number \<open>d\<close> of \<open>2\<^sup>5\<^sup>3\<close> or more, and the
  distance \<^verbatim>\<open>R * c\<close> that lines 160 to 166 of \<^verbatim>\<open>calculateHaversineDistance\<close>
  compute from the four numbers \<^verbatim>\<open>coords1.lat\<close>, \<^verbatim>\<open>coords1.lon\<close>, \<^verbatim>\<open>coords2.lat\<close> and
  \<^verbatim>\<open>coords2.lon\<close>.
\<close>

record arith =
  StringToNumber :: "string \<Rightarrow> number"
  divide_by :: "number \<Rightarrow> number \<Rightarrow> number"
  remainder :: "number \<Rightarrow> number \<Rightarrow> number"
  Math_floor :: "number \<Rightarrow> number"
  toFixed0 :: "number \<Rightarrow> string"
  greater :: "number \<Rightarrow> number \<Rightarrow> bool"
  integer_part :: "number \<Rightarrow> int option"
  round_days :: "int \<Rightarrow> nat"
  haversine :: "number \<Rightarrow> number \<Rightarrow> number \<Rightarrow> number \<Rightarrow> number"

text \<open>
  ToNumber: what an arithmetic operator and \<^verbatim>\<open>>\<close> apply to an operand. An array or an
  object is converted to its text first, with the same exception.
\<close>

fun ToNumber :: "arith \<Rightarrow> jsval \<Rightarrow> exn + number" where
  "ToNumber ar JUndefined = Inr ''NaN''"
| "ToNumber ar JNull = Inr ''0''"
| "ToNumber ar (JBool b) = Inr (if b then ''1'' else ''0'')"
| "ToNumber ar (JNum t) = Inr t"
| "ToNumber ar (JStr s) = Inr (StringToNumber ar s)"
| "ToNumber ar v = (case ToString v of Inl e \<Rightarrow> Inl e | Inr s \<Rightarrow> Inr (StringToNumber ar s))"

text \<open>The own property \<^verbatim>\<open>k\<close> of an object, \<^verbatim>\<open>undefined\<close> when it has none.\<close>

definition own :: "(string \<times> jsval) list \<Rightarrow> string \<Rightarrow> jsval" where
  "own kvs k = (case map_of kvs k of None \<Rightarrow> JUndefined | Some v \<Rightarrow> v)"

text \<open>
  \<^verbatim>\<open>v.k\<close> for a property name \<^verbatim>\<open>k\<close> that no prototype defines and that is not an
  index (\<^verbatim>\<open>choices\<close>, \<^verbatim>\<open>delta\<close>, \<^verbatim>\<open>content\<close>, \<^verbatim>\<open>title\<close>, \<^verbatim>\<open>rating\<close>, ...): a TypeError
  on \<^verbatim>\<open>null\<close> and \<^verbatim>\<open>undefined\<close>, the own property on an object, \<^verbatim>\<open>undefined\<close> on
  everything else. The names that the code reads are of this kind, with two exceptions:
  \<^verbatim>\<open>length\<close>, which has functions of its own below, and \<^verbatim>\<open>link\<close>, which on a string is a
  method of \<^verbatim>\<open>String.prototype\<close>; the two places that read \<^verbatim>\<open>link\<close> say what becomes of it.
\<close>

fun member :: "string \<Rightarrow> jsval \<Rightarrow> exn + jsval" where
  "member k JUndefined = Inl (TypeError (''Cannot read properties of undefined (reading '' @ k @ '')''))"
| "member k JNull = Inl (TypeError (''Cannot read properties of null (reading '' @ k @ '')''))"
| "member k (JObj kvs) = Inr (own kvs k)"
| "member k v = Inr JUndefined"

text \<open>\<^verbatim>\<open>v?.k\<close> for such a name.\<close>

fun opt_member :: "string \<Rightarrow> jsval \<Rightarrow> jsval" where
  "opt_member k (JObj kvs) = own kvs k"
| "opt_member k v = JUndefined"

text \<open>
  \<^verbatim>\<open>v?.[0]\<close>, and \<^verbatim>\<open>v[0]\<close> for a value that is not \<^verbatim>\<open>null\<close> or \<^verbatim>\<open>undefined\<close>: the
  first element of an array, the first character of a string (of which the code reads
  properties only, and it has none of the names read), the property \<^verbatim>\<open>0\<close> of an object.
\<close>

fun opt_index0 :: "jsval \<Rightarrow> jsval" where
  "opt_index0 (JArr xs) = (case xs of [] \<Rightarrow> JUndefined | x # _ \<Rightarrow> x)"
| "opt_index0 (JStr s) = (case s of [] \<Rightarrow> JUndefined | c # _ \<Rightarrow> JStr [c])"
| "opt_index0 (JObj kvs) = own kvs ''0''"
| "opt_index0 v = JUndefined"

text \<open>
  \<^verbatim>\<open>v.length === 0\<close> for a truthy value, and \<^verbatim>\<open>v?.length > 0\<close>: the number of elements
  of an array or of characters of a string, the own property of an object, which \<^verbatim>\<open>>\<close>
  converts to a number, \<^verbatim>\<open>undefined\<close> on everything else.
\<close>

fun length_is_zero :: "jsval \<Rightarrow> bool" where
  "length_is_zero (JArr xs) = (xs = [])"
| "length_is_zero (JStr s) = (s = [])"
| "length_is_zero (JObj kvs) = (own kvs ''length'' = JNum ''0'')"
| "length_is_zero v = False"

fun length_positive :: "arith \<Rightarrow> jsval \<Rightarrow> exn + bool" where
  "length_positive ar (JArr xs) = Inr (xs \<noteq> [])"
| "length_positive ar (JStr s) = Inr (s \<noteq> [])"
| "length_positive ar (JObj kvs) =
     (case ToNumber ar (own kvs ''length'') of
        Inl e \<Rightarrow> Inl e
      | Inr n \<Rightarrow> Inr (greater ar n ''0''))"
| "length_positive ar v = Inr False"

text \<open>\<^verbatim>\<open>xs.map(f)\<close> for a callback that may throw: the first exception ends the map.\<close>

fun map_throwing :: "('a \<Rightarrow> exn + 'b) \<Rightarrow> 'a list \<Rightarrow> exn + 'b list" where
  "map_throwing f [] = Inr []"
| "map_throwing f (x # xs) =
     (case f x of
        Inl e \<Rightarrow> Inl e
      | Inr y \<Rightarrow> (case map_throwing f xs of Inl e \<Rightarrow> Inl e | Inr ys \<Rightarrow> Inr (y # ys)))"

section \<open>Strings\<close>

text \<open>
  \<^verbatim>\<open>s.trim()\<close> removes the white space and the line terminators at the two ends of a
  string: tab, line feed, vertical tab, form feed, carriage return, space, U+00A0, U+1680,
  U+2000 to U+200A, U+2028, U+2029, U+202F, U+205F, U+3000 and U+FEFF. \<^verbatim>\<open>white\<close> lists
  their UTF-8 forms. No form is the end of another one; in a well-formed text none ends
  inside a character.
\<close>

definition white :: "string list" where
  "white =
     [[CHR 0x09], [CHR 0x0A], [CHR 0x0B], [CHR 0x0C], [CHR 0x0D], [CHR 0x20],
      [CHR 0xC2, CHR 0xA0], [CHR 0xE1, CHR 0x9A, CHR 0x80],
      [CHR 0xE2, CHR 0x80, CHR 0x80], [CHR 0xE2, CHR 0x80, CHR 0x81],
      [CHR 0xE2, CHR 0x80, CHR 0x82], [CHR 0xE2, CHR 0x80, CHR 0x83],
      [CHR 0xE2, CHR 0x80, CHR 0x84], [CHR 0xE2, CHR 0x80, CHR 0x85],
      [CHR 0xE2, CHR 0x80, CHR 0x86], [CHR 0xE2, CHR 0x80, CHR 0x87],
      [CHR 0xE2, CHR 0x80, CHR 0x88], [CHR 0xE2, CHR 0x80, CHR 0x89],
      [CHR 0xE2, CHR 0x80, CHR 0x8A], [CHR 0xE2, CHR 0x80, CHR 0xA8],
      [CHR 0xE2, CHR 0x80, CHR 0xA9], [CHR 0xE2, CHR 0x80, CHR 0xAF],
      [CHR 0xE2, CHR 0x81, CHR 0x9F], [CHR 0xE3, CHR 0x80, CHR 0x80],
      [CHR 0xEF, CHR 0xBB, CHR 0xBF]]"

text \<open>
  The number of bytes of the white space character that a text starts with, 0 when it
  starts with none, and the text without the white space at its start.
\<close>

definition white_prefix :: "string \<Rightarrow> nat" where
  "white_prefix s =
     (case filter (\<lambda>ws. take (length ws) s = ws) white of [] \<Rightarrow> 0 | ws # _ \<Rightarrow> length ws)"

function trimStart :: "string \<Rightarrow> string" where
  "trimStart s = (if white_prefix s = 0 then s else trimStart (drop (white_prefix s) s))"
  by pat_completeness auto
termination
proof (relation "measure length")
  show "wf (measure length)" by simp
next
  fix s :: string
  assume a: "white_prefix s \<noteq> 0"
  have "s \<noteq> []"
  proof
    assume "s = []"
    then have "white_prefix s = 0" by (simp add: white_prefix_def white_def)
    with a show False by simp
  qed
  with a show "(drop (white_prefix s) s, s) \<in> measure length" by simp
qed

declare trimStart.simps [simp del]

text \<open>
  The white space at the end is the white space at the start of the reversed text, with
  the forms reversed.
\<close>

definition white_suffix :: "string \<Rightarrow> nat" where
  "white_suffix s =
     (case filter (\<lambda>ws. take (length ws) (rev s) = rev ws) white of
        [] \<Rightarrow> 0
      | ws # _ \<Rightarrow> length ws)"

function trimEnd :: "string \<Rightarrow> string" where
  "trimEnd s =
     (if white_suffix s = 0 then s else trimEnd (take (length s - white_suffix s) s))"
  by pat_completeness auto
termination
proof (relation "measure length")
  show "wf (measure length)" by simp
next
  fix s :: string
  assume a: "white_suffix s \<noteq> 0"
  have "s \<noteq> []"
  proof
    assume "s = []"
    then have "white_suffix s = 0" by (simp add: white_suffix_def white_def)
    with a show False by simp
  qed
  with a show "(take (length s - white_suffix s) s, s) \<in> measure length" by simp
qed

declare trimEnd.simps [simp del]

definition js_trim :: "string \<Rightarrow> string" where
  "js_trim s = trimEnd (trimStart s)"

text \<open>
  \<^verbatim>\<open>s.toLowerCase()\<close>, for the comparisons that the code makes with it: with
  \<^verbatim>\<open>antarctica\<close>, \<^verbatim>\<open>luxury\<close> and \<^verbatim>\<open>mid-range\<close>. The ASCII capitals become small letters.
  Of the other characters, the only ones whose lower case form holds an ASCII letter are
  U+0130, which becomes \<^verbatim>\<open>i\<close> followed by U+0307, and U+212A, which becomes \<^verbatim>\<open>k\<close>: the
  first never completes one of the three words, the second is a letter of none, so the
  comparisons come out the same when these characters are left as they are.
  \<^verbatim>\<open>s.includes(sub)\<close> is the search for a part of the text.
\<close>

definition lower_char :: "char \<Rightarrow> char" where
  "lower_char c =
     (case map_of (zip ''ABCDEFGHIJKLMNOPQRSTUVWXYZ'' ''abcdefghijklmnopqrstuvwxyz'') c of
        None \<Rightarrow> c
      | Some l \<Rightarrow> l)"

definition toLowerCase :: "string \<Rightarrow> string" where
  "toLowerCase s = map lower_char s"

fun js_includes :: "string \<Rightarrow> string \<Rightarrow> bool" where
  "js_includes [] sub = (sub = [])"
| "js_includes (c # cs) sub = (take (length sub) (c # cs) = sub \<or> js_includes cs sub)"

text \<open>
  \<^verbatim>\<open>v.toLowerCase()\<close> on a value of unknown type: only a string has the method.
\<close>

fun call_toLowerCase :: "jsval \<Rightarrow> exn + string" where
  "call_toLowerCase (JStr s) = Inr (toLowerCase s)"
| "call_toLowerCase JUndefined =
     Inl (TypeError ''Cannot read properties of undefined (reading toLowerCase)'')"
| "call_toLowerCase JNull =
     Inl (TypeError ''Cannot read properties of null (reading toLowerCase)'')"
| "call_toLowerCase v = Inl (TypeError ''toLowerCase is not a function'')"

text \<open>\<^verbatim>\<open>s.split(sep)\<close> for a separator that is not empty.\<close>

function split_sep :: "string \<Rightarrow> string \<Rightarrow> string list" where
  "split_sep sep [] = [[]]"
| "split_sep sep (c # cs) =
     (if sep \<noteq> [] \<and> take (length sep) (c # cs) = sep
      then [] # split_sep sep (drop (length sep - 1) cs)
      else (case split_sep sep cs of [] \<Rightarrow> [[c]] | l # ls \<Rightarrow> (c # l) # ls))"
  by pat_completeness auto
termination
  by (relation "measure (\<lambda>(sep, s). length s)") auto

text \<open>
  \<^verbatim>\<open>String(n)\<close> of a natural number that is below \<open>10\<^sup>2\<^sup>1\<close>: its decimal digits.
\<close>

definition digit_char :: "nat \<Rightarrow> char" where
  "digit_char d = ''0123456789'' ! d"

fun show_nat :: "nat \<Rightarrow> string" where
  "show_nat n = (if n < 10 then [digit_char n] else show_nat (n div 10) @ [digit_char (n mod 10)])"

declare show_nat.simps [simp del]

definition show_int :: "int \<Rightarrow> string" where
  "show_int i = (if i < 0 then ''-'' @ show_nat (nat (- i)) else show_nat (nat i))"

text \<open>
  \<^verbatim>\<open>parseInt(s, 10)\<close>: white space, an optional sign, then the longest run of decimal
  digits; \<open>None\<close> is \<^verbatim>\<open>NaN\<close>.
\<close>

definition is_digit :: "char \<Rightarrow> bool" where
  "is_digit c = (c \<in> set ''0123456789'')"

definition digit_val :: "char \<Rightarrow> nat" where
  "digit_val c = length (takeWhile (\<lambda>d. d \<noteq> c) ''0123456789'')"

definition parseInt10 :: "string \<Rightarrow> int option" where
  "parseInt10 s =
     (let t = trimStart s;
          neg = (take 1 t = ''-'');
          u = (if take 1 t = ''-'' \<or> take 1 t = ''+'' then drop 1 t else t);
          ds = takeWhile is_digit u
      in if ds = [] then None
         else Some ((if neg then - 1 else 1) * int (foldl (\<lambda>a c. 10 * a + digit_val c) 0 ds)))"

section \<open>The stream that re-frames the model's server-sent events\<close>

text \<open>
  \<^verbatim>\<open>buffer.split('\n')\<close>: the pieces between the newlines; never empty, and its last piece
  is what follows the last newline.
\<close>

fun split_nl :: "string \<Rightarrow> string list" where
  "split_nl [] = [[]]"
| "split_nl (c # cs) =
     (if c = CHR 0x0A then [] # split_nl cs
      else (case split_nl cs of [] \<Rightarrow> [[c]] | l # ls \<Rightarrow> (c # l) # ls))"

text \<open>
  \<^verbatim>\<open>parsed.choices?.[0]?.delta?.content\<close>. Only the first access is not optional: it
  throws when \<^verbatim>\<open>parsed\<close> is \<^verbatim>\<open>null\<close>.
\<close>

definition delta_content :: "jsval \<Rightarrow> exn + jsval" where
  "delta_content parsed =
     (case member ''choices'' parsed of
        Inl e \<Rightarrow> Inl e
      | Inr choices \<Rightarrow> Inr (opt_member ''content'' (opt_member ''delta'' (opt_index0 choices))))"

text \<open>
  What \<^verbatim>\<open>reader.read()\<close> gives: a chunk, the end of the body, or a rejection. What the
  controller of the new stream holds: the chunks enqueued so far and whether the stream is
  still open.
\<close>

datatype 'c read_result = ReadValue 'c | ReadDone | ReadRejected exn

datatype stream_status = Readable | Closed | Errored exn

record 'b controller =
  enqueued :: "'b list"
  status :: stream_status

text \<open>
  The body of \<^verbatim>\<open>for (const line of lines)\<close>, with the queue of the controller passed
  along. The result says whether the loop left through \<^verbatim>\<open>controller.close(); return\<close>.
  \<^verbatim>\<open>parse\<close> is \<^verbatim>\<open>JSON.parse\<close> (\<open>None\<close> when it throws) and \<^verbatim>\<open>enc\<close> is
  \<^verbatim>\<open>encoder.encode\<close> after the string conversion of its argument. A throwing
  \<^verbatim>\<open>JSON.parse\<close>, the TypeError of \<^verbatim>\<open>parsed.choices\<close> and a TypeError of the string
  conversion all land in the \<^verbatim>\<open>catch\<close> that continues with the next line.
\<close>

fun process_lines ::
  "(string \<Rightarrow> jsval option) \<Rightarrow> (string \<Rightarrow> 'b) \<Rightarrow> string list \<Rightarrow> 'b list \<Rightarrow> 'b list \<times> bool"
where
  "process_lines parse enc [] q = (q, False)"
| "process_lines parse enc (line # rest) q =
     (if take 6 line = ''data: '' then
        (let data = drop 6 line in
         if data = ''[DONE]'' then (q, True)
         else
           (case parse data of
              None \<Rightarrow> process_lines parse enc rest q
            | Some parsed \<Rightarrow>
                (case delta_content parsed of
                   Inl e \<Rightarrow> process_lines parse enc rest q
                 | Inr c \<Rightarrow>
                     (let delta = js_or c (JStr []) in
                      if truthy delta
                      then (case ToString delta of
                              Inl e \<Rightarrow> process_lines parse enc rest q
                            | Inr s \<Rightarrow> process_lines parse enc rest (q @ [enc s]))
                      else process_lines parse enc rest q))))
      else process_lines parse enc rest q)"

text \<open>
  The \<^verbatim>\<open>while (true)\<close> loop of \<^verbatim>\<open>start(controller)\<close>, run against the results that the
  upstream reader gives one after the other. \<^verbatim>\<open>dec\<close> is \<^verbatim>\<open>decoder.decode(value, {stream:
  true})\<close> with the decoder's pending bytes as explicit state. When the list of results
  ends before the upstream is done, the loop is waiting in \<^verbatim>\<open>await reader.read()\<close> and the
  stream is still readable.
\<close>

fun start_loop ::
  "('d \<Rightarrow> 'c \<Rightarrow> string \<times> 'd) \<Rightarrow> (string \<Rightarrow> jsval option) \<Rightarrow> (string \<Rightarrow> 'b) \<Rightarrow>
   'd \<Rightarrow> string \<Rightarrow> 'b list \<Rightarrow> 'c read_result list \<Rightarrow> 'b controller"
where
  "start_loop dec parse enc d buffer q [] = \<lparr>enqueued = q, status = Readable\<rparr>"
| "start_loop dec parse enc d buffer q (ReadDone # rs) = \<lparr>enqueued = q, status = Closed\<rparr>"
| "start_loop dec parse enc d buffer q (ReadRejected e # rs) = \<lparr>enqueued = q, status = Errored e\<rparr>"
| "start_loop dec parse enc d buffer q (ReadValue v # rs) =
     (case dec d v of (txt, d') \<Rightarrow>
        (let lines = split_nl (buffer @ txt) in
         case process_lines parse enc (butlast lines) q of
           (q', closed) \<Rightarrow>
             if closed then \<lparr>enqueued = q', status = Closed\<rparr>
             else start_loop dec parse enc d' (last lines) q' rs))"

definition start ::
  "('d \<Rightarrow> 'c \<Rightarrow> string \<times> 'd) \<Rightarrow> (string \<Rightarrow> jsval option) \<Rightarrow> (string \<Rightarrow> 'b) \<Rightarrow>
   'd \<Rightarrow> 'c read_result list \<Rightarrow> 'b controller"
where
  "start dec parse enc d0 rs = start_loop dec parse enc d0 [] [] rs"

subsection \<open>The re-framing, said once for the whole text\<close>

text \<open>The text that the streaming decoder has given for a sequence of chunks.\<close>

fun decoded_text :: "('d \<Rightarrow> 'c \<Rightarrow> string \<times> 'd) \<Rightarrow> 'd \<Rightarrow> 'c list \<Rightarrow> string" where
  "decoded_text dec d [] = []"
| "decoded_text dec d (v # vs) = (case dec d v of (txt, d') \<Rightarrow> txt @ decoded_text dec d' vs)"

text \<open>
  The chunks that the reader has delivered before its first result that is not a chunk.
\<close>

fun values_read :: "'c read_result list \<Rightarrow> 'c list" where
  "values_read (ReadValue v # rs) = v # values_read rs"
| "values_read rs = []"

text \<open>The complete lines of a text: every piece that a newline ends.\<close>

definition complete_lines :: "string \<Rightarrow> string list" where
  "complete_lines t = butlast (split_nl t)"

text \<open>
  What one line contributes: the string form of \<^verbatim>\<open>choices[0].delta.content\<close> when the
  line is \<^verbatim>\<open>data: \<close> followed by a payload that parses and whose content is truthy (for a
  string: not empty) and has a string form, nothing otherwise.
\<close>

definition line_delta :: "(string \<Rightarrow> jsval option) \<Rightarrow> string \<Rightarrow> string option" where
  "line_delta parse line =
     (if take 6 line = ''data: '' then
        (case parse (drop 6 line) of
           None \<Rightarrow> None
         | Some parsed \<Rightarrow>
             (case delta_content parsed of
                Inl e \<Rightarrow> None
              | Inr c \<Rightarrow>
                  if truthy c
                  then (case ToString c of Inl e \<Rightarrow> None | Inr s \<Rightarrow> Some s)
                  else None))
      else None)"

text \<open>The contributions of the lines before the first \<^verbatim>\<open>data: [DONE]\<close> line, in order.\<close>

definition sse_deltas :: "(string \<Rightarrow> jsval option) \<Rightarrow> string list \<Rightarrow> string list" where
  "sse_deltas parse ls = List.map_filter (line_delta parse) (takeWhile (\<lambda>l. l \<noteq> ''data: [DONE]'') ls)"

subsection \<open>A stand-in for \<^verbatim>\<open>JSON.parse\<close> in the examples\<close>

text \<open>
  \<^verbatim>\<open>JSON.parse\<close> is a parameter of the model. The examples need one that can be
  evaluated: this one knows the payloads that the examples use and throws on every other
  text.
\<close>

definition toy_parse :: "string \<Rightarrow> jsval option" where
  "toy_parse s =
     (if s = ''{\"choices\":[{\"delta\":{\"content\":\"Hel\"}}]}''
      then Some (JObj [(''choices'', JArr [JObj [(''delta'', JObj [(''content'', JStr ''Hel'')])]])])
      else if s = ''{\"choices\":[{\"delta\":{\"content\":\"lo\"}}]}''
      then Some (JObj [(''choices'', JArr [JObj [(''delta'', JObj [(''content'', JStr ''lo'')])]])])
      else if s = ''{\"choices\":[{\"delta\":{}}]}''
      then Some (JObj [(''choices'', JArr [JObj [(''delta'', JObj [])]])])
      else if s = ''null'' then Some JNull
      else None)"

text \<open>A stand-in for the decoder, for chunks that are text already.\<close>

definition text_decoder :: "unit \<Rightarrow> string \<Rightarrow> string \<times> unit" where
  "text_decoder d v = (v, d)"

text \<open>
  Three chunks of an upstream body, cut inside a line twice. The lines are: a delta
  \<^verbatim>\<open>Hel\<close>, an empty line, a delta \<^verbatim>\<open>lo\<close>, an empty line, a payload \<^verbatim>\<open>null\<close>, a comment
  line, an empty payload, the \<^verbatim>\<open>[DONE]\<close> line, and a delta after it.
\<close>

definition example_chunks :: "string list" where
  "example_chunks =
     [''data: {\"choices\":[{\"delta\":{\"content\":\"Hel\"}}]}\<newline>\<newline>data: {\"choi'',
      ''ces\":[{\"delta\":{\"content\":\"lo\"}}]}\<newline>\<newline>data: null\<newline>: ping\<newline>data: \<newline>da'',
      ''ta: [DONE]\<newline>data: {\"choices\":[{\"delta\":{\"content\":\"lo\"}}]}\<newline>'']"


section \<open>The component \<^verbatim>\<open>HotelSuggestions\<close>\<close>






text \<open>The words of the claims about a field: a string, and a string that is not blank.\<close>

definition is_string :: "jsval \<Rightarrow> bool" where
  "is_string v = (case v of JStr s \<Rightarrow> True | _ \<Rightarrow> False)"


definition nonempty_string :: "jsval \<Rightarrow> bool" where
  "nonempty_string v = (case v of JStr s \<Rightarrow> s \<noteq> [] | _ \<Rightarrow> False)"









section \<open>The route handler: constants, external services, helpers\<close>

text \<open>
  The constants of the module, read from the environment when the module is loaded. A key
  that is not set is \<open>None\<close>; \<^verbatim>\<open>!KEY\<close> also holds for the empty string, and a template
  literal prints a missing key as \<^verbatim>\<open>undefined\<close>. \<^verbatim>\<open>GROQ_MODEL\<close> is stored with its default
  applied.
\<close>

record env =
  GROQ_API_KEY :: "string option"
  GROQ_MODEL :: string
  TOMTOM_API_KEY :: "string option"
  SERPAPI_API_KEY :: "string option"

definition unset :: "string option \<Rightarrow> bool" where
  "unset k = (case k of None \<Rightarrow> True | Some s \<Rightarrow> s = [])"

definition key_text :: "string option \<Rightarrow> string" where
  "key_text k = (case k of None \<Rightarrow> ''undefined'' | Some s \<Rightarrow> s)"

text \<open>
  The requests that leave the process: \<^verbatim>\<open>fetch(url)\<close>, \<^verbatim>\<open>getJson(params)\<close> of the SerpApi
  client, and the \<^verbatim>\<open>fetch\<close> with method POST (its URL, its headers and its body, which is
  a text).
\<close>

datatype call =
    Fetch string
  | GetJson "(string \<times> jsval) list"
  | FetchPost string "(string \<times> string) list" string

text \<open>
  What the services answer. A \<^verbatim>\<open>fetch\<close> rejects or gives a response with its \<^verbatim>\<open>ok\<close> flag
  and what \<^verbatim>\<open>response.json()\<close> gives (an exception or the parsed value, which is a value
  of any shape). A search rejects or gives a value of any shape. The chat completions call
  rejects, or answers not ok with a status and what \<^verbatim>\<open>json()\<close> and \<^verbatim>\<open>text()\<close> give, or
  answers ok; the \<^verbatim>\<open>body\<close> of an ok response is \<^verbatim>\<open>null\<close> (\<open>None\<close>) or a stream, given as
  the results that its reader will deliver.
\<close>

datatype fetch_result = FetchRejected exn | FetchResponse bool "exn + jsval"

datatype 'c groq_result =
    GroqRejected exn
  | GroqNotOk nat "exn + jsval" "exn + string"
  | GroqOk "'c read_result list option"

text \<open>
  The world outside: one answer per request, and which of two rejections of a
  \<^verbatim>\<open>Promise.all\<close> arrives first when both promises reject.
\<close>

record 'c world =
  fetch :: "string \<Rightarrow> fetch_result"
  getJson :: "(string \<times> jsval) list \<Rightarrow> exn + jsval"
  fetch_groq :: "(string \<times> string) list \<Rightarrow> string \<Rightarrow> 'c groq_result"
  second_rejects_first :: bool

text \<open>
  \<^verbatim>\<open>await Promise.all([a, b])\<close>: both promises run, so the requests of both are made; the
  result is the pair of values, or the rejection that comes first. A helper that has made
  no request has thrown before its first \<^verbatim>\<open>await\<close>, so its promise was rejected when it was
  made: when both are rejected, such a first one comes first, otherwise such a second one.
  When both have waited for a request, the world says which of the two fails first.
\<close>

definition promise_all2 ::
  "bool \<Rightarrow> (exn + 'a) \<times> call list \<Rightarrow> (exn + 'b) \<times> call list \<Rightarrow> (exn + 'a \<times> 'b) \<times> call list"
where
  "promise_all2 second_first a b =
     ((case fst a of
         Inr x \<Rightarrow> (case fst b of Inr y \<Rightarrow> Inr (x, y) | Inl e2 \<Rightarrow> Inl e2)
       | Inl e1 \<Rightarrow>
           (case fst b of
              Inr y \<Rightarrow> Inl e1
            | Inl e2 \<Rightarrow>
                Inl (if snd a = [] then e1
                     else if snd b = [] then e2
                     else if second_first then e2 else e1))),
      snd a @ snd b)"

subsection \<open>\<^verbatim>\<open>formatTravelTime\<close>, \<^verbatim>\<open>getCoords\<close>, \<^verbatim>\<open>calculateHaversineDistance\<close>\<close>

text \<open>
  \<^verbatim>\<open>seconds\<close> is whatever the routing service has sent. The two operators convert it to
  a number, which throws for a value that has no primitive form.
\<close>

definition formatTravelTime :: "arith \<Rightarrow> jsval \<Rightarrow> exn + string" where
  "formatTravelTime ar seconds =
     (case ToNumber ar seconds of
        Inl e \<Rightarrow> Inl e
      | Inr s \<Rightarrow>
          (let hours = Math_floor ar (divide_by ar s ''3600'');
               minutes = Math_floor ar (divide_by ar (remainder ar s ''3600'') ''60'')
           in Inr (hours @ '' hours '' @ minutes @ '' mins'')))"

text \<open>
  \<^verbatim>\<open>enc\<close> is \<^verbatim>\<open>encodeURIComponent\<close>, applied to the text of \<^verbatim>\<open>location\<close>; the conversion
  comes before the \<^verbatim>\<open>try\<close> and before the request. The \<^verbatim>\<open>catch\<close> of \<^verbatim>\<open>getCoords\<close> logs
  and throws the error again, so every exception of the body leaves the function as it is.
  The result is \<^verbatim>\<open>data.results[0].position\<close>, whatever it is.
\<close>

definition getCoords ::
  "(string \<Rightarrow> string) \<Rightarrow> env \<Rightarrow> 'c world \<Rightarrow> jsval \<Rightarrow> (exn + jsval) \<times> call list"
where
  "getCoords enc env w location =
     (if unset (TOMTOM_API_KEY env) then (Inl (Error ''TomTom API key is missing''), [])
      else
        (case ToString location of
           Inl e \<Rightarrow> (Inl e, [])
         | Inr loc \<Rightarrow>
             (let url = ''https://api.tomtom.com/search/2/geocode/'' @ enc loc @ ''.json?key='' @
                        key_text (TOMTOM_API_KEY env) @ ''&limit=1''
              in ((case fetch w url of
                     FetchRejected e \<Rightarrow> Inl e
                   | FetchResponse ok js \<Rightarrow>
                       if \<not> ok then Inl (Error (''Failed to geocode location: '' @ loc))
                       else
                         (case js of
                            Inl e \<Rightarrow> Inl e
                          | Inr data \<Rightarrow>
                              (case member ''results'' data of
                                 Inl e \<Rightarrow> Inl e
                               | Inr results \<Rightarrow>
                                   if \<not> truthy results \<or> length_is_zero results
                                   then Inl (Error (''Location not found: '' @ loc))
                                   else member ''position'' (opt_index0 results)))),
                  [Fetch url]))))"

text \<open>
  \<^verbatim>\<open>calculateHaversineDistance\<close>: \<^verbatim>\<open>null\<close> (\<open>None\<close>) when a position or a latitude is
  missing, else the distance with its unit. The subtractions and products convert
  \<^verbatim>\<open>coords2.lat\<close>, \<^verbatim>\<open>coords1.lat\<close>, \<^verbatim>\<open>coords2.lon\<close> and \<^verbatim>\<open>coords1.lon\<close> to numbers, in this
  order, and the function throws when one of them has no primitive form.
\<close>

definition calculateHaversineDistance :: "arith \<Rightarrow> jsval \<Rightarrow> jsval \<Rightarrow> exn + string option" where
  "calculateHaversineDistance ar coords1 coords2 =
     (if \<not> truthy coords1 \<or> \<not> truthy coords2 \<or>
         opt_member ''lat'' coords1 = JUndefined \<or> opt_member ''lat'' coords2 = JUndefined
      then Inr None
      else
        (case ToNumber ar (opt_member ''lat'' coords2) of
           Inl e \<Rightarrow> Inl e
         | Inr lat2 \<Rightarrow>
        (case ToNumber ar (opt_member ''lat'' coords1) of
           Inl e \<Rightarrow> Inl e
         | Inr lat1 \<Rightarrow>
        (case ToNumber ar (opt_member ''lon'' coords2) of
           Inl e \<Rightarrow> Inl e
         | Inr lon2 \<Rightarrow>
        (case ToNumber ar (opt_member ''lon'' coords1) of
           Inl e \<Rightarrow> Inl e
         | Inr lon1 \<Rightarrow>
             Inr (Some (toFixed0 ar (haversine ar lat1 lon1 lat2 lon2) @ '' km'')))))))"

subsection \<open>\<^verbatim>\<open>getTravelData\<close>\<close>

text \<open>
  The parameter object of a SerpApi search with a query only, and the entries that
  \<^verbatim>\<open>options.push\<close> adds.
\<close>

definition serp_query :: "env \<Rightarrow> string \<Rightarrow> (string \<times> jsval) list" where
  "serp_query env q =
     [(''api_key'', JStr (key_text (SERPAPI_API_KEY env))), (''q'', JStr q),
      (''gl'', JStr ''us''), (''hl'', JStr ''en'')]"

definition route_option :: "string \<Rightarrow> string \<Rightarrow> string \<Rightarrow> jsval" where
  "route_option m t d = JObj [(''mode'', JStr m), (''time'', JStr t), (''distance'', JStr d)]"

definition flight_option :: "jsval \<Rightarrow> jsval" where
  "flight_option t = JObj [(''mode'', JStr ''Flight''), (''time'', t)]"

record travel_data =
  options :: "jsval list"
  distance :: jsval

text \<open>
  A query text with the two locations in it: the template literal converts \<^verbatim>\<open>from\<close>,
  then \<^verbatim>\<open>destination\<close>.
\<close>

definition query_text :: "string \<Rightarrow> jsval \<Rightarrow> string \<Rightarrow> jsval \<Rightarrow> exn + string" where
  "query_text a from b destination =
     (case ToString from of
        Inl e \<Rightarrow> Inl e
      | Inr f \<Rightarrow> (case ToString destination of Inl e \<Rightarrow> Inl e | Inr d \<Rightarrow> Inr (a @ f @ b @ d)))"

text \<open>
  What the flight search adds when it has an answer: \<^verbatim>\<open>answer_box?.duration\<close>, else
  \<^verbatim>\<open>answer_box?.snippet\<close>; \<open>None\<close> when both are falsy. Reading \<^verbatim>\<open>answer_box\<close> throws on
  a result that is \<^verbatim>\<open>null\<close>.
\<close>

definition flight_answer :: "jsval \<Rightarrow> exn + jsval option" where
  "flight_answer flightSearch =
     (case member ''answer_box'' flightSearch of
        Inl e \<Rightarrow> Inl e
      | Inr answer_box \<Rightarrow>
          if truthy (opt_member ''duration'' answer_box)
          then Inr (Some (opt_member ''duration'' answer_box))
          else if truthy (opt_member ''snippet'' answer_box)
          then Inr (Some (opt_member ''snippet'' answer_box))
          else Inr None)"

text \<open>
  What the distance search gives: \<^verbatim>\<open>answer_box.answer\<close> when \<^verbatim>\<open>answer_box?.answer\<close> is
  truthy, as it is; \<open>None\<close> otherwise.
\<close>

definition distance_answer :: "jsval \<Rightarrow> exn + jsval option" where
  "distance_answer distanceSearch =
     (case member ''answer_box'' distanceSearch of
        Inl e \<Rightarrow> Inl e
      | Inr answer_box \<Rightarrow>
          if truthy (opt_member ''answer'' answer_box)
          then Inr (Some (opt_member ''answer'' answer_box))
          else Inr None)"

text \<open>
  The \<^verbatim>\<open>catch\<close> of step 1, entered when the coordinates could not be fetched: a distance
  search and a flight search, each in its own \<^verbatim>\<open>try\<close>, then the early return. An
  exception of the query text, of the search or of reading its result leaves the distance,
  or the options, as they are.
\<close>

definition coords_failed :: "env \<Rightarrow> 'c world \<Rightarrow> jsval \<Rightarrow> jsval \<Rightarrow> travel_data \<times> call list" where
  "coords_failed env w from destination =
     (let q1 = query_text ''distance from '' from '' to '' destination;
          q2 = query_text ''flight time from '' from '' to '' destination;
          searching = (\<not> unset (SERPAPI_API_KEY env));
          overallDistance =
            (case q1 of
               Inl searchError \<Rightarrow> JStr ''N/A''
             | Inr q \<Rightarrow>
                 if searching then
                   (case getJson w (serp_query env q) of
                      Inl searchError \<Rightarrow> JStr ''N/A''
                    | Inr distanceSearch \<Rightarrow>
                        (case distance_answer distanceSearch of
                           Inl searchError \<Rightarrow> JStr ''N/A''
                         | Inr None \<Rightarrow> JStr ''N/A''
                         | Inr (Some answer) \<Rightarrow> answer))
                 else JStr ''N/A'');
          opts =
            (case q2 of
               Inl flightError \<Rightarrow> []
             | Inr q \<Rightarrow>
                 if searching then
                   (case getJson w (serp_query env q) of
                      Inl flightError \<Rightarrow> []
                    | Inr flightSearch \<Rightarrow>
                        (case flight_answer flightSearch of
                           Inl flightError \<Rightarrow> []
                         | Inr None \<Rightarrow> []
                         | Inr (Some t) \<Rightarrow> [flight_option t]))
                 else [])
      in (\<lparr>options = opts, distance = overallDistance\<rparr>,
          (case q1 of Inl e \<Rightarrow> [] | Inr q \<Rightarrow> if searching then [GetJson (serp_query env q)] else []) @
          (case q2 of Inl e \<Rightarrow> [] | Inr q \<Rightarrow> if searching then [GetJson (serp_query env q)] else [])))"

text \<open>
  Reading one routing response, inside the \<^verbatim>\<open>try\<close> of step 2. \<^verbatim>\<open>first_route\<close> is the
  test \<^verbatim>\<open>data.routes?.length > 0\<close> followed by \<^verbatim>\<open>data.routes[0].summary\<close>: \<open>None\<close> when the
  test fails. \<^verbatim>\<open>read_summary\<close> adds the distance text \<^verbatim>\<open>(route.lengthInMeters /
  1000).toFixed(0)\<close> with its unit and the time text: its result is \<open>None\<close> when the test
  fails, the pair of the time text and the distance text otherwise, or the exception of a
  read or of a conversion. Nothing is known of the types of \<^verbatim>\<open>routes\<close>, of the summary and
  of its two fields.
\<close>

definition first_route :: "arith \<Rightarrow> jsval \<Rightarrow> exn + jsval option" where
  "first_route ar data =
     (case member ''routes'' data of
        Inl e \<Rightarrow> Inl e
      | Inr routes \<Rightarrow>
     (case length_positive ar routes of
        Inl e \<Rightarrow> Inl e
      | Inr False \<Rightarrow> Inr None
      | Inr True \<Rightarrow>
     (case member ''summary'' (opt_index0 routes) of
        Inl e \<Rightarrow> Inl e
      | Inr route \<Rightarrow> Inr (Some route))))"

definition read_summary :: "arith \<Rightarrow> jsval \<Rightarrow> exn + (string \<times> string) option" where
  "read_summary ar data =
     (case first_route ar data of
        Inl e \<Rightarrow> Inl e
      | Inr None \<Rightarrow> Inr None
      | Inr (Some route) \<Rightarrow>
     (case member ''lengthInMeters'' route of
        Inl e \<Rightarrow> Inl e
      | Inr len \<Rightarrow>
     (case ToNumber ar len of
        Inl e \<Rightarrow> Inl e
      | Inr n \<Rightarrow>
          (let distanceKm = toFixed0 ar (divide_by ar n ''1000'') @ '' km'' in
           case formatTravelTime ar (opt_member ''travelTimeInSeconds'' route) of
             Inl e \<Rightarrow> Inl e
           | Inr t \<Rightarrow> Inr (Some (t, distanceKm))))))"

text \<open>
  A settled routing request: a rejected one and a response that is not ok are passed over,
  the body of an ok response is awaited and read.
\<close>

definition read_route :: "arith \<Rightarrow> fetch_result \<Rightarrow> exn + (string \<times> string) option" where
  "read_route ar r =
     (case r of
        FetchRejected e \<Rightarrow> Inr None
      | FetchResponse ok js \<Rightarrow>
          if ok then (case js of Inl e \<Rightarrow> Inl e | Inr data \<Rightarrow> read_summary ar data)
          else Inr None)"

text \<open>
  Step 2, the two routing requests. The text of the coordinates converts the four
  fields, which can throw before any request is made. \<^verbatim>\<open>Promise.allSettled\<close> never
  rejects. \<^verbatim>\<open>route_options\<close> is what the two responses leave, the options and the
  distance: an exception while the car response is read skips the bus response; an
  exception while the bus response is read leaves what the car response gave.
\<close>

definition coords_text :: "jsval \<Rightarrow> jsval \<Rightarrow> exn + string" where
  "coords_text fromCoords destCoords =
     (case ToString (opt_member ''lat'' fromCoords) of Inl e \<Rightarrow> Inl e | Inr a \<Rightarrow>
     (case ToString (opt_member ''lon'' fromCoords) of Inl e \<Rightarrow> Inl e | Inr b \<Rightarrow>
     (case ToString (opt_member ''lat'' destCoords) of Inl e \<Rightarrow> Inl e | Inr c \<Rightarrow>
     (case ToString (opt_member ''lon'' destCoords) of Inl e \<Rightarrow> Inl e | Inr d \<Rightarrow>
        Inr (a @ '','' @ b @ '':'' @ c @ '','' @ d)))))"

definition route_options ::
  "exn + (string \<times> string) option \<Rightarrow> exn + (string \<times> string) option \<Rightarrow> jsval list \<times> jsval"
where
  "route_options carRead busRead =
     (case carRead of
        Inl error \<Rightarrow> ([], JStr ''N/A'')
      | Inr car \<Rightarrow>
          (let opts1 =
                 (case car of
                    None \<Rightarrow> []
                  | Some (t, distanceKm) \<Rightarrow> [route_option ''Car'' t distanceKm]);
               dist1 =
                 (case car of
                    None \<Rightarrow> JStr ''N/A''
                  | Some (t, distanceKm) \<Rightarrow> JStr distanceKm)
           in case busRead of
                Inl error \<Rightarrow> (opts1, dist1)
              | Inr None \<Rightarrow> (opts1, dist1)
              | Inr (Some (t, distanceKm)) \<Rightarrow>
                  (opts1 @ [route_option ''Bus/Train (Public)'' t distanceKm],
                   if dist1 = JStr ''N/A'' then JStr distanceKm else dist1)))"

definition routing ::
  "arith \<Rightarrow> env \<Rightarrow> 'c world \<Rightarrow> jsval \<Rightarrow> jsval \<Rightarrow> (jsval list \<times> jsval) \<times> call list"
where
  "routing ar env w fromCoords destCoords =
     (if truthy fromCoords \<and> truthy destCoords then
        (case coords_text fromCoords destCoords of
           Inl error \<Rightarrow> (([], JStr ''N/A''), [])
         | Inr coordsString \<Rightarrow>
        (let carUrl = ''https://api.tomtom.com/routing/1/calculateRoute/'' @ coordsString @
                      ''/json?key='' @ key_text (TOMTOM_API_KEY env) @ ''&travelMode=car'';
             busUrl = ''https://api.tomtom.com/routing/1/calculateRoute/'' @ coordsString @
                      ''/json?key='' @ key_text (TOMTOM_API_KEY env) @ ''&travelMode=bus''
         in (route_options (read_route ar (fetch w carUrl)) (read_route ar (fetch w busUrl)),
             [Fetch carUrl, Fetch busUrl])))
      else (([], JStr ''N/A''), []))"

text \<open>
  Step 3, the flight search, on the options that step 2 left. Every exception of the
  \<^verbatim>\<open>try\<close> (the missing key, the query text, a rejected search, a result that is \<^verbatim>\<open>null\<close>,
  the Haversine arithmetic) leaves the options as they are. The guess is made from the
  first word of the Haversine text.
\<close>

definition flight_info ::
  "arith \<Rightarrow> env \<Rightarrow> 'c world \<Rightarrow> jsval \<Rightarrow> jsval \<Rightarrow> jsval \<Rightarrow> jsval \<Rightarrow> jsval list \<Rightarrow>
   jsval list \<times> call list"
where
  "flight_info ar env w from destination fromCoords destCoords opts =
     (if unset (SERPAPI_API_KEY env) then (opts, [])
      else
        (case query_text ''flight time from '' from '' to '' destination of
           Inl error \<Rightarrow> (opts, [])
         | Inr flightQuery \<Rightarrow>
             ((case getJson w (serp_query env flightQuery) of
                 Inl error \<Rightarrow> opts
               | Inr flightSearch \<Rightarrow>
                   (case flight_answer flightSearch of
                      Inl error \<Rightarrow> opts
                    | Inr (Some t) \<Rightarrow> opts @ [flight_option t]
                    | Inr None \<Rightarrow>
                        if length opts = 0 \<and> truthy fromCoords \<and> truthy destCoords then
                          (case calculateHaversineDistance ar fromCoords destCoords of
                             Inl error \<Rightarrow> opts
                           | Inr None \<Rightarrow> opts
                           | Inr (Some distKmStr) \<Rightarrow>
                               (case parseInt10 (takeWhile (\<lambda>c. c \<noteq> CHR '' '') distKmStr) of
                                  None \<Rightarrow> opts
                                | Some n \<Rightarrow>
                                    if distKmStr \<noteq> [] \<and> n > 1000
                                    then opts @ [flight_option (JStr ''Varies (check airlines)'')]
                                    else opts))
                        else opts)),
              [GetJson (serp_query env flightQuery)])))"

text \<open>
  Step 4, entered when the distance is still \<^verbatim>\<open>N/A\<close>: the search answer, else the
  Haversine estimate. The \<^verbatim>\<open>catch\<close> takes the Haversine estimate as well, outside any
  \<^verbatim>\<open>try\<close>: when the arithmetic throws there, the exception leaves the function. (When it
  has thrown inside the \<^verbatim>\<open>try\<close>, the \<^verbatim>\<open>catch\<close> runs it again and it throws again.)
\<close>

definition distance_fallback ::
  "arith \<Rightarrow> env \<Rightarrow> 'c world \<Rightarrow> jsval \<Rightarrow> jsval \<Rightarrow> jsval \<Rightarrow> jsval \<Rightarrow> jsval \<Rightarrow>
   (exn + jsval) \<times> call list"
where
  "distance_fallback ar env w from destination fromCoords destCoords overallDistance =
     (if overallDistance = JStr ''N/A'' then
        (let direct =
               (case calculateHaversineDistance ar fromCoords destCoords of
                  Inl e \<Rightarrow> Inl e
                | Inr None \<Rightarrow> Inr overallDistance
                | Inr (Some haversineDist) \<Rightarrow>
                    Inr (if haversineDist \<noteq> [] then JStr (haversineDist @ '' (direct)'')
                         else overallDistance))
         in if unset (SERPAPI_API_KEY env) then (direct, [])
            else
              (case query_text ''distance between '' from '' and '' destination of
                 Inl error \<Rightarrow> (direct, [])
               | Inr distanceQuery \<Rightarrow>
                   ((case getJson w (serp_query env distanceQuery) of
                       Inl error \<Rightarrow> direct
                     | Inr distanceSearch \<Rightarrow>
                         (case distance_answer distanceSearch of
                            Inl error \<Rightarrow> direct
                          | Inr (Some answer) \<Rightarrow> Inr answer
                          | Inr None \<Rightarrow> direct)),
                    [GetJson (serp_query env distanceQuery)])))
      else (Inr overallDistance, []))"

text \<open>
  Step 1: the two positions that \<^verbatim>\<open>POST\<close> hands over, or, when one of them is falsy, the
  positions that the geocoder gives.
\<close>

definition ensure_coords ::
  "(string \<Rightarrow> string) \<Rightarrow> env \<Rightarrow> 'c world \<Rightarrow> jsval \<Rightarrow> jsval \<Rightarrow> jsval \<Rightarrow> jsval \<Rightarrow>
   (exn + jsval \<times> jsval) \<times> call list"
where
  "ensure_coords enc env w from destination preFetchedFromCoords preFetchedDestCoords =
     (if \<not> truthy preFetchedFromCoords \<or> \<not> truthy preFetchedDestCoords
      then promise_all2 (second_rejects_first w)
             (getCoords enc env w from) (getCoords enc env w destination)
      else (Inr (preFetchedFromCoords, preFetchedDestCoords), []))"

text \<open>
  The function. \<^verbatim>\<open>from\<close> and \<^verbatim>\<open>destination\<close> are the values of the request body. The
  result is a value or the exception of step 4; the steps above have dealt with every other
  exception, as the code does.
\<close>

definition getTravelData ::
  "(string \<Rightarrow> string) \<Rightarrow> arith \<Rightarrow> env \<Rightarrow> 'c world \<Rightarrow> jsval \<Rightarrow> jsval \<Rightarrow> jsval \<Rightarrow> jsval \<Rightarrow>
   (exn + travel_data) \<times> call list"
where
  "getTravelData enc ar env w from destination preFetchedFromCoords preFetchedDestCoords =
     (case ensure_coords enc env w from destination preFetchedFromCoords preFetchedDestCoords of
        (Inl error, cs1) \<Rightarrow>
          (case coords_failed env w from destination of (r, cs2) \<Rightarrow> (Inr r, cs1 @ cs2))
      | (Inr (fromCoords, destCoords), cs1) \<Rightarrow>
          (case routing ar env w fromCoords destCoords of
             ((opts2, dist2), cs2) \<Rightarrow>
               (case flight_info ar env w from destination fromCoords destCoords opts2 of
                  (opts3, cs3) \<Rightarrow>
                    (case distance_fallback ar env w from destination fromCoords destCoords dist2 of
                       (Inl e, cs4) \<Rightarrow> (Inl e, cs1 @ cs2 @ cs3 @ cs4)
                     | (Inr dist4, cs4) \<Rightarrow>
                         (Inr \<lparr>options = opts3, distance = dist4\<rparr>, cs1 @ cs2 @ cs3 @ cs4)))))"





text \<open>
  A value that has a primitive form, so that its conversion to a string or to a number does
  not throw, and a position whose latitude and longitude are such values (numbers, as the
  geocoder documents them).
\<close>

definition convertible :: "jsval \<Rightarrow> bool" where
  "convertible v = (case ToString v of Inl e \<Rightarrow> False | Inr s \<Rightarrow> True)"


subsection \<open>\<^verbatim>\<open>getDestinationInfo\<close>\<close>

text \<open>
  The search term of a budget. \<^verbatim>\<open>budget.toLowerCase()\<close> throws when \<^verbatim>\<open>budget\<close> is not
  a string.
\<close>

definition budgetSearchTerm :: "jsval \<Rightarrow> exn + string" where
  "budgetSearchTerm budget =
     (case call_toLowerCase budget of
        Inl e \<Rightarrow> Inl e
      | Inr b \<Rightarrow>
          Inr (if b = ''luxury'' then ''luxury 5 star hotels''
               else if b = ''mid-range'' then ''best 3 star and 4 star hotels''
               else ''low cost 3 star hotels''))"

text \<open>
  \<^verbatim>\<open>v?.map(a => a.k)\<close>: \<^verbatim>\<open>undefined\<close> on \<^verbatim>\<open>null\<close> and \<^verbatim>\<open>undefined\<close>, the mapped array on an
  array (the callback throws on a \<^verbatim>\<open>null\<close> element), a TypeError on every other value, which
  has no method \<^verbatim>\<open>map\<close>.
\<close>

definition opt_map_member :: "string \<Rightarrow> jsval \<Rightarrow> exn + jsval" where
  "opt_map_member k v =
     (case v of
        JUndefined \<Rightarrow> Inr JUndefined
      | JNull \<Rightarrow> Inr JUndefined
      | JArr xs \<Rightarrow> (case map_throwing (member k) xs of Inl e \<Rightarrow> Inl e | Inr ys \<Rightarrow> Inr (JArr ys))
      | _ \<Rightarrow> Inl (TypeError ''map is not a function''))"

text \<open>
  The highlights: the names of the tourist attractions of the knowledge graph, else the
  titles of the top sights, else none. The first array that exists is taken, also when it
  is empty.
\<close>

definition highlights_of :: "jsval \<Rightarrow> exn + jsval list" where
  "highlights_of attractionsSearch =
     (case member ''knowledge_graph'' attractionsSearch of
        Inl e \<Rightarrow> Inl e
      | Inr kg \<Rightarrow>
          (case opt_map_member ''name'' (opt_member ''tourist_attractions'' kg) of
             Inl e \<Rightarrow> Inl e
           | Inr (JArr names) \<Rightarrow> Inr names
           | Inr _ \<Rightarrow>
               (case opt_map_member ''title''
                       (opt_member ''sights'' (opt_member ''top_sights'' attractionsSearch)) of
                  Inl e \<Rightarrow> Inl e
                | Inr (JArr titles) \<Rightarrow> Inr titles
                | Inr _ \<Rightarrow> Inr [])))"

text \<open>
  The callback of \<^verbatim>\<open>local_results...map\<close> and the object that it builds from one
  result. Reading \<^verbatim>\<open>h.title\<close> throws on a \<^verbatim>\<open>null\<close> or \<^verbatim>\<open>undefined\<close> result. The name
  and the address go through \<^verbatim>\<open>String(...).trim()\<close>, which throws for a value that has no
  primitive form; the rating goes through a \<^verbatim>\<open>typeof\<close> test, the photo and the link through
  \<^verbatim>\<open>||\<close> only. (On a result that is a string, \<^verbatim>\<open>h.link\<close> is a method of the prototype and
  the entry would hold a function: such a result has no title and no name, so its entry is
  named \<^verbatim>\<open>Hotel\<close> and the filter drops it.)
\<close>

definition photo_of :: "jsval \<Rightarrow> jsval" where
  "photo_of h =
     js_or (js_or (js_or (opt_member ''thumbnail'' h) (opt_member ''thumbnail_image'' h))
                  (opt_member ''image'' h)) JNull"

definition link_of :: "jsval \<Rightarrow> jsval" where
  "link_of h = js_or (js_or (opt_member ''website'' h) (opt_member ''link'' h)) JNull"

definition to_hotel :: "jsval \<Rightarrow> exn + jsval" where
  "to_hotel h =
     (case member ''title'' h of
        Inl e \<Rightarrow> Inl e
      | Inr title \<Rightarrow>
     (case ToString (js_or (js_or title (opt_member ''name'' h)) (JStr ''Hotel'')) of
        Inl e \<Rightarrow> Inl e
      | Inr name \<Rightarrow>
     (case ToString (js_or (js_or (opt_member ''address'' h) (opt_member ''vicinity'' h)) (JStr [])) of
        Inl e \<Rightarrow> Inl e
      | Inr address \<Rightarrow>
          Inr (JObj [(''name'', JStr (js_trim name)),
                     (''address'', JStr (js_trim address)),
                     (''photo'', photo_of h),
                     (''rating'', (case opt_member ''rating'' h of JNum t \<Rightarrow> JNum t | _ \<Rightarrow> JNull)),
                     (''link'', link_of h)]))))"

definition keep_hotel :: "jsval \<Rightarrow> bool" where
  "keep_hotel h = (truthy (opt_member ''name'' h) \<and> opt_member ''name'' h \<noteq> JStr ''Hotel'')"

text \<open>
  \<^verbatim>\<open>if (search?.local_results?.length) hotels = search.local_results.slice(0, 6).map(...)
  .filter(...)\<close>: \<open>None\<close> when the test fails and \<^verbatim>\<open>hotels\<close> keeps its value. A string or an
  object with a truthy \<^verbatim>\<open>length\<close> passes the test and then has no \<^verbatim>\<open>map\<close> or no \<^verbatim>\<open>slice\<close>.
\<close>

definition hotels_of :: "jsval \<Rightarrow> exn + jsval list option" where
  "hotels_of search =
     (case opt_member ''local_results'' search of
        JArr xs \<Rightarrow>
          if xs = [] then Inr None
          else (case map_throwing to_hotel (take 6 xs) of
                  Inl e \<Rightarrow> Inl e
                | Inr hs \<Rightarrow> Inr (Some (filter keep_hotel hs)))
      | JStr s \<Rightarrow> if s = [] then Inr None else Inl (TypeError ''map is not a function'')
      | JObj kvs \<Rightarrow>
          if truthy (own kvs ''length'') then Inl (TypeError ''slice is not a function'')
          else Inr None
      | _ \<Rightarrow> Inr None)"

text \<open>
  One of the two fallback searches, in its own \<^verbatim>\<open>try\<close>: a rejected search and an
  exception while its results are read both leave \<^verbatim>\<open>hotels\<close> as it is.
\<close>

definition hotels_fallback :: "'c world \<Rightarrow> (string \<times> jsval) list \<Rightarrow> jsval list \<Rightarrow> jsval list \<times> call list" where
  "hotels_fallback w p hotels =
     ((case getJson w p of
         Inl e \<Rightarrow> hotels
       | Inr search \<Rightarrow>
           (case hotels_of search of
              Inl e \<Rightarrow> hotels
            | Inr None \<Rightarrow> hotels
            | Inr (Some hs) \<Rightarrow> hs)),
      [GetJson p])"

text \<open>
  The two fallbacks after the first search, each entered when \<^verbatim>\<open>hotels.length === 0\<close>: the
  Google Maps search with the parameters \<open>pm\<close>, then the plain search with \<open>ps\<close>.
\<close>

definition with_fallbacks ::
  "'c world \<Rightarrow> (string \<times> jsval) list \<Rightarrow> (string \<times> jsval) list \<Rightarrow> jsval list \<Rightarrow> jsval list \<times> call list"
where
  "with_fallbacks w pm ps hotels0 =
     (let f1 = (if length hotels0 = 0 then hotels_fallback w pm hotels0 else (hotels0, []));
          f2 = (if length (fst f1) = 0 then hotels_fallback w ps (fst f1) else (fst f1, []))
      in (fst f2, snd f1 @ snd f2))"

text \<open>
  \<^verbatim>\<open>answer_box?.snippet || answer_box?.answer || (organic_results && organic_results[0]
  .snippet) || "Varies by season."\<close>, the later operands read only when the earlier ones
  are falsy. The read of \<^verbatim>\<open>organic_results[0].snippet\<close> throws on an empty array.
\<close>

definition bestTime_of :: "jsval \<Rightarrow> exn + jsval" where
  "bestTime_of bestTimeSearch =
     (case member ''answer_box'' bestTimeSearch of
        Inl e \<Rightarrow> Inl e
      | Inr answer_box \<Rightarrow>
          if truthy (opt_member ''snippet'' answer_box) then Inr (opt_member ''snippet'' answer_box)
          else if truthy (opt_member ''answer'' answer_box) then Inr (opt_member ''answer'' answer_box)
          else
            (let organic_results = opt_member ''organic_results'' bestTimeSearch in
             if truthy organic_results then
               (case member ''snippet'' (opt_index0 organic_results) of
                  Inl e \<Rightarrow> Inl e
                | Inr snippet \<Rightarrow> Inr (js_or snippet (JStr ''Varies by season.'')))
             else Inr (JStr ''Varies by season.'')))"

record destination_info =
  highlights :: "jsval list"
  hotels :: "jsval list"
  bestTime :: jsval

text \<open>
  The body of the \<^verbatim>\<open>try\<close> of \<^verbatim>\<open>getDestinationInfo\<close> from the three searches on, with
  the parameter objects of the five searches given: the three searches, which are all
  started before the first is awaited, the highlights, the hotels with the two fallbacks,
  the best time.
\<close>

definition destination_searches ::
  "'c world \<Rightarrow> (string \<times> jsval) list \<Rightarrow> (string \<times> jsval) list \<Rightarrow> (string \<times> jsval) list \<Rightarrow>
   (string \<times> jsval) list \<Rightarrow> (string \<times> jsval) list \<Rightarrow> (exn + destination_info) \<times> call list"
where
  "destination_searches w pa ph pb pm ps =
     (let cs0 = [GetJson pa, GetJson ph, GetJson pb]
      in case getJson w pa of
           Inl e \<Rightarrow> (Inl e, cs0)
         | Inr attractionsSearch \<Rightarrow>
        (case getJson w ph of
           Inl e \<Rightarrow> (Inl e, cs0)
         | Inr hotelsSearch \<Rightarrow>
        (case getJson w pb of
           Inl e \<Rightarrow> (Inl e, cs0)
         | Inr bestTimeSearch \<Rightarrow>
        (case highlights_of attractionsSearch of
           Inl e \<Rightarrow> (Inl e, cs0)
         | Inr hl \<Rightarrow>
        (case hotels_of hotelsSearch of
           Inl e \<Rightarrow> (Inl e, cs0)
         | Inr found \<Rightarrow>
             (let f = with_fallbacks w pm ps (case found of None \<Rightarrow> [] | Some hs \<Rightarrow> hs);
                  cs = cs0 @ snd f
              in case bestTime_of bestTimeSearch of
                   Inl e \<Rightarrow> (Inl e, cs)
                 | Inr bt \<Rightarrow> (Inr \<lparr>highlights = hl, hotels = fst f, bestTime = bt\<rparr>, cs)))))))"

text \<open>
  The body of the \<^verbatim>\<open>try\<close>. \<^verbatim>\<open>destination\<close> and \<^verbatim>\<open>budget\<close> are the values of the request
  body. The search term and the three query texts come first, and their conversions can
  throw before any search is made. The hotel searches carry \<^verbatim>\<open>destination\<close> itself as
  \<^verbatim>\<open>location\<close>.
\<close>

definition destination_body ::
  "env \<Rightarrow> 'c world \<Rightarrow> jsval \<Rightarrow> jsval \<Rightarrow> (exn + destination_info) \<times> call list"
where
  "destination_body env w destination budget =
     (if unset (SERPAPI_API_KEY env) then (Inl (Error ''SerpApi key is missing''), [])
      else
        (case budgetSearchTerm budget of
           Inl e \<Rightarrow> (Inl e, [])
         | Inr term \<Rightarrow>
        (case ToString destination of
           Inl e \<Rightarrow> (Inl e, [])
         | Inr dest \<Rightarrow>
        (let attractionsQuery = ''top attractions in '' @ dest;
             hotelsQuery = term @ '' in '' @ dest;
             bestTimeQuery = ''when is the best time to visit '' @ dest
         in destination_searches w
              (serp_query env attractionsQuery)
              (serp_query env hotelsQuery @
                 [(''location'', destination), (''num'', JNum ''6''), (''tbm'', JStr ''lcl'')])
              (serp_query env bestTimeQuery)
              [(''api_key'', JStr (key_text (SERPAPI_API_KEY env))), (''engine'', JStr ''google_maps''),
               (''q'', JStr (term @ '' '' @ dest)), (''type'', JStr ''search'')]
              (serp_query env (''hotels in '' @ dest) @
                 [(''location'', destination), (''num'', JNum ''6'')])))))"

definition error_info :: destination_info where
  "error_info = \<lparr>highlights = [], hotels = [], bestTime = JStr ''N/A (Error fetching details)''\<rparr>"

text \<open>
  The function: the \<^verbatim>\<open>catch\<close> turns every exception of the body into the object of the
  error case.
\<close>

definition getDestinationInfo ::
  "env \<Rightarrow> 'c world \<Rightarrow> jsval \<Rightarrow> jsval \<Rightarrow> (exn + destination_info) \<times> call list"
where
  "getDestinationInfo env w destination budget =
     (case destination_body env w destination budget of
        (Inl error, cs) \<Rightarrow> (Inr error_info, cs)
      | (Inr info, cs) \<Rightarrow> (Inr info, cs))"

text \<open>The words of the claim about a field: a number or \<^verbatim>\<open>null\<close>, a string or \<^verbatim>\<open>null\<close>.\<close>

definition number_or_null :: "jsval \<Rightarrow> bool" where
  "number_or_null v = (case v of JNum t \<Rightarrow> True | JNull \<Rightarrow> True | _ \<Rightarrow> False)"

definition string_or_null :: "jsval \<Rightarrow> bool" where
  "string_or_null v = (case v of JStr s \<Rightarrow> True | JNull \<Rightarrow> True | _ \<Rightarrow> False)"

text \<open>
  Where an entry of \<^verbatim>\<open>hotels\<close> comes from: \<open>src\<close> is one of the first six local results
  of the answer to one of the searches \<open>cs\<close>, and the entry is what the callback makes of it.
\<close>

definition from_search :: "'c world \<Rightarrow> call list \<Rightarrow> jsval \<Rightarrow> jsval \<Rightarrow> bool" where
  "from_search w cs src h =
     (\<exists>p search xs. GetJson p \<in> set cs \<and> getJson w p = Inr search \<and>
        opt_member ''local_results'' search = JArr xs \<and> src \<in> set (take 6 xs) \<and>
        to_hotel src = Inr h)"

text \<open>A field of a search result that is a string or is missing.\<close>

definition string_or_missing :: "jsval \<Rightarrow> bool" where
  "string_or_missing v = (case v of JStr s \<Rightarrow> True | JUndefined \<Rightarrow> True | _ \<Rightarrow> False)"

section \<open>Dates\<close>

text \<open>
  A \<^verbatim>\<open>Date\<close> holds a time value: the milliseconds since the epoch, or \<^verbatim>\<open>NaN\<close> (\<open>None\<close>).
  The functions below are the abstract operations of the language standard. Two things are
  parameters: the parser of \<^verbatim>\<open>new Date(string)\<close> (\<open>None\<close> when the text is no date), and
  the offset of the local time zone, which the standard gives as a function of a time and
  of whether that time is universal or local, so that the offset may change over the year.
\<close>

definition msPerDay :: int where
  "msPerDay = 86400000"

definition TimeClip :: "int \<Rightarrow> int option" where
  "TimeClip t = (if \<bar>t\<bar> \<le> 8640000000000000 then Some t else None)"

definition Day :: "int \<Rightarrow> int" where
  "Day t = t div msPerDay"

definition TimeWithinDay :: "int \<Rightarrow> int" where
  "TimeWithinDay t = t mod msPerDay"

definition DayFromYear :: "int \<Rightarrow> int" where
  "DayFromYear y = 365 * (y - 1970) + (y - 1969) div 4 - (y - 1901) div 100 + (y - 1601) div 400"

text \<open>
  The year of a time value is the largest year that starts at or before it: an estimate
  from the mean length of a year, moved by one year where it is off.
\<close>

definition YearFromTime :: "int \<Rightarrow> int" where
  "YearFromTime t =
     (let y = 1970 + (Day t * 400) div 146097 in
      if DayFromYear (y + 1) \<le> Day t then y + 1
      else if Day t < DayFromYear y then y - 1
      else y)"

definition InLeapYear :: "int \<Rightarrow> int" where
  "InLeapYear t =
     (let y = YearFromTime t in
      if y mod 4 = 0 \<and> (y mod 100 \<noteq> 0 \<or> y mod 400 = 0) then 1 else 0)"

definition DayWithinYear :: "int \<Rightarrow> int" where
  "DayWithinYear t = Day t - DayFromYear (YearFromTime t)"

definition MonthFromTime :: "int \<Rightarrow> int" where
  "MonthFromTime t =
     (let d = DayWithinYear t; l = InLeapYear t in
      if d < 31 then 0 else if d < 59 + l then 1 else if d < 90 + l then 2
      else if d < 120 + l then 3 else if d < 151 + l then 4 else if d < 181 + l then 5
      else if d < 212 + l then 6 else if d < 243 + l then 7 else if d < 273 + l then 8
      else if d < 304 + l then 9 else if d < 334 + l then 10 else 11)"

text \<open>The day of the year on which month \<open>m\<close> (0 to 11) starts, \<open>l\<close> being 1 in a leap year.\<close>

definition month_start :: "int \<Rightarrow> int \<Rightarrow> int" where
  "month_start m l =
     (if m = 0 then 0 else if m = 1 then 31 else if m = 2 then 59 + l
      else if m = 3 then 90 + l else if m = 4 then 120 + l else if m = 5 then 151 + l
      else if m = 6 then 181 + l else if m = 7 then 212 + l else if m = 8 then 243 + l
      else if m = 9 then 273 + l else if m = 10 then 304 + l else 334 + l)"

definition DateFromTime :: "int \<Rightarrow> int" where
  "DateFromTime t = DayWithinYear t - month_start (MonthFromTime t) (InLeapYear t) + 1"

text \<open>
  \<^verbatim>\<open>MakeDay(year, month, date)\<close>: the day number of the first of the month, plus the date
  minus one; a month outside 0 to 11 carries into the year.
\<close>

definition MakeDay :: "int \<Rightarrow> int \<Rightarrow> int \<Rightarrow> int" where
  "MakeDay year month date =
     (let ym = year + month div 12;
          mn = month mod 12;
          l = (if ym mod 4 = 0 \<and> (ym mod 100 \<noteq> 0 \<or> ym mod 400 = 0) then 1 else 0)
      in DayFromYear ym + month_start mn l + date - 1)"

definition MakeDate :: "int \<Rightarrow> int \<Rightarrow> int" where
  "MakeDate day time = day * msPerDay + time"

text \<open>Local time of a universal time, and back.\<close>

definition LocalTime :: "(int \<Rightarrow> bool \<Rightarrow> int) \<Rightarrow> int \<Rightarrow> int" where
  "LocalTime tza t = t + tza t True"

definition UTC :: "(int \<Rightarrow> bool \<Rightarrow> int) \<Rightarrow> int \<Rightarrow> int" where
  "UTC tza t = t - tza t False"

text \<open>
  \<^verbatim>\<open>new Date(value)\<close> for a value that is no \<^verbatim>\<open>Date\<close>: a string is parsed, an array or
  an object is converted to its text (which can throw) and parsed, every other value is
  converted to a number.
\<close>

definition new_Date :: "arith \<Rightarrow> (string \<Rightarrow> int option) \<Rightarrow> jsval \<Rightarrow> exn + int option" where
  "new_Date ar date_parse value =
     (case value of
        JUndefined \<Rightarrow> Inr None
      | JNull \<Rightarrow> Inr (Some 0)
      | JBool b \<Rightarrow> Inr (Some (if b then 1 else 0))
      | JNum t \<Rightarrow> Inr (case integer_part ar t of None \<Rightarrow> None | Some i \<Rightarrow> TimeClip i)
      | JStr s \<Rightarrow> Inr (case date_parse s of None \<Rightarrow> None | Some t \<Rightarrow> TimeClip t)
      | _ \<Rightarrow>
          (case ToString value of
             Inl e \<Rightarrow> Inl e
           | Inr s \<Rightarrow> Inr (case date_parse s of None \<Rightarrow> None | Some t \<Rightarrow> TimeClip t)))"

text \<open>
  \<^verbatim>\<open>currentDate.setDate(currentDate.getDate() + 1)\<close>, and the string that the loop pushes
  for a date, from \<^verbatim>\<open>getFullYear()\<close>, \<^verbatim>\<open>getMonth()\<close> and \<^verbatim>\<open>getDate()\<close>, which read the
  local time. The year is printed as a number, month and day are padded to two digits; an
  invalid date prints \<^verbatim>\<open>NaN\<close> three times.
\<close>

definition setDate_next :: "(int \<Rightarrow> bool \<Rightarrow> int) \<Rightarrow> int option \<Rightarrow> int option" where
  "setDate_next tza cur =
     (case cur of
        None \<Rightarrow> None
      | Some t \<Rightarrow>
          (let l = LocalTime tza t;
               newDate = MakeDate (MakeDay (YearFromTime l) (MonthFromTime l) (DateFromTime l + 1))
                                  (TimeWithinDay l)
           in TimeClip (UTC tza newDate)))"

definition padStart2 :: "string \<Rightarrow> string" where
  "padStart2 s = replicate (2 - length s) (CHR ''0'') @ s"

definition date_string :: "(int \<Rightarrow> bool \<Rightarrow> int) \<Rightarrow> int option \<Rightarrow> string" where
  "date_string tza cur =
     (case cur of
        None \<Rightarrow> ''NaN-NaN-NaN''
      | Some t \<Rightarrow>
          (let year = YearFromTime (LocalTime tza t);
               month = padStart2 (show_int (MonthFromTime (LocalTime tza t) + 1));
               day = padStart2 (show_int (DateFromTime (LocalTime tza t)))
           in show_int year @ ''-'' @ month @ ''-'' @ day))"

text \<open>The loop \<^verbatim>\<open>for (let i = 0; i < calculatedDays; i++)\<close>, by the number of rounds left.\<close>

fun fill_dates :: "(int \<Rightarrow> bool \<Rightarrow> int) \<Rightarrow> nat \<Rightarrow> int option \<Rightarrow> string list \<Rightarrow> string list" where
  "fill_dates tza 0 currentDate acc = acc"
| "fill_dates tza (Suc n) currentDate acc =
     fill_dates tza n (setDate_next tza currentDate) (acc @ [date_string tza currentDate])"

text \<open>
  The block that computes the number of days and the dates. Every exception of the
  \<^verbatim>\<open>try\<close> (a conversion in \<^verbatim>\<open>new Date\<close>, the two \<^verbatim>\<open>throw\<close>s) lands in the \<^verbatim>\<open>catch\<close>, before
  anything is assigned, and leaves the defaults.

  \<^verbatim>\<open>Math.round((end - start) / oneDay)\<close> is floating point. For a difference below \<open>2\<^sup>5\<^sup>3\<close>
  milliseconds (285 thousand years) the subtraction is exact and the rounding error of the
  quotient is smaller than the share of one millisecond in a day, so the computed quotient
  lies on the same side of every half as the exact one, and a half itself is exact: the
  result is the floor of the exact quotient plus one half, which is what the model
  computes. For a longer range the rounded quotient is taken from the arithmetic.
\<close>

record date_plan =
  numberOfDays :: string
  calculatedDays :: nat
  allDates :: "string list"

definition no_plan :: date_plan where
  "no_plan = \<lparr>numberOfDays = ''the specified date range'', calculatedDays = 0, allDates = []\<rparr>"

definition plan_dates ::
  "arith \<Rightarrow> (string \<Rightarrow> int option) \<Rightarrow> (int \<Rightarrow> bool \<Rightarrow> int) \<Rightarrow> jsval \<Rightarrow> jsval \<Rightarrow> date_plan"
where
  "plan_dates ar date_parse tza startDate endDate =
     (case new_Date ar date_parse startDate of
        Inl e \<Rightarrow> no_plan
      | Inr None \<Rightarrow>
          (case new_Date ar date_parse endDate of Inl e \<Rightarrow> no_plan | Inr end' \<Rightarrow> no_plan)
      | Inr (Some start') \<Rightarrow>
          (case new_Date ar date_parse endDate of
             Inl e \<Rightarrow> no_plan
           | Inr None \<Rightarrow> no_plan
           | Inr (Some end') \<Rightarrow>
               if start' > end' then no_plan
               else
                 (let oneDay = 1000 * 60 * 60 * 24;
                      days =
                        (if \<bar>end' - start'\<bar> < 2 ^ 53
                         then nat ((2 * \<bar>end' - start'\<bar> + oneDay) div (2 * oneDay))
                         else round_days ar \<bar>end' - start'\<bar>) + 1
                  in \<lparr>numberOfDays = show_nat days @ '' days'',
                      calculatedDays = days,
                      allDates = fill_dates tza days (Some start') []\<rparr>)))"

section \<open>The prompt\<close>

text \<open>
  The seven values that the handler takes from the body of the request by destructuring.
  The body is what \<^verbatim>\<open>request.json()\<close> has given, a value of any shape; destructuring
  throws on \<^verbatim>\<open>null\<close> and \<^verbatim>\<open>undefined\<close> and gives \<^verbatim>\<open>undefined\<close> for a property that is
  missing.
\<close>

record request =
  req_from :: jsval
  req_destination :: jsval
  req_startDate :: jsval
  req_endDate :: jsval
  req_budget :: jsval
  req_transportMode :: jsval
  req_interests :: jsval

definition destructure :: "jsval \<Rightarrow> exn + request" where
  "destructure body =
     (case member ''from'' body of
        Inl e \<Rightarrow> Inl e
      | Inr f \<Rightarrow>
          Inr \<lparr>req_from = f,
               req_destination = opt_member ''destination'' body,
               req_startDate = opt_member ''startDate'' body,
               req_endDate = opt_member ''endDate'' body,
               req_budget = opt_member ''budget'' body,
               req_transportMode = opt_member ''transportMode'' body,
               req_interests = opt_member ''interests'' body\<rparr>)"

text \<open>
  The interpolations of the template that are more than a conversion.
  \<^verbatim>\<open>interests.join(', ')\<close>: only an array has the method. \<^verbatim>\<open>destinationInfo.highlights
  .join(', ') || 'N/A'\<close>. \<^verbatim>\<open>allDates[i]\<close> on the array of strings. \<^verbatim>\<open>destinationInfo.hotels
  .length > 0 ? destinationInfo.hotels[0].name : `a ${budget} hotel`\<close>.
\<close>

fun call_join :: "string \<Rightarrow> jsval \<Rightarrow> exn + string" where
  "call_join sep (JArr xs) = js_join sep xs"
| "call_join sep JUndefined = Inl (TypeError ''Cannot read properties of undefined (reading join)'')"
| "call_join sep JNull = Inl (TypeError ''Cannot read properties of null (reading join)'')"
| "call_join sep v = Inl (TypeError ''interests.join is not a function'')"

definition highlights_text :: "jsval list \<Rightarrow> exn + string" where
  "highlights_text hl =
     (case js_join '', '' hl of
        Inl e \<Rightarrow> Inl e
      | Inr t \<Rightarrow> Inr (if t \<noteq> [] then t else ''N/A''))"

definition element :: "nat \<Rightarrow> string list \<Rightarrow> jsval" where
  "element i xs = (if i < length xs then JStr (xs ! i) else JUndefined)"

definition first_hotel_text :: "jsval list \<Rightarrow> jsval \<Rightarrow> exn + string" where
  "first_hotel_text hs budget =
     (case hs of
        [] \<Rightarrow> (case ToString budget of Inl e \<Rightarrow> Inl e | Inr b \<Rightarrow> Inr (''a '' @ b @ '' hotel''))
      | h # _ \<Rightarrow> (case member ''name'' h of Inl e \<Rightarrow> Inl e | Inr n \<Rightarrow> ToString n))"

text \<open>
  A template literal: its pieces are evaluated and converted from left to right, and the
  first exception ends it.
\<close>

fun template :: "(exn + string) list \<Rightarrow> exn + string" where
  "template [] = Inr []"
| "template (p # ps) =
     (case p of
        Inl e \<Rightarrow> Inl e
      | Inr s \<Rightarrow> (case template ps of Inl e \<Rightarrow> Inl e | Inr t \<Rightarrow> Inr (s @ t)))"

text \<open>
  The template literal of the prompt, piece by piece: every line of its text and every
  interpolation, in order. \<^verbatim>\<open>stringify\<close> is \<^verbatim>\<open>JSON.stringify\<close> as a template literal prints
  its result.
\<close>

definition prompt_parts ::
  "(jsval \<Rightarrow> string) \<Rightarrow> request \<Rightarrow> jsval \<Rightarrow> jsval \<Rightarrow> travel_data \<Rightarrow> destination_info \<Rightarrow> date_plan \<Rightarrow>
   (exn + string) list"
where
  "prompt_parts stringify req fromCoords destCoords travelData destinationInfo plan =
     [Inr ''\<newline>'',
      Inr ''      CRITICAL: Your response must be PURE JSON only. Do NOT write any text like \"Here is the itinerary\" or any explanations before or after the JSON. Start immediately with { and end with }. Nothing else.\<newline>'',
      Inr ''      \<newline>'',
      Inr ''      You are an expert travel planner. You MUST use the provided REAL-WORLD DATA to create a detailed, practical, and inspiring itinerary. Do not invent information.\<newline>'',
      Inr ''\<newline>'',
      Inr ''      --- USER PREFERENCES ---\<newline>'',
      Inr ''      - From: '',
      ToString (req_from req),
      Inr ''\<newline>'',
      Inr ''      - Destination: '',
      ToString (req_destination req),
      Inr ''\<newline>'',
      Inr ''      - Dates: '',
      ToString (req_startDate req),
      Inr '' to '',
      ToString (req_endDate req),
      Inr '' (Total: '',
      Inr (numberOfDays plan),
      Inr '')\<newline>'',
      Inr ''      - Budget: '',
      ToString (req_budget req),
      Inr ''\<newline>'',
      Inr ''      - Preferred Transport: '',
      ToString (req_transportMode req),
      Inr ''\<newline>'',
      Inr ''      - Interests: '',
      call_join '', '' (req_interests req),
      Inr ''\<newline>'',
      Inr ''\<newline>'',
      Inr ''      --- REAL-WORLD DATA ---\<newline>'',
      Inr ''      1. Travel Options:\<newline>'',
      Inr ''         - Distance: '',
      ToString (distance travelData),
      Inr ''\<newline>'',
      Inr ''         - Options: '',
      Inr (stringify (JArr (options travelData))),
      Inr ''\<newline>'',
      Inr ''      2. Destination Info:\<newline>'',
      Inr ''         - Top Highlights: '',
      highlights_text (highlights destinationInfo),
      Inr ''\<newline>'',
      Inr ''         - Best Time to Visit: '',
      ToString (bestTime destinationInfo),
      Inr ''\<newline>'',
      Inr ''         - Suggested '',
      ToString (req_budget req),
      Inr '' Hotels: '',
      Inr (stringify (JArr (hotels destinationInfo))),
      Inr ''\<newline>'',
      Inr ''      3. Coordinates:\<newline>'',
      Inr ''         - Origin ('',
      ToString (req_from req),
      Inr ''): '',
      Inr (stringify fromCoords),
      Inr ''\<newline>'',
      Inr ''         - Destination ('',
      ToString (req_destination req),
      Inr ''): '',
      Inr (stringify destCoords),
      Inr ''\<newline>'',
      Inr ''      '',
      Inr (if calculatedDays plan > 0
           then ''4. Specific Dates To Plan For: '' @ stringify (JArr (map JStr (allDates plan)))
           else []),
      Inr ''\<newline>'',
      Inr ''\<newline>'',
      Inr ''      --- YOUR TASK ---\<newline>'',
      Inr ''      1. Create \"travelAnalysis\". Use \"Travel Options\" data.\<newline>'',
      Inr ''      2. Create \"destinationSummary\". Pass \"bestTimeToVisit\" and \"hotelSuggestions\" data.\<newline>'',
      Inr ''      3. Create \"thoughtProcess\".\<newline>'',
      Inr ''      4. **MANDATORY REQUIREMENT: Create a complete day-by-day \"days\" array covering THE ENTIRE DURATION from '',
      ToString (req_startDate req),
      Inr '' to '',
      ToString (req_endDate req),
      Inr ''. This means you MUST generate exactly '',
      Inr (numberOfDays plan),
      Inr '' objects in the \"days\" array, one for each date provided in the 'Specific Dates To Plan For' data. Do not stop early. Use the provided dates.**\<newline>'',
      Inr ''      5. For each day object, include a unique 'day' number (1, 2, 3,... up to '',
      Inr (if calculatedDays plan > 0 then show_nat (calculatedDays plan) else ''the end date''),
      Inr ''), the corresponding 'date' string from the 'Specific Dates To Plan For' data (if available, otherwise calculate it), a 'title', and an 'activities' array.\<newline>'',
      Inr ''      6. Each 'activities' array MUST include detailed entries for \"Morning\", \"Afternoon\", and \"Evening\".\<newline>'',
      Inr ''      7. Add 1-2 sentence \"description\" for each activity explaining relevance to interests: '',
      call_join '', '' (req_interests req),
      Inr ''.\<newline>'',
      Inr ''      8. Weave in \"Top Highlights\" naturally.\<newline>'',
      Inr ''\<newline>'',
      Inr ''      --- JSON-ONLY RESPONSE ---\<newline>'',
      Inr ''      Respond ONLY with a valid JSON object. No text before or after the JSON. Do NOT include any comments in the JSON output. Ensure ALL string values are in double quotes (\"\"). Check your final JSON for validity before outputting.\<newline>'',
      Inr ''      \<newline>'',
      Inr ''      CRITICAL RULES:\<newline>'',
      Inr ''      1. The JSON must NOT contain any comments like // or /* */\<newline>'',
      Inr ''      2. Pure JSON only - nothing before the opening { and nothing after the closing }\<newline>'',
      Inr ''      3. Do NOT add any explanations, notes, or text after the JSON ends\<newline>'',
      Inr ''      4. Your response should start with { and end with } - nothing else\<newline>'',
      Inr ''      \<newline>'',
      Inr ''      {\<newline>'',
      Inr ''        \"destinationName\": \"'',
      ToString (req_destination req),
      Inr ''\",\<newline>'',
      Inr ''        \"fromName\": \"'',
      ToString (req_from req),
      Inr ''\",\<newline>'',
      Inr ''        \"fromCoords\": '',
      Inr (stringify fromCoords),
      Inr '',\<newline>'',
      Inr ''        \"destinationCoords\": '',
      Inr (stringify destCoords),
      Inr '',\<newline>'',
      Inr ''        \"travelAnalysis\": {\<newline>'',
      Inr ''          \"summary\": \"Based on real data, here are the travel options...\",\<newline>'',
      Inr ''          \"distance\": \"'',
      ToString (distance travelData),
      Inr ''\",\<newline>'',
      Inr ''          \"options\": '',
      Inr (stringify (JArr (options travelData))),
      Inr ''\<newline>'',
      Inr ''        },\<newline>'',
      Inr ''        \"destinationSummary\": {\<newline>'',
      Inr ''          \"bestTimeToVisit\": \"'',
      ToString (bestTime destinationInfo),
      Inr ''\",\<newline>'',
      Inr ''          \"hotelSuggestions\": '',
      Inr (stringify (JArr (hotels destinationInfo))),
      Inr ''\<newline>'',
      Inr ''        },\<newline>'',
      Inr ''        \"thoughtProcess\": \"Comprehensive analysis of the travel requirements and itinerary planning considerations\",\<newline>'',
      Inr ''        \"days\": [\<newline>'',
      Inr ''          {\<newline>'',
      Inr ''            \"day\": 1,\<newline>'',
      Inr ''            \"date\": \"'',
      (if calculatedDays plan > 0 then ToString (element 0 (allDates plan))
       else ToString (req_startDate req)),
      Inr ''\",\<newline>'',
      Inr ''            \"title\": \"Travel and Arrival\",\<newline>'',
      Inr ''            \"activities\": [\<newline>'',
      Inr ''              { \"time\": \"Morning/Afternoon\", \"description\": \"Travel from '',
      ToString (req_from req),
      Inr '' to '',
      ToString (req_destination req),
      Inr '' via [Logical Mode from data]. Estimated time: [Time string].\" },\<newline>'',
      Inr ''              { \"time\": \"Evening\", \"description\": \"Arrive in '',
      ToString (req_destination req),
      Inr '', check into hotel (Suggestion: '',
      first_hotel_text (hotels destinationInfo) (req_budget req),
      Inr '') and have dinner.\" }\<newline>'',
      Inr ''            ]\<newline>'',
      Inr ''          },\<newline>'',
      Inr ''          {\<newline>'',
      Inr ''             \"day\": 2,\<newline>'',
      Inr ''             \"date\": \"'',
      (if calculatedDays plan > 1 then ToString (element 1 (allDates plan))
       else Inr ''[Calculate YYYY-MM-DD for Day 2]''),
      Inr ''\",\<newline>'',
      Inr ''             \"title\": \"Exploring '',
      ToString (req_destination req),
      Inr ''\",\<newline>'',
      Inr ''             \"activities\": [\<newline>'',
      Inr ''               { \"time\": \"Morning\", \"description\": \"Visit [specific attraction from Top Highlights]. Detailed description of why this fits the '',
      call_join '', '' (req_interests req),
      Inr '' interests.\" },\<newline>'',
      Inr ''               { \"time\": \"Afternoon\", \"description\": \"Explore [another attraction]. Full description of activities and relevance to traveler interests.\" },\<newline>'',
      Inr ''               { \"time\": \"Evening\", \"description\": \"Dinner at local restaurant and evening activity. Complete details about the experience.\" }\<newline>'',
      Inr ''             ]\<newline>'',
      Inr ''           }\<newline>'',
      Inr ''        ]\<newline>'',
      Inr ''      }\<newline>'',
      Inr ''      \<newline>'',
      Inr ''      IMPORTANT INSTRUCTIONS FOR DAYS ARRAY:\<newline>'',
      Inr ''      - Generate EXACTLY '',
      Inr (numberOfDays plan),
      Inr '' day objects (Day 1 through Day '',
      Inr (if calculatedDays plan > 0 then show_nat (calculatedDays plan) else ''N''),
      Inr '')\<newline>'',
      Inr ''      - Use the exact dates from 'Specific Dates To Plan For' data for each day's \"date\" field\<newline>'',
      Inr ''      - Each day MUST have 3 activities: Morning, Afternoon, and Evening\<newline>'',
      Inr ''      - NEVER use \"...\" or placeholder text - write full, detailed descriptions for EVERY activity\<newline>'',
      Inr ''      - Each activity description must be 2-3 complete sentences explaining what to do and why it matches the traveler's interests\<newline>'',
      Inr ''      - Incorporate the Top Highlights naturally across different days\<newline>'',
      Inr ''      - Continue generating ALL days until you reach '',
      ToString (req_endDate req),
      Inr '' - do not stop early\<newline>'',
      Inr ''      \<newline>'',
      Inr ''      FINAL REMINDER: Output ONLY the JSON object. Do NOT add any text, explanations, or commentary before { or after }. Your entire response must be valid JSON that can be parsed directly.\<newline>'',
      Inr ''    '']"

definition prompt ::
  "(jsval \<Rightarrow> string) \<Rightarrow> request \<Rightarrow> jsval \<Rightarrow> jsval \<Rightarrow> travel_data \<Rightarrow> destination_info \<Rightarrow> date_plan \<Rightarrow>
   exn + string"
where
  "prompt stringify req fromCoords destCoords travelData destinationInfo plan =
     template (prompt_parts stringify req fromCoords destCoords travelData destinationInfo plan)"

text \<open>
  The words of the claims about the values of a request: an array whose elements all have
  a primitive form, on which \<^verbatim>\<open>join\<close> does not throw.
\<close>

definition text_array :: "jsval \<Rightarrow> bool" where
  "text_array v = (case v of JArr xs \<Rightarrow> list_all convertible xs | _ \<Rightarrow> False)"

section \<open>\<^verbatim>\<open>POST\<close>\<close>

text \<open>
  What the platform provides and the model takes as parameters: \<^verbatim>\<open>encodeURIComponent\<close>, the
  floating point arithmetic, \<^verbatim>\<open>JSON.stringify\<close>, \<^verbatim>\<open>JSON.parse\<close> (\<open>None\<close> when it throws), the
  parser of \<^verbatim>\<open>new Date(string)\<close>, the offset of the local time zone, and the \<^verbatim>\<open>TextDecoder\<close>
  and \<^verbatim>\<open>TextEncoder\<close> that the handler creates for each request.
\<close>

record ('d, 'c, 'b) platform =
  encodeURIComponent :: "string \<Rightarrow> string"
  arithmetic :: arith
  JSON_stringify :: "jsval \<Rightarrow> string"
  JSON_parse :: "string \<Rightarrow> jsval option"
  Date_parse :: "string \<Rightarrow> int option"
  LocalTZA :: "int \<Rightarrow> bool \<Rightarrow> int"
  decode :: "'d \<Rightarrow> 'c \<Rightarrow> string \<times> 'd"
  new_TextDecoder :: 'd
  encode :: "string \<Rightarrow> 'b"

text \<open>
  A response: its status, its headers and its body, which is a text or a stream. A stream
  is given by what its controller holds once the upstream reader has delivered its first
  \<open>k\<close> results, for every \<open>k\<close>.
\<close>

datatype 'b body = Text string | Stream "nat \<Rightarrow> 'b controller"

record 'b response =
  resp_status :: nat
  resp_headers :: "(string \<times> string) list"
  resp_body :: "'b body"

definition json_error :: "(jsval \<Rightarrow> string) \<Rightarrow> nat \<Rightarrow> string \<Rightarrow> 'b response" where
  "json_error stringify st msg =
     \<lparr>resp_status = st,
      resp_headers = [(''Content-Type'', ''application/json'')],
      resp_body = Text (stringify (JObj [(''error'', JStr msg)]))\<rparr>"

text \<open>
  The message of the response when the data could not be fetched. The second piece of the
  message of the error may be missing, and is then printed as \<^verbatim>\<open>undefined\<close>.
\<close>

definition fetch_error_message :: "exn \<Rightarrow> string" where
  "fetch_error_message error =
     (if js_includes (message error) ''Location not found''
      then ''Could not find location: '' @
           (case drop 1 (split_sep '': '' (message error)) of [] \<Rightarrow> ''undefined'' | x # _ \<Rightarrow> x)
      else ''Failed to fetch required API data: '' @ message error)"

text \<open>
  The message of the response when the model's service answers not ok: the message of the
  error body when \<^verbatim>\<open>json()\<close> gives one that is truthy, the text of the response when reading
  the error body has thrown (\<^verbatim>\<open>json()\<close> itself, or the conversion of the message) and the
  text is not empty, the status otherwise.
\<close>

definition groq_error_message :: "nat \<Rightarrow> exn + jsval \<Rightarrow> exn + string \<Rightarrow> string" where
  "groq_error_message st js tx =
     (let by_status = ''Groq API error (status '' @ show_nat st @ '')'';
          by_text = (case tx of
                       Inr t \<Rightarrow> if t \<noteq> [] then ''Groq API error: '' @ t else by_status
                     | Inl e' \<Rightarrow> by_status)
      in case js of
           Inr errorBody \<Rightarrow>
             if truthy (opt_member ''message'' (opt_member ''error'' errorBody))
             then (case ToString (opt_member ''message'' (opt_member ''error'' errorBody)) of
                     Inr m \<Rightarrow> ''Groq API error: '' @ m
                   | Inl e \<Rightarrow> by_text)
             else by_status
         | Inl e \<Rightarrow> by_text)"

text \<open>
  The headers of the request to the model's service and the object that
  \<^verbatim>\<open>JSON.stringify\<close> turns into its body.
\<close>

definition groq_headers :: "env \<Rightarrow> (string \<times> string) list" where
  "groq_headers env =
     [(''Content-Type'', ''application/json''),
      (''Authorization'', ''Bearer '' @ key_text (GROQ_API_KEY env))]"

definition groq_body :: "env \<Rightarrow> string \<Rightarrow> jsval" where
  "groq_body env p =
     JObj [(''model'', JStr (GROQ_MODEL env)),
           (''messages'', JArr [JObj [(''role'', JStr ''user''), (''content'', JStr p)]]),
           (''temperature'', JNum ''0.7''),
           (''stream'', JBool True)]"

definition generic_failure :: string where
  "generic_failure =
     ''Failed to generate itinerary using Groq API. Check your GROQ_API_KEY and network connectivity.''"

text \<open>
  The part of the handler after the data is there: the dates, the prompt, the call of
  the model's service and the response. The prompt is built outside any \<^verbatim>\<open>try\<close>, so an
  exception of one of its conversions leaves the handler. The rest is inside one \<^verbatim>\<open>try\<close>,
  whose \<^verbatim>\<open>catch\<close> answers every exception with the same status-500 response: a rejected
  request, and \<^verbatim>\<open>groqResponse.body.getReader()\<close> when the body is \<^verbatim>\<open>null\<close>.
\<close>

definition call_model ::
  "('d, 'c, 'b) platform \<Rightarrow> env \<Rightarrow> 'c world \<Rightarrow> request \<Rightarrow> jsval \<Rightarrow> jsval \<Rightarrow> travel_data \<Rightarrow>
   destination_info \<Rightarrow> (exn + 'b response) \<times> call list"
where
  "call_model pf env w req fromCoords destCoords travelData destinationInfo =
     (let plan = plan_dates (arithmetic pf) (Date_parse pf) (LocalTZA pf)
                   (req_startDate req) (req_endDate req)
      in case prompt (JSON_stringify pf) req fromCoords destCoords travelData destinationInfo plan of
           Inl e \<Rightarrow> (Inl e, [])
         | Inr p \<Rightarrow>
             if unset (GROQ_API_KEY env)
             then (Inr (json_error (JSON_stringify pf) 500
                     ''Missing GROQ_API_KEY. Please configure your Groq API key in .env.local.''), [])
             else
               (Inr (case fetch_groq w (groq_headers env) (JSON_stringify pf (groq_body env p)) of
                       GroqRejected error \<Rightarrow> json_error (JSON_stringify pf) 500 generic_failure
                     | GroqNotOk st js tx \<Rightarrow>
                         json_error (JSON_stringify pf) 500 (groq_error_message st js tx)
                     | GroqOk None \<Rightarrow> json_error (JSON_stringify pf) 500 generic_failure
                     | GroqOk (Some reads) \<Rightarrow>
                         \<lparr>resp_status = 200,
                          resp_headers = [(''Content-Type'', ''text/plain; charset=utf-8'')],
                          resp_body = Stream (\<lambda>k. start (decode pf) (JSON_parse pf) (encode pf)
                                                      (new_TextDecoder pf) (take k reads))\<rparr>),
                [FetchPost ''https://api.groq.com/openai/v1/chat/completions''
                   (groq_headers env) (JSON_stringify pf (groq_body env p))]))"

text \<open>
  The handler. Its argument is what \<^verbatim>\<open>request.json()\<close> gives: an exception or the body.
  Reading the body, destructuring it and the guard rail are outside any \<^verbatim>\<open>try\<close>; the guard
  rail calls \<^verbatim>\<open>destination.toLowerCase()\<close>, which throws when \<^verbatim>\<open>destination\<close> is not a
  string. Then come the two geocoding requests, the two helpers side by side, and the part
  above. The result is the response (or an exception that leaves the handler) and the
  requests that it has made.
\<close>

definition POST ::
  "('d, 'c, 'b) platform \<Rightarrow> env \<Rightarrow> 'c world \<Rightarrow> exn + jsval \<Rightarrow> (exn + 'b response) \<times> call list"
where
  "POST pf env w request_json =
     (case request_json of
        Inl e \<Rightarrow> (Inl e, [])
      | Inr body \<Rightarrow>
     (case destructure body of
        Inl e \<Rightarrow> (Inl e, [])
      | Inr req \<Rightarrow>
     (case call_toLowerCase (req_destination req) of
        Inl e \<Rightarrow> (Inl e, [])
      | Inr lower \<Rightarrow>
          if js_includes lower ''antarctica''
          then (Inr (json_error (JSON_stringify pf) 400
                       ''Travel to Antarctica requires a specialized expedition and cannot be planned this way.''),
                [])
          else
            (case promise_all2 (second_rejects_first w)
                    (getCoords (encodeURIComponent pf) env w (req_from req))
                    (getCoords (encodeURIComponent pf) env w (req_destination req)) of
               (Inl error, cs1) \<Rightarrow>
                 (Inr (json_error (JSON_stringify pf) 500 (fetch_error_message error)), cs1)
             | (Inr (fromCoords, destCoords), cs1) \<Rightarrow>
                 (case promise_all2 (second_rejects_first w)
                         (getTravelData (encodeURIComponent pf) (arithmetic pf) env w
                            (req_from req) (req_destination req) fromCoords destCoords)
                         (getDestinationInfo env w (req_destination req) (req_budget req)) of
                    (Inl error, cs2) \<Rightarrow>
                      (Inr (json_error (JSON_stringify pf) 500 (fetch_error_message error)), cs1 @ cs2)
                  | (Inr (travelData, destinationInfo), cs2) \<Rightarrow>
                      (case call_model pf env w req fromCoords destCoords travelData destinationInfo of
                         (r, cs3) \<Rightarrow> (r, cs1 @ cs2 @ cs3)))))))"

section \<open>The module over time\<close>




text \<open>Whether a request is the POST to the model's service.\<close>

fun is_post :: "call \<Rightarrow> bool" where
  "is_post (FetchPost u h b) = True"
| "is_post c = False"

text \<open>The answer of a world to a request, when it is one to the model's service.\<close>

fun groq_answer :: "'c world \<Rightarrow> call \<Rightarrow> 'c groq_result option" where
  "groq_answer w (FetchPost u h b) = Some (fetch_groq w h b)"
| "groq_answer w c = None"

text \<open>The bodies of the requests to the model's service among the requests made.\<close>

fun posted :: "call list \<Rightarrow> string list" where
  "posted [] = []"
| "posted (FetchPost u h b # cs) = b # posted cs"
| "posted (c # cs) = posted cs"

section \<open>A platform, worlds and requests for the examples\<close>

text \<open>
  The parameters of the model need values that can be evaluated. The arithmetic of the
  examples knows the numbers that the examples meet and gives \<^verbatim>\<open>NaN\<close> for every other;
  the Haversine distance of any two positions is 1105.4.
\<close>

definition example_arith :: arith where
  "example_arith =
     \<lparr>StringToNumber = (\<lambda>s. ''NaN''),
      divide_by = (\<lambda>x y.
        if (x, y) = (''1148300'', ''1000'') then ''1148.3''
        else if (x, y) = (''40000'', ''3600'') then ''11.11111111111111''
        else if (x, y) = (''400'', ''60'') then ''6.666666666666667''
        else ''NaN''),
      remainder = (\<lambda>x y. if (x, y) = (''40000'', ''3600'') then ''400'' else ''NaN''),
      Math_floor = (\<lambda>x.
        if x = ''11.11111111111111'' then ''11''
        else if x = ''6.666666666666667'' then ''6''
        else ''NaN''),
      toFixed0 = (\<lambda>x.
        if x = ''1148.3'' then ''1148'' else if x = ''1105.4'' then ''1105'' else ''NaN''),
      greater = (\<lambda>x y. (x, y) = (''1'', ''0'')),
      integer_part = (\<lambda>x. None),
      round_days = (\<lambda>d. 0),
      haversine = (\<lambda>lat1 lon1 lat2 lon2. ''1105.4'')\<rparr>"

text \<open>
  The date parser of the examples knows four strings, dates without a time, which are
  midnight of that day in universal time.
\<close>

definition example_date_parse :: "string \<Rightarrow> int option" where
  "example_date_parse s =
     (if s = ''2024-02-28'' then Some 1709078400000
      else if s = ''2024-03-01'' then Some 1709251200000
      else if s = ''2024-01-10'' then Some 1704844800000
      else if s = ''2024-01-12'' then Some 1705017600000
      else None)"

text \<open>
  A stand-in for \<^verbatim>\<open>JSON.stringify\<close>: it prints the tree and does not escape the characters of
  a string.
\<close>

fun show_json :: "jsval \<Rightarrow> string"
  and show_elements :: "jsval list \<Rightarrow> string list"
  and show_properties :: "(string \<times> jsval) list \<Rightarrow> string list"
where
  "show_json JUndefined = ''undefined''"
| "show_json JNull = ''null''"
| "show_json (JBool b) = (if b then ''true'' else ''false'')"
| "show_json (JNum t) = t"
| "show_json (JStr s) = ''\"'' @ s @ ''\"''"
| "show_json (JArr xs) = ''['' @ join '','' (show_elements xs) @ '']''"
| "show_json (JObj kvs) = ''{'' @ join '','' (show_properties kvs) @ ''}''"
| "show_elements [] = []"
| "show_elements (x # xs) = (if x = JUndefined then ''null'' else show_json x) # show_elements xs"
| "show_properties [] = []"
| "show_properties (kv # kvs) =
     (if snd kv = JUndefined then show_properties kvs
      else (''\"'' @ fst kv @ ''\":'' @ show_json (snd kv)) # show_properties kvs)"

text \<open>The platform of the examples; its local time is universal time.\<close>

definition example_platform :: "(unit, string, string) platform" where
  "example_platform =
     \<lparr>encodeURIComponent = id,
      arithmetic = example_arith,
      JSON_stringify = show_json,
      JSON_parse = toy_parse,
      Date_parse = example_date_parse,
      LocalTZA = (\<lambda>t u. 0),
      decode = text_decoder,
      new_TextDecoder = (),
      encode = id\<rparr>"

text \<open>The same platform with the local time five hours behind universal time all year.\<close>

definition western_platform :: "(unit, string, string) platform" where
  "western_platform = example_platform\<lparr>LocalTZA := (\<lambda>t u. - 18000000)\<rparr>"

definition example_env :: env where
  "example_env =
     \<lparr>GROQ_API_KEY = Some ''gk'', GROQ_MODEL = ''llama-3.3-70b-versatile'',
      TOMTOM_API_KEY = Some ''tk'', SERPAPI_API_KEY = Some ''sk''\<rparr>"

text \<open>
  In the first world every service answers: the geocoder with a position, the router with
  one route of 1148300 m and 40000 s, every search with an answer box, a knowledge graph
  and two local results (the second without a name of its own), the model with the chunks
  of the example above.
\<close>

definition example_position :: jsval where
  "example_position = JObj [(''lat'', JNum ''48.85''), (''lon'', JNum ''2.35'')]"

definition geocoder_answer :: "jsval \<Rightarrow> fetch_result" where
  "geocoder_answer position =
     FetchResponse True (Inr (JObj [(''results'', JArr [JObj [(''position'', position)]])]))"

definition router_answer :: "jsval \<Rightarrow> fetch_result" where
  "router_answer summary =
     FetchResponse True (Inr (JObj [(''routes'', JArr [JObj [(''summary'', summary)]])]))"

definition is_geocode_url :: "string \<Rightarrow> bool" where
  "is_geocode_url url = (take 40 url = ''https://api.tomtom.com/search/2/geocode/'')"

definition example_search :: jsval where
  "example_search =
     JObj [(''answer_box'',
            JObj [(''duration'', JStr ''1h 30m''), (''answer'', JStr ''713 mi''),
                  (''snippet'', JStr ''May to June'')]),
           (''knowledge_graph'',
            JObj [(''tourist_attractions'', JArr [JObj [(''name'', JStr ''Colosseum'')]])]),
           (''local_results'',
            JArr [JObj [(''title'', JStr ''Ritz''), (''address'', JStr '' 1 Main St ''),
                        (''thumbnail'', JStr ''https://img/1.png''), (''rating'', JNum ''4.5''),
                        (''website'', JStr ''https://ritz.example'')],
                  JObj [(''name'', JStr ''Hotel'')]])]"

definition example_world :: "string world" where
  "example_world =
     \<lparr>fetch = (\<lambda>url.
        if is_geocode_url url then geocoder_answer example_position
        else router_answer
               (JObj [(''lengthInMeters'', JNum ''1148300''), (''travelTimeInSeconds'', JNum ''40000'')])),
      getJson = (\<lambda>p. Inr example_search),
      fetch_groq = (\<lambda>hs b. GroqOk (Some (map ReadValue example_chunks @ [ReadDone]))),
      second_rejects_first = False\<rparr>"

text \<open>
  In the second world the geocoder rejects every request, the answer box of every search
  holds the number 42 and the thumbnail of its one local result is the number 5.
\<close>

definition failing_world :: "string world" where
  "failing_world =
     \<lparr>fetch = (\<lambda>url. FetchRejected (TypeError ''fetch failed'')),
      getJson = (\<lambda>p. Inr (JObj
         [(''answer_box'', JObj [(''answer'', JNum ''42'')]),
          (''local_results'', JArr [JObj [(''title'', JStr ''Ritz''), (''thumbnail'', JNum ''5'')]])])),
      fetch_groq = (\<lambda>hs b. GroqRejected (TypeError ''fetch failed'')),
      second_rejects_first = False\<rparr>"

text \<open>
  In the third world the router answers with a route whose summary is empty, and every
  search with an empty object. In the fourth the model's service answers ok with no body.
\<close>

definition bare_world :: "string world" where
  "bare_world =
     \<lparr>fetch = (\<lambda>url.
        if is_geocode_url url then geocoder_answer example_position else router_answer (JObj [])),
      getJson = (\<lambda>p. Inr (JObj [])),
      fetch_groq = (\<lambda>hs b. GroqRejected (TypeError ''fetch failed'')),
      second_rejects_first = False\<rparr>"

definition bodiless_world :: "string world" where
  "bodiless_world = example_world\<lparr>fetch_groq := (\<lambda>hs b. GroqOk None)\<rparr>"

text \<open>
  A position whose latitude is an object with a property \<^verbatim>\<open>toString\<close>, as
  \<^verbatim>\<open>JSON.parse\<close> gives it for the text \<^verbatim>\<open>{"lat":{"toString":1},"lon":0}\<close>.
\<close>

definition odd_position :: jsval where
  "odd_position = JObj [(''lat'', JObj [(''toString'', JNum ''1'')]), (''lon'', JNum ''0'')]"

text \<open>
  The body of a request from Paris to Rome, from 28 February to 1 March 2024, and the same
  with other dates.
\<close>

definition request_body :: "string \<Rightarrow> string \<Rightarrow> string \<Rightarrow> jsval" where
  "request_body destination startDate endDate =
     JObj [(''from'', JStr ''Paris''), (''destination'', JStr destination),
           (''startDate'', JStr startDate), (''endDate'', JStr endDate),
           (''budget'', JStr ''Luxury''), (''transportMode'', JStr ''Train''),
           (''interests'', JArr [JStr ''art'', JStr ''food''])]"

definition example_request :: jsval where
  "example_request = request_body ''Rome'' ''2024-02-28'' ''2024-03-01''"


text \<open>
  What destructuring gives for such a body, and what the two helpers give for the request
  from Paris to Rome in the world where every service answers.
\<close>

definition example_fields :: "string \<Rightarrow> string \<Rightarrow> string \<Rightarrow> request" where
  "example_fields destination startDate endDate =
     \<lparr>req_from = JStr ''Paris'', req_destination = JStr destination,
      req_startDate = JStr startDate, req_endDate = JStr endDate,
      req_budget = JStr ''Luxury'', req_transportMode = JStr ''Train'',
      req_interests = JArr [JStr ''art'', JStr ''food'']\<rparr>"

definition example_travel :: travel_data where
  "example_travel =
     \<lparr>options =
        [route_option ''Car'' ''11 hours 6 mins'' ''1148 km'',
         route_option ''Bus/Train (Public)'' ''11 hours 6 mins'' ''1148 km'',
         flight_option (JStr ''1h 30m'')],
      distance = JStr ''1148 km''\<rparr>"

definition example_info :: destination_info where
  "example_info =
     \<lparr>highlights = [JStr ''Colosseum''],
      hotels = [JObj [(''name'', JStr ''Ritz''), (''address'', JStr ''1 Main St''),
                      (''photo'', JStr ''https://img/1.png''), (''rating'', JNum ''4.5''),
                      (''link'', JStr ''https://ritz.example'')]],
      bestTime = JStr ''May to June''\<rparr>"

chapter \<open>Properties\<close>

section \<open>Properties of the re-framing stream\<close>

lemma split_nl_nonempty: "split_nl t \<noteq> []"
  by (induction t) (auto split: list.splits)

lemma split_nl_append:
  "split_nl (a @ b) = butlast (split_nl a) @ split_nl (last (split_nl a) @ b)"
proof (induction a)
  case Nil
  show ?case by simp
next
  case (Cons c a)
  show ?case
  proof (cases "c = CHR 0x0A")
    case True
    with Cons show ?thesis by (simp add: split_nl_nonempty)
  next
    case False
    obtain l ls where s: "split_nl a = l # ls"
      using split_nl_nonempty[of a] by (cases "split_nl a") auto
    show ?thesis
    proof (cases ls)
      case Nil
      with s False Cons show ?thesis by simp
    next
      case (Cons l' ls')
      with s False Cons.IH show ?thesis by simp
    qed
  qed
qed

lemma complete_lines_append:
  "complete_lines (a @ b) = complete_lines a @ complete_lines (last (split_nl a) @ b)"
  by (simp add: complete_lines_def split_nl_append[of a b] butlast_append split_nl_nonempty)

lemma split_nl_single: "butlast (split_nl t) = [] \<Longrightarrow> split_nl t = [t]"
proof (induction t)
  case Nil
  show ?case by simp
next
  case (Cons c t)
  obtain l ls where s: "split_nl t = l # ls"
    using split_nl_nonempty[of t] by (cases "split_nl t") auto
  from Cons.prems s have nn: "c \<noteq> CHR 0x0A" and ls: "ls = []"
    by (auto simp: split_nl_nonempty split: if_splits)
  with s Cons.IH have "split_nl t = [t]" by simp
  with nn show ?case by simp
qed

text \<open>The piece kept in \<^verbatim>\<open>buffer\<close> holds no complete line.\<close>

lemma complete_lines_last: "complete_lines (last (split_nl a)) = []"
proof (induction a)
  case Nil
  show ?case by (simp add: complete_lines_def)
next
  case (Cons c a)
  obtain l ls where s: "split_nl a = l # ls"
    using split_nl_nonempty[of a] by (cases "split_nl a") auto
  show ?case
  proof (cases "c = CHR 0x0A")
    case True
    with Cons show ?thesis by (simp add: split_nl_nonempty)
  next
    case False
    show ?thesis
    proof (cases ls)
      case Nil
      with s Cons.IH have "butlast (split_nl l) = []" by (simp add: complete_lines_def)
      then have "split_nl l = [l]" by (rule split_nl_single)
      with s Nil False show ?thesis by (simp add: complete_lines_def)
    next
      case (Cons l' ls')
      with s False Cons.IH show ?thesis by simp
    qed
  qed
qed

text \<open>The two tests of the loop body single out exactly the line \<^verbatim>\<open>data: [DONE]\<close>.\<close>

lemma done_line:
  "(take 6 line = ''data: '' \<and> drop 6 line = ''[DONE]'') = (line = ''data: [DONE]'')"
proof
  assume a: "take 6 line = ''data: '' \<and> drop 6 line = ''[DONE]''"
  have "line = take 6 line @ drop 6 line" by simp
  with a show "line = ''data: [DONE]''" by simp
next
  assume "line = ''data: [DONE]''"
  then show "take 6 line = ''data: '' \<and> drop 6 line = ''[DONE]''" by simp
qed

lemma process_lines_eq:
  "process_lines parse enc ls q =
     (q @ map enc (sse_deltas parse ls), ''data: [DONE]'' \<in> set ls)"
proof (induction ls arbitrary: q)
  case Nil
  show ?case by (simp add: sse_deltas_def map_filter_simps)
next
  case (Cons line rest)
  show ?case
  proof (cases "line = ''data: [DONE]''")
    case True
    then show ?thesis by (simp add: sse_deltas_def map_filter_simps)
  next
    case False
    then have nd: "\<not> (take 6 line = ''data: '' \<and> drop 6 line = ''[DONE]'')"
      by (simp add: done_line)
    have e: "sse_deltas parse (line # rest) =
        (case line_delta parse line of
           None \<Rightarrow> sse_deltas parse rest
         | Some s \<Rightarrow> s # sse_deltas parse rest)"
      using False by (simp add: sse_deltas_def map_filter_simps split: option.splits)
    have s: "(''data: [DONE]'' \<in> set (line # rest)) = (''data: [DONE]'' \<in> set rest)"
      using False by auto
    show ?thesis
      unfolding e s using nd
      by (auto simp add: Cons.IH line_delta_def js_or_def Let_def
               split: option.splits sum.splits)
  qed
qed

lemma sse_deltas_append:
  "sse_deltas parse (xs @ ys) =
     (if ''data: [DONE]'' \<in> set xs then sse_deltas parse xs
      else sse_deltas parse xs @ sse_deltas parse ys)"
proof (cases "''data: [DONE]'' \<in> set xs")
  case True
  then have "takeWhile (\<lambda>l. l \<noteq> ''data: [DONE]'') (xs @ ys) =
      takeWhile (\<lambda>l. l \<noteq> ''data: [DONE]'') xs"
    by (intro takeWhile_append1[of "''data: [DONE]''"]) auto
  with True show ?thesis by (simp add: sse_deltas_def)
next
  case False
  then have "takeWhile (\<lambda>l. l \<noteq> ''data: [DONE]'') (xs @ ys) =
      xs @ takeWhile (\<lambda>l. l \<noteq> ''data: [DONE]'') ys"
    by (intro takeWhile_append2) auto
  moreover from False have "takeWhile (\<lambda>l. l \<noteq> ''data: [DONE]'') xs = xs"
    by (intro takeWhile_eq_all_conv[THEN iffD2]) auto
  ultimately show ?thesis
    using False by (simp only: sse_deltas_def map_filter_def if_False map_append filter_append)
qed

text \<open>
  The loop after any number of chunks, whatever ends the list of results (\<open>rest\<close>, which
  leaves the queue as it is and sets the status \<open>st\<close>).
\<close>

lemma start_loop_values:
  assumes fin: "\<And>d b q. start_loop dec parse enc d b q rest = \<lparr>enqueued = q, status = st\<rparr>"
  shows "complete_lines buf = [] \<Longrightarrow>
     start_loop dec parse enc d buf q (map ReadValue cs @ rest) =
     \<lparr>enqueued = q @ map enc (sse_deltas parse (complete_lines (buf @ decoded_text dec d cs))),
      status = (if ''data: [DONE]'' \<in> set (complete_lines (buf @ decoded_text dec d cs))
                then Closed else st)\<rparr>"
proof (induction cs arbitrary: d buf q)
  case Nil
  then show ?case by (simp add: fin sse_deltas_def map_filter_simps)
next
  case (Cons v vs)
  obtain tx d' where dv: "dec d v = (tx, d')" by (cases "dec d v")
  have cl: "complete_lines (buf @ decoded_text dec d (v # vs)) =
      complete_lines (buf @ tx) @ complete_lines (last (split_nl (buf @ tx)) @ decoded_text dec d' vs)"
    using complete_lines_append[of "buf @ tx" "decoded_text dec d' vs"] by (simp add: dv)
  show ?case
    unfolding cl
    by (simp add: dv Let_def process_lines_eq Cons.IH[OF complete_lines_last] sse_deltas_append
          complete_lines_def[of "buf @ tx"])
qed

text \<open>
  C1. Whatever chunks the upstream body delivers and however they cut the text, the stream
  built in \<^verbatim>\<open>POST\<close> enqueues exactly the encoded \<^verbatim>\<open>choices[0].delta.content\<close> of the
  complete lines \<^verbatim>\<open>data: <json>\<close> of the decoded text whose payload parses and whose content
  is not empty, in order, up to the first line \<^verbatim>\<open>data: [DONE]\<close>. A line that does not start
  with \<^verbatim>\<open>data: \<close> or whose payload does not parse contributes nothing. What follows the last
  newline is not a complete line: it stays in the buffer and contributes nothing until a later
  chunk completes it. The stream is closed when the upstream reader reports done (first
  equation), and before that exactly when a line \<^verbatim>\<open>data: [DONE]\<close> has been seen (second
  equation, for an upstream that has delivered the chunks and is not done yet).
\<close>

theorem sse_reframing:
  "start dec parse enc d0 (map ReadValue cs @ [ReadDone]) =
     \<lparr>enqueued = map enc (sse_deltas parse (complete_lines (decoded_text dec d0 cs))),
      status = Closed\<rparr>
   \<and> start dec parse enc d0 (map ReadValue cs) =
     \<lparr>enqueued = map enc (sse_deltas parse (complete_lines (decoded_text dec d0 cs))),
      status = (if ''data: [DONE]'' \<in> set (complete_lines (decoded_text dec d0 cs))
                then Closed else Readable)\<rparr>"
proof
  have e: "complete_lines [] = []" by (simp add: complete_lines_def)
  show "start dec parse enc d0 (map ReadValue cs @ [ReadDone]) =
     \<lparr>enqueued = map enc (sse_deltas parse (complete_lines (decoded_text dec d0 cs))),
      status = Closed\<rparr>"
    unfolding start_def
    using start_loop_values[of dec parse enc "[ReadDone]" Closed "[]" d0 "[]" cs, OF _ e]
    by simp
  show "start dec parse enc d0 (map ReadValue cs) =
     \<lparr>enqueued = map enc (sse_deltas parse (complete_lines (decoded_text dec d0 cs))),
      status = (if ''data: [DONE]'' \<in> set (complete_lines (decoded_text dec d0 cs))
                then Closed else Readable)\<rparr>"
    unfolding start_def
    using start_loop_values[of dec parse enc "[]" Readable "[]" d0 "[]" cs, OF _ e]
    by simp
qed

text \<open>
  The theorem at the example: the two deltas before \<^verbatim>\<open>[DONE]\<close> come out, the one after it
  does not, and after the first two chunks alone the stream is still open.
\<close>

lemma example_lines:
  "complete_lines (decoded_text text_decoder () example_chunks) =
     [''data: {\"choices\":[{\"delta\":{\"content\":\"Hel\"}}]}'', [],
      ''data: {\"choices\":[{\"delta\":{\"content\":\"lo\"}}]}'', [],
      ''data: null'', '': ping'', ''data: '', ''data: [DONE]'',
      ''data: {\"choices\":[{\"delta\":{\"content\":\"lo\"}}]}'']"
  by (simp add: example_chunks_def complete_lines_def text_decoder_def)

lemma example_lines_2:
  "complete_lines (decoded_text text_decoder () (take 2 example_chunks)) =
     [''data: {\"choices\":[{\"delta\":{\"content\":\"Hel\"}}]}'', [],
      ''data: {\"choices\":[{\"delta\":{\"content\":\"lo\"}}]}'', [],
      ''data: null'', '': ping'', ''data: '']"
  by (simp add: example_chunks_def complete_lines_def text_decoder_def)

theorem sse_reframing_witness:
  "start text_decoder toy_parse id () (map ReadValue example_chunks @ [ReadDone]) =
     \<lparr>enqueued = [''Hel'', ''lo''], status = Closed\<rparr>
   \<and> start text_decoder toy_parse id () (map ReadValue (take 2 example_chunks)) =
     \<lparr>enqueued = [''Hel'', ''lo''], status = Readable\<rparr>"
proof
  have "sse_deltas toy_parse (complete_lines (decoded_text text_decoder () example_chunks)) =
      [''Hel'', ''lo'']"
    unfolding example_lines
    by (simp add: sse_deltas_def map_filter_simps line_delta_def toy_parse_def delta_content_def
          own_def)
  then show "start text_decoder toy_parse id () (map ReadValue example_chunks @ [ReadDone]) =
     \<lparr>enqueued = [''Hel'', ''lo''], status = Closed\<rparr>"
    using sse_reframing[of text_decoder toy_parse id "()" example_chunks] by simp
  have "sse_deltas toy_parse
      (complete_lines (decoded_text text_decoder () (take 2 example_chunks))) = [''Hel'', ''lo'']"
    unfolding example_lines_2
    by (simp add: sse_deltas_def map_filter_simps line_delta_def toy_parse_def delta_content_def
          own_def)
  then show "start text_decoder toy_parse id () (map ReadValue (take 2 example_chunks)) =
     \<lparr>enqueued = [''Hel'', ''lo''], status = Readable\<rparr>"
    using sse_reframing[of text_decoder toy_parse id "()" "take 2 example_chunks"]
    by (simp add: example_lines_2)
qed


section \<open>Properties of the component\<close>

lemma trimStart_Nil: "trimStart [] = []"
  by (simp add: trimStart.simps[of "[]"] white_prefix_def white_def)

lemma trimEnd_Nil: "trimEnd [] = []"
  by (simp add: trimEnd.simps[of "[]"] white_suffix_def white_def)


text \<open>Rules that evaluate \<^verbatim>\<open>trim\<close> on a text that is given.\<close>

lemmas trim_eval =
  js_trim_def trimStart_Nil trimEnd_Nil trimStart.simps[of "c # cs"] trimEnd.simps[of "c # cs"]
  white_prefix_def white_suffix_def white_def for c cs













section \<open>Properties of \<^verbatim>\<open>getTravelData\<close>\<close>

lemmas show_nat_eval =
  show_nat.simps[of 0] show_nat.simps[of "Suc 0"] show_nat.simps[of 1]
  show_nat.simps[of "numeral n"] digit_char_def for n




















text \<open>Rules that evaluate the example arithmetic, the worlds and the requests they get.\<close>

lemmas example_eval =
  example_arith_def example_env_def example_world_def failing_world_def bare_world_def
  example_position_def odd_position_def geocoder_answer_def router_answer_def is_geocode_url_def
  example_search_def unset_def key_text_def own_def serp_query_def

lemma example_travel_data:
  "getTravelData id example_arith example_env example_world (JStr ''Paris'') (JStr ''Rome'')
      example_position example_position =
     (Inr \<lparr>options =
            [route_option ''Car'' ''11 hours 6 mins'' ''1148 km'',
             route_option ''Bus/Train (Public)'' ''11 hours 6 mins'' ''1148 km'',
             flight_option (JStr ''1h 30m'')],
          distance = JStr ''1148 km''\<rparr>,
      [Fetch ''https://api.tomtom.com/routing/1/calculateRoute/48.85,2.35:48.85,2.35/json?key=tk&travelMode=car'',
       Fetch ''https://api.tomtom.com/routing/1/calculateRoute/48.85,2.35:48.85,2.35/json?key=tk&travelMode=bus'',
       GetJson [(''api_key'', JStr ''sk''), (''q'', JStr ''flight time from Paris to Rome''),
                (''gl'', JStr ''us''), (''hl'', JStr ''en'')]])"
  by (simp add: getTravelData_def ensure_coords_def routing_def coords_text_def route_options_def
        read_route_def read_summary_def first_route_def formatTravelTime_def flight_info_def
        flight_answer_def query_text_def distance_fallback_def example_eval Let_def)



section \<open>Properties of \<^verbatim>\<open>getDestinationInfo\<close>\<close>

lemma map_throwing_Inr:
  "map_throwing f xs = Inr ys \<Longrightarrow> length ys = length xs \<and> (\<forall>y\<in>set ys. \<exists>x\<in>set xs. f x = Inr y)"
proof (induction xs arbitrary: ys)
  case Nil
  then show ?case by simp
next
  case (Cons x xs)
  from Cons.prems obtain y ys' where fx: "f x = Inr y" and m: "map_throwing f xs = Inr ys'"
    and ys: "ys = y # ys'"
    by (auto split: sum.splits)
  from Cons.IH[OF m] fx ys show ?case by auto
qed

text \<open>
  The invariant of the three hotel searches: at most six entries, each kept by the filter
  and built from a local result of a search that was made.
\<close>

lemma hotels_of_good:
  assumes "hotels_of search = Inr (Some hs)"
  shows "length hs \<le> 6 \<and>
     (\<forall>h\<in>set hs. keep_hotel h \<and>
        (\<exists>xs src. opt_member ''local_results'' search = JArr xs \<and> src \<in> set (take 6 xs) \<and>
           to_hotel src = Inr h))"
proof -
  from assms obtain xs hs0 where lr: "opt_member ''local_results'' search = JArr xs"
    and m: "map_throwing to_hotel (take 6 xs) = Inr hs0"
    and hs: "hs = filter keep_hotel hs0"
    by (auto simp: hotels_of_def split: jsval.splits if_splits sum.splits)
  from map_throwing_Inr[OF m] have l: "length hs0 \<le> 6"
    and e: "\<forall>y\<in>set hs0. \<exists>x\<in>set (take 6 xs). to_hotel x = Inr y" by auto
  have "length hs \<le> length hs0" unfolding hs by simp
  with l have "length hs \<le> 6" by simp
  moreover have "\<exists>xs src. opt_member ''local_results'' search = JArr xs \<and> src \<in> set (take 6 xs) \<and>
           to_hotel src = Inr h" if "h \<in> set hs0" for h
    using e that lr by blast
  ultimately show ?thesis unfolding hs by auto
qed

lemma from_search_more: "from_search w cs src h \<Longrightarrow> from_search w (cs @ cs') src h"
  by (auto simp: from_search_def)

lemma from_search_more': "from_search w cs' src h \<Longrightarrow> from_search w (cs @ cs') src h"
  by (auto simp: from_search_def)

lemma hotels_fallback_good:
  assumes "length hs \<le> 6 \<and> (\<forall>h\<in>set hs. keep_hotel h \<and> (\<exists>src. from_search w cs src h))"
  shows "length (fst (hotels_fallback w p hs)) \<le> 6 \<and>
     (\<forall>h\<in>set (fst (hotels_fallback w p hs)). keep_hotel h \<and>
        (\<exists>src. from_search w (cs @ snd (hotels_fallback w p hs)) src h))"
proof (cases "\<exists>s hs'. getJson w p = Inr s \<and> hotels_of s = Inr (Some hs')")
  case True
  then obtain s hs' where s: "getJson w p = Inr s" "hotels_of s = Inr (Some hs')" by blast
  then have f: "fst (hotels_fallback w p hs) = hs'" by (simp add: hotels_fallback_def)
  have c: "snd (hotels_fallback w p hs) = [GetJson p]" by (simp add: hotels_fallback_def)
  have "keep_hotel h \<and> (\<exists>src. from_search w (cs @ [GetJson p]) src h)" if "h \<in> set hs'" for h
  proof -
    from hotels_of_good[OF s(2)] that obtain xs src where k: "keep_hotel h"
      and x: "opt_member ''local_results'' s = JArr xs" "src \<in> set (take 6 xs)"
        "to_hotel src = Inr h"
      by blast
    from x s(1) have "from_search w (cs @ [GetJson p]) src h"
      unfolding from_search_def by auto
    with k show ?thesis by blast
  qed
  moreover from hotels_of_good[OF s(2)] have "length hs' \<le> 6" by simp
  ultimately show ?thesis unfolding f c by blast
next
  case False
  then have "fst (hotels_fallback w p hs) = hs"
    by (auto simp: hotels_fallback_def split: sum.splits option.splits)
  with assms from_search_more[of w cs] show ?thesis by (simp del: set_append) blast
qed

lemma with_fallbacks_good:
  assumes "length hs \<le> 6 \<and> (\<forall>h\<in>set hs. keep_hotel h \<and> (\<exists>src. from_search w cs src h))"
  shows "length (fst (with_fallbacks w pm ps hs)) \<le> 6 \<and>
     (\<forall>h\<in>set (fst (with_fallbacks w pm ps hs)). keep_hotel h \<and>
        (\<exists>src. from_search w (cs @ snd (with_fallbacks w pm ps hs)) src h))"
proof -
  define f1 where "f1 = (if length hs = 0 then hotels_fallback w pm hs else (hs, []))"
  define f2 where "f2 = (if length (fst f1) = 0 then hotels_fallback w ps (fst f1) else (fst f1, []))"
  have g1: "length (fst f1) \<le> 6 \<and>
      (\<forall>h\<in>set (fst f1). keep_hotel h \<and> (\<exists>src. from_search w (cs @ snd f1) src h))"
    unfolding f1_def using assms hotels_fallback_good[OF assms, of pm]
    by (cases "length hs = 0") simp_all
  have g2: "length (fst f2) \<le> 6 \<and>
      (\<forall>h\<in>set (fst f2). keep_hotel h \<and> (\<exists>src. from_search w ((cs @ snd f1) @ snd f2) src h))"
    unfolding f2_def using g1 hotels_fallback_good[OF g1, of ps]
    by (cases "length (fst f1) = 0") simp_all
  have "with_fallbacks w pm ps hs = (fst f2, snd f1 @ snd f2)"
    by (simp add: with_fallbacks_def Let_def f1_def f2_def)
  with g2 show ?thesis by simp
qed

lemma destination_searches_good:
  assumes "destination_searches w pa ph pb pm ps = (Inr r, cs)"
  shows "length (hotels r) \<le> 6 \<and>
     (\<forall>h\<in>set (hotels r). keep_hotel h \<and> (\<exists>src. from_search w cs src h))"
proof -
  from assms obtain s found where
    g: "getJson w ph = Inr s"
    and f: "hotels_of s = Inr found"
    and r: "hotels r = fst (with_fallbacks w pm ps (case found of None \<Rightarrow> [] | Some hs \<Rightarrow> hs))"
    and cs: "cs = [GetJson pa, GetJson ph, GetJson pb] @
               snd (with_fallbacks w pm ps (case found of None \<Rightarrow> [] | Some hs \<Rightarrow> hs))"
    unfolding destination_searches_def Let_def
    by (auto split: sum.splits)
  have "length (case found of None \<Rightarrow> [] | Some hs \<Rightarrow> hs) \<le> 6 \<and>
     (\<forall>h\<in>set (case found of None \<Rightarrow> [] | Some hs \<Rightarrow> hs).
        keep_hotel h \<and> (\<exists>src. from_search w [GetJson pa, GetJson ph, GetJson pb] src h))"
  proof (cases found)
    case None
    then show ?thesis by simp
  next
    case (Some hs)
    have "keep_hotel h \<and> (\<exists>src. from_search w [GetJson pa, GetJson ph, GetJson pb] src h)"
      if "h \<in> set hs" for h
    proof -
      from hotels_of_good[of s hs] f Some that obtain xs src where k: "keep_hotel h"
        and x: "opt_member ''local_results'' s = JArr xs" "src \<in> set (take 6 xs)"
          "to_hotel src = Inr h"
        by blast
      from x g have "from_search w [GetJson pa, GetJson ph, GetJson pb] src h"
        unfolding from_search_def by auto
      with k show ?thesis by blast
    qed
    moreover from hotels_of_good[of s hs] f Some have "length hs \<le> 6" by simp
    ultimately show ?thesis using Some by simp
  qed
  from with_fallbacks_good[OF this, of pm ps] show ?thesis unfolding r cs .
qed

lemma destination_body_good:
  assumes "destination_body env w destination budget = (Inr r, cs)"
  shows "length (hotels r) \<le> 6 \<and>
     (\<forall>h\<in>set (hotels r). keep_hotel h \<and> (\<exists>src. from_search w cs src h))"
proof -
  from assms obtain pa ph pb pm ps where "destination_searches w pa ph pb pm ps = (Inr r, cs)"
    unfolding destination_body_def Let_def
    by (auto split: if_splits sum.splits)
  from destination_searches_good[OF this] show ?thesis .
qed

lemma to_hotel_fields:
  assumes t: "to_hotel src = Inr h" and k: "keep_hotel h"
  shows "nonempty_string (opt_member ''name'' h)"
    "opt_member ''name'' h \<noteq> JStr ''Hotel''"
    "is_string (opt_member ''address'' h)"
    "number_or_null (opt_member ''rating'' h)"
    "opt_member ''photo'' h =
       js_or (js_or (js_or (opt_member ''thumbnail'' src) (opt_member ''thumbnail_image'' src))
                    (opt_member ''image'' src)) JNull"
    "opt_member ''link'' h =
       js_or (js_or (opt_member ''website'' src) (opt_member ''link'' src)) JNull"
proof -
  from t obtain name address where
    h: "h = JObj [(''name'', JStr (js_trim name)), (''address'', JStr (js_trim address)),
                  (''photo'', photo_of src),
                  (''rating'', (case opt_member ''rating'' src of JNum t \<Rightarrow> JNum t | _ \<Rightarrow> JNull)),
                  (''link'', link_of src)]"
    by (auto simp: to_hotel_def split: sum.splits)
  from k show "nonempty_string (opt_member ''name'' h)"
    and "opt_member ''name'' h \<noteq> JStr ''Hotel''"
    unfolding h by (simp_all add: keep_hotel_def own_def nonempty_string_def)
  show "is_string (opt_member ''address'' h)" unfolding h by (simp add: own_def is_string_def)
  show "number_or_null (opt_member ''rating'' h)"
    unfolding h by (simp add: own_def number_or_null_def split: jsval.splits)
  show "opt_member ''photo'' h =
       js_or (js_or (js_or (opt_member ''thumbnail'' src) (opt_member ''thumbnail_image'' src))
                    (opt_member ''image'' src)) JNull"
    unfolding h by (simp add: own_def photo_of_def)
  show "opt_member ''link'' h =
       js_or (js_or (opt_member ''website'' src) (opt_member ''link'' src)) JNull"
    unfolding h by (simp add: own_def link_of_def)
qed

lemma or_chain_strings:
  "string_or_missing a \<Longrightarrow> string_or_missing b \<Longrightarrow> string_or_missing c \<Longrightarrow>
     string_or_null (js_or (js_or (js_or a b) c) JNull)"
  "string_or_missing a \<Longrightarrow> string_or_missing b \<Longrightarrow> string_or_null (js_or (js_or a b) JNull)"
  by (auto simp: string_or_missing_def string_or_null_def js_or_def split: jsval.splits)

text \<open>
  C8, as the code has it. \<^verbatim>\<open>getDestinationInfo\<close> does not throw: it returns what the body of
  its \<^verbatim>\<open>try\<close> returns, and when that body throws it returns no highlights, no hotels and the
  best time \<^verbatim>\<open>N/A (Error fetching details)\<close>. Every \<^verbatim>\<open>hotels\<close> array that it returns has at
  most 6 elements. Each has a name that is a non-empty string other than \<^verbatim>\<open>Hotel\<close>, an address
  that is a string and a rating that is a number or \<^verbatim>\<open>null\<close>, and each comes from one of the
  first six local results of the answer to one of the searches made: its photo is the first
  truthy one of the fields \<^verbatim>\<open>thumbnail\<close>, \<^verbatim>\<open>thumbnail_image\<close> and \<^verbatim>\<open>image\<close> of that result, as
  it is there, or \<^verbatim>\<open>null\<close>, and its link is the first truthy one of \<^verbatim>\<open>website\<close> and \<^verbatim>\<open>link\<close>
  of that result, as it is there, or \<^verbatim>\<open>null\<close>. So the photo is a string or \<^verbatim>\<open>null\<close> when the
  three fields of the result are strings or missing, and the link is a string or \<^verbatim>\<open>null\<close>
  when the two fields are.
\<close>

theorem getDestinationInfo_result:
  "\<exists>r cs. getDestinationInfo env w destination budget = (Inr r, cs) \<and>
     (fst (destination_body env w destination budget) = Inr r \<or>
      (\<exists>e. fst (destination_body env w destination budget) = Inl e) \<and>
      r = \<lparr>highlights = [], hotels = [], bestTime = JStr ''N/A (Error fetching details)''\<rparr>) \<and>
     length (hotels r) \<le> 6 \<and>
     (\<forall>h\<in>set (hotels r).
        nonempty_string (opt_member ''name'' h) \<and>
        opt_member ''name'' h \<noteq> JStr ''Hotel'' \<and>
        is_string (opt_member ''address'' h) \<and>
        number_or_null (opt_member ''rating'' h) \<and>
        (\<exists>p search xs src.
           GetJson p \<in> set cs \<and> getJson w p = Inr search \<and>
           opt_member ''local_results'' search = JArr xs \<and> src \<in> set (take 6 xs) \<and>
           opt_member ''photo'' h =
             js_or (js_or (js_or (opt_member ''thumbnail'' src) (opt_member ''thumbnail_image'' src))
                          (opt_member ''image'' src)) JNull \<and>
           opt_member ''link'' h =
             js_or (js_or (opt_member ''website'' src) (opt_member ''link'' src)) JNull \<and>
           (string_or_missing (opt_member ''thumbnail'' src) \<and>
            string_or_missing (opt_member ''thumbnail_image'' src) \<and>
            string_or_missing (opt_member ''image'' src) \<longrightarrow>
              string_or_null (opt_member ''photo'' h)) \<and>
           (string_or_missing (opt_member ''website'' src) \<and>
            string_or_missing (opt_member ''link'' src) \<longrightarrow>
              string_or_null (opt_member ''link'' h))))"
proof -
  obtain res cs where b: "destination_body env w destination budget = (res, cs)"
    by (cases "destination_body env w destination budget")
  show ?thesis
  proof (cases res)
    case (Inl e)
    with b have "getDestinationInfo env w destination budget = (Inr error_info, cs)"
      by (simp add: getDestinationInfo_def)
    moreover have "hotels error_info = []"
      "error_info = \<lparr>highlights = [], hotels = [], bestTime = JStr ''N/A (Error fetching details)''\<rparr>"
      by (simp_all add: error_info_def)
    ultimately show ?thesis using b Inl by auto
  next
    case (Inr r)
    with b have g: "getDestinationInfo env w destination budget = (Inr r, cs)"
      by (simp add: getDestinationInfo_def)
    from b Inr have "destination_body env w destination budget = (Inr r, cs)" by simp
    from destination_body_good[OF this]
    have l: "length (hotels r) \<le> 6"
      and k: "\<And>h. h \<in> set (hotels r) \<Longrightarrow> keep_hotel h \<and> (\<exists>src. from_search w cs src h)"
      by auto
    have "nonempty_string (opt_member ''name'' h) \<and>
        opt_member ''name'' h \<noteq> JStr ''Hotel'' \<and>
        is_string (opt_member ''address'' h) \<and>
        number_or_null (opt_member ''rating'' h) \<and>
        (\<exists>p search xs src.
           GetJson p \<in> set cs \<and> getJson w p = Inr search \<and>
           opt_member ''local_results'' search = JArr xs \<and> src \<in> set (take 6 xs) \<and>
           opt_member ''photo'' h =
             js_or (js_or (js_or (opt_member ''thumbnail'' src) (opt_member ''thumbnail_image'' src))
                          (opt_member ''image'' src)) JNull \<and>
           opt_member ''link'' h =
             js_or (js_or (opt_member ''website'' src) (opt_member ''link'' src)) JNull \<and>
           (string_or_missing (opt_member ''thumbnail'' src) \<and>
            string_or_missing (opt_member ''thumbnail_image'' src) \<and>
            string_or_missing (opt_member ''image'' src) \<longrightarrow>
              string_or_null (opt_member ''photo'' h)) \<and>
           (string_or_missing (opt_member ''website'' src) \<and>
            string_or_missing (opt_member ''link'' src) \<longrightarrow>
              string_or_null (opt_member ''link'' h)))"
      if "h \<in> set (hotels r)" for h
    proof -
      from k[OF that] obtain src where kp: "keep_hotel h" and fs: "from_search w cs src h"
        by auto
      from fs obtain p search xs where s: "GetJson p \<in> set cs" "getJson w p = Inr search"
        "opt_member ''local_results'' search = JArr xs" "src \<in> set (take 6 xs)"
        and t: "to_hotel src = Inr h"
        unfolding from_search_def by blast
      note f = to_hotel_fields[OF t kp]
      have "string_or_missing (opt_member ''thumbnail'' src) \<and>
            string_or_missing (opt_member ''thumbnail_image'' src) \<and>
            string_or_missing (opt_member ''image'' src) \<longrightarrow>
              string_or_null (opt_member ''photo'' h)"
        unfolding f(5) using or_chain_strings(1) by blast
      moreover have "string_or_missing (opt_member ''website'' src) \<and>
            string_or_missing (opt_member ''link'' src) \<longrightarrow>
              string_or_null (opt_member ''link'' h)"
        unfolding f(6) using or_chain_strings(2) by blast
      ultimately show ?thesis using f s by blast
    qed
    with g l b Inr show ?thesis by auto
  qed
qed

text \<open>The value in the world where every service answers, and the theorem there.\<close>

lemma example_destination_info:
  "fst (getDestinationInfo example_env example_world (JStr ''Rome'') (JStr ''Luxury'')) =
     Inr \<lparr>highlights = [JStr ''Colosseum''],
          hotels = [JObj [(''name'', JStr ''Ritz''), (''address'', JStr ''1 Main St''),
                          (''photo'', JStr ''https://img/1.png''), (''rating'', JNum ''4.5''),
                          (''link'', JStr ''https://ritz.example'')]],
          bestTime = JStr ''May to June''\<rparr>"
  by (simp add: getDestinationInfo_def destination_body_def destination_searches_def
        example_env_def example_world_def example_search_def
        unset_def key_text_def serp_query_def budgetSearchTerm_def
        toLowerCase_def lower_char_def highlights_of_def opt_map_member_def own_def
        hotels_of_def to_hotel_def photo_of_def link_of_def
        keep_hotel_def js_or_def trim_eval with_fallbacks_def bestTime_of_def Let_def)

theorem getDestinationInfo_result_witness:
  "fst (getDestinationInfo example_env example_world (JStr ''Rome'') (JStr ''Luxury'')) =
     Inr \<lparr>highlights = [JStr ''Colosseum''],
          hotels = [JObj [(''name'', JStr ''Ritz''), (''address'', JStr ''1 Main St''),
                          (''photo'', JStr ''https://img/1.png''), (''rating'', JNum ''4.5''),
                          (''link'', JStr ''https://ritz.example'')]],
          bestTime = JStr ''May to June''\<rparr>
   \<and> (\<exists>r cs. getDestinationInfo example_env example_world (JStr ''Rome'') (JStr ''Luxury'') =
                (Inr r, cs) \<and>
          length (hotels r) \<le> 6)"
  using getDestinationInfo_result[of example_env example_world "JStr ''Rome''" "JStr ''Luxury''"]
    example_destination_info
  by blast

text \<open>
  C8 as it was stated says that the photo and the link are strings or \<^verbatim>\<open>null\<close>. They are
  copied from the search result after a truthiness test only: where the thumbnail of a
  result is the number 5, the photo of the hotel is the number 5.
\<close>

theorem hotel_photo_counterexample:
  "fst (getDestinationInfo example_env failing_world (JStr ''Rome'') (JStr ''Luxury'')) =
     Inr \<lparr>highlights = [],
          hotels = [JObj [(''name'', JStr ''Ritz''), (''address'', JStr []),
                          (''photo'', JNum ''5''), (''rating'', JNull), (''link'', JNull)]],
          bestTime = JNum ''42''\<rparr>
   \<and> string_or_null (JNum ''5'') = False"
  by (simp add: getDestinationInfo_def destination_body_def destination_searches_def
        example_env_def failing_world_def
        unset_def key_text_def serp_query_def budgetSearchTerm_def
        toLowerCase_def lower_char_def highlights_of_def opt_map_member_def own_def
        hotels_of_def to_hotel_def photo_of_def link_of_def
        keep_hotel_def js_or_def trim_eval with_fallbacks_def bestTime_of_def Let_def
        string_or_null_def)

section \<open>Properties of the dates\<close>

text \<open>
  The calendar fields of six times of January 2024: 19:00 of the 9th, 10th and 11th (which
  is midnight of the next day five hours further east) and midnight of the 10th, 11th and
  12th.
\<close>

lemma fields_jan_9_evening:
  "YearFromTime 1704826800000 = 2024" "MonthFromTime 1704826800000 = 0" "DateFromTime 1704826800000 = 9"
  "TimeWithinDay 1704826800000 = 68400000"
proof -
  have d: "Day 1704826800000 = 19731" by (simp add: Day_def msPerDay_def)
  show y: "YearFromTime 1704826800000 = 2024"
    by (simp add: YearFromTime_def d DayFromYear_def Let_def)
  have l: "InLeapYear 1704826800000 = 1" by (simp add: InLeapYear_def y Let_def)
  have w: "DayWithinYear 1704826800000 = 8" by (simp add: DayWithinYear_def y d DayFromYear_def)
  show m: "MonthFromTime 1704826800000 = 0" by (simp add: MonthFromTime_def w l Let_def)
  show "DateFromTime 1704826800000 = 9" by (simp add: DateFromTime_def w l m month_start_def)
  show "TimeWithinDay 1704826800000 = 68400000" by (simp add: TimeWithinDay_def msPerDay_def)
qed

lemma fields_jan_10_evening:
  "YearFromTime 1704913200000 = 2024" "MonthFromTime 1704913200000 = 0" "DateFromTime 1704913200000 = 10"
  "TimeWithinDay 1704913200000 = 68400000"
proof -
  have d: "Day 1704913200000 = 19732" by (simp add: Day_def msPerDay_def)
  show y: "YearFromTime 1704913200000 = 2024"
    by (simp add: YearFromTime_def d DayFromYear_def Let_def)
  have l: "InLeapYear 1704913200000 = 1" by (simp add: InLeapYear_def y Let_def)
  have w: "DayWithinYear 1704913200000 = 9" by (simp add: DayWithinYear_def y d DayFromYear_def)
  show m: "MonthFromTime 1704913200000 = 0" by (simp add: MonthFromTime_def w l Let_def)
  show "DateFromTime 1704913200000 = 10" by (simp add: DateFromTime_def w l m month_start_def)
  show "TimeWithinDay 1704913200000 = 68400000" by (simp add: TimeWithinDay_def msPerDay_def)
qed

lemma fields_jan_11_evening:
  "YearFromTime 1704999600000 = 2024" "MonthFromTime 1704999600000 = 0" "DateFromTime 1704999600000 = 11"
  "TimeWithinDay 1704999600000 = 68400000"
proof -
  have d: "Day 1704999600000 = 19733" by (simp add: Day_def msPerDay_def)
  show y: "YearFromTime 1704999600000 = 2024"
    by (simp add: YearFromTime_def d DayFromYear_def Let_def)
  have l: "InLeapYear 1704999600000 = 1" by (simp add: InLeapYear_def y Let_def)
  have w: "DayWithinYear 1704999600000 = 10" by (simp add: DayWithinYear_def y d DayFromYear_def)
  show m: "MonthFromTime 1704999600000 = 0" by (simp add: MonthFromTime_def w l Let_def)
  show "DateFromTime 1704999600000 = 11" by (simp add: DateFromTime_def w l m month_start_def)
  show "TimeWithinDay 1704999600000 = 68400000" by (simp add: TimeWithinDay_def msPerDay_def)
qed

lemma fields_jan_10_midnight:
  "YearFromTime 1704844800000 = 2024" "MonthFromTime 1704844800000 = 0" "DateFromTime 1704844800000 = 10"
  "TimeWithinDay 1704844800000 = 0"
proof -
  have d: "Day 1704844800000 = 19732" by (simp add: Day_def msPerDay_def)
  show y: "YearFromTime 1704844800000 = 2024"
    by (simp add: YearFromTime_def d DayFromYear_def Let_def)
  have l: "InLeapYear 1704844800000 = 1" by (simp add: InLeapYear_def y Let_def)
  have w: "DayWithinYear 1704844800000 = 9" by (simp add: DayWithinYear_def y d DayFromYear_def)
  show m: "MonthFromTime 1704844800000 = 0" by (simp add: MonthFromTime_def w l Let_def)
  show "DateFromTime 1704844800000 = 10" by (simp add: DateFromTime_def w l m month_start_def)
  show "TimeWithinDay 1704844800000 = 0" by (simp add: TimeWithinDay_def msPerDay_def)
qed

lemma fields_jan_11_midnight:
  "YearFromTime 1704931200000 = 2024" "MonthFromTime 1704931200000 = 0" "DateFromTime 1704931200000 = 11"
  "TimeWithinDay 1704931200000 = 0"
proof -
  have d: "Day 1704931200000 = 19733" by (simp add: Day_def msPerDay_def)
  show y: "YearFromTime 1704931200000 = 2024"
    by (simp add: YearFromTime_def d DayFromYear_def Let_def)
  have l: "InLeapYear 1704931200000 = 1" by (simp add: InLeapYear_def y Let_def)
  have w: "DayWithinYear 1704931200000 = 10" by (simp add: DayWithinYear_def y d DayFromYear_def)
  show m: "MonthFromTime 1704931200000 = 0" by (simp add: MonthFromTime_def w l Let_def)
  show "DateFromTime 1704931200000 = 11" by (simp add: DateFromTime_def w l m month_start_def)
  show "TimeWithinDay 1704931200000 = 0" by (simp add: TimeWithinDay_def msPerDay_def)
qed

lemma fields_jan_12_midnight:
  "YearFromTime 1705017600000 = 2024" "MonthFromTime 1705017600000 = 0" "DateFromTime 1705017600000 = 12"
  "TimeWithinDay 1705017600000 = 0"
proof -
  have d: "Day 1705017600000 = 19734" by (simp add: Day_def msPerDay_def)
  show y: "YearFromTime 1705017600000 = 2024"
    by (simp add: YearFromTime_def d DayFromYear_def Let_def)
  have l: "InLeapYear 1705017600000 = 1" by (simp add: InLeapYear_def y Let_def)
  have w: "DayWithinYear 1705017600000 = 11" by (simp add: DayWithinYear_def y d DayFromYear_def)
  show m: "MonthFromTime 1705017600000 = 0" by (simp add: MonthFromTime_def w l Let_def)
  show "DateFromTime 1705017600000 = 12" by (simp add: DateFromTime_def w l m month_start_def)
  show "TimeWithinDay 1705017600000 = 0" by (simp add: TimeWithinDay_def msPerDay_def)
qed

lemma MakeDay_january_2024: "MakeDay 2024 0 d = 19722 + d"
  by (simp add: MakeDay_def DayFromYear_def month_start_def Let_def)

lemma two_digits: "padStart2 (show_int 1) = ''01''" "padStart2 (show_int 9) = ''09''"
  "padStart2 (show_int 10) = ''10''" "padStart2 (show_int 11) = ''11''"
  "padStart2 (show_int 12) = ''12''" "show_int 2024 = ''2024''"
  by (simp_all add: padStart2_def show_int_def show_nat_eval)

text \<open>The loop over three days from midnight of 10 January, five hours west and at Greenwich.\<close>

lemma fill_dates_west:
  "fill_dates (\<lambda>t u. - 18000000) 3 (Some 1704844800000) [] =
     [''2024-01-09'', ''2024-01-10'', ''2024-01-11'']"
proof -
  have s: "setDate_next (\<lambda>t u. - 18000000) (Some 1704844800000) = Some 1704931200000"
    "setDate_next (\<lambda>t u. - 18000000) (Some 1704931200000) = Some 1705017600000"
    by (simp_all add: setDate_next_def LocalTime_def UTC_def MakeDate_def MakeDay_january_2024
          fields_jan_9_evening fields_jan_10_evening TimeClip_def msPerDay_def)
  have d: "date_string (\<lambda>t u. - 18000000) (Some 1704844800000) = ''2024-01-09''"
    "date_string (\<lambda>t u. - 18000000) (Some 1704931200000) = ''2024-01-10''"
    "date_string (\<lambda>t u. - 18000000) (Some 1705017600000) = ''2024-01-11''"
    by (simp_all add: date_string_def LocalTime_def fields_jan_9_evening fields_jan_10_evening
          fields_jan_11_evening two_digits)
  have "fill_dates (\<lambda>t u. - 18000000) (Suc (Suc (Suc 0))) (Some 1704844800000) [] =
     [''2024-01-09'', ''2024-01-10'', ''2024-01-11'']"
    by (simp add: s d)
  moreover have "(3::nat) = Suc (Suc (Suc 0))" by simp
  ultimately show ?thesis by (simp only:)
qed

lemma fill_dates_greenwich:
  "fill_dates (\<lambda>t u. 0) 3 (Some 1704844800000) [] =
     [''2024-01-10'', ''2024-01-11'', ''2024-01-12'']"
proof -
  have s: "setDate_next (\<lambda>t u. 0) (Some 1704844800000) = Some 1704931200000"
    "setDate_next (\<lambda>t u. 0) (Some 1704931200000) = Some 1705017600000"
    by (simp_all add: setDate_next_def LocalTime_def UTC_def MakeDate_def MakeDay_january_2024
          fields_jan_10_midnight fields_jan_11_midnight TimeClip_def msPerDay_def)
  have d: "date_string (\<lambda>t u. 0) (Some 1704844800000) = ''2024-01-10''"
    "date_string (\<lambda>t u. 0) (Some 1704931200000) = ''2024-01-11''"
    "date_string (\<lambda>t u. 0) (Some 1705017600000) = ''2024-01-12''"
    by (simp_all add: date_string_def LocalTime_def fields_jan_10_midnight fields_jan_11_midnight
          fields_jan_12_midnight two_digits)
  have "fill_dates (\<lambda>t u. 0) (Suc (Suc (Suc 0))) (Some 1704844800000) [] =
     [''2024-01-10'', ''2024-01-11'', ''2024-01-12'']"
    by (simp add: s d)
  moreover have "(3::nat) = Suc (Suc (Suc 0))" by simp
  ultimately show ?thesis by (simp only:)
qed

lemma january_request_dates:
  "new_Date ar example_date_parse (JStr ''2024-01-10'') = Inr (Some 1704844800000)"
  "new_Date ar example_date_parse (JStr ''2024-01-12'') = Inr (Some 1705017600000)"
  by (simp_all add: new_Date_def example_date_parse_def TimeClip_def)

lemma plan_dates_january:
  "plan_dates ar example_date_parse tza (JStr ''2024-01-10'') (JStr ''2024-01-12'') =
     \<lparr>numberOfDays = ''3 days'', calculatedDays = 3,
      allDates = fill_dates tza 3 (Some 1704844800000) []\<rparr>"
  unfolding plan_dates_def january_request_dates
  by (simp add: Let_def show_nat_eval del: fill_dates.simps)

section \<open>Properties of \<^verbatim>\<open>POST\<close>\<close>

lemma js_includes_iff: "js_includes s sub = (\<exists>pre post. s = pre @ sub @ post)"
proof (induction s)
  case Nil
  show ?case by auto
next
  case (Cons c cs)
  show ?case
  proof
    assume "js_includes (c # cs) sub"
    then consider "take (length sub) (c # cs) = sub" | "js_includes cs sub" by auto
    then show "\<exists>pre post. c # cs = pre @ sub @ post"
    proof cases
      case 1
      then have "c # cs = [] @ sub @ drop (length sub) (c # cs)"
        by (metis append_Nil append_take_drop_id)
      then show ?thesis by blast
    next
      case 2
      with Cons.IH obtain pre post where "cs = pre @ sub @ post" by auto
      then have "c # cs = (c # pre) @ sub @ post" by simp
      then show ?thesis by blast
    qed
  next
    assume "\<exists>pre post. c # cs = pre @ sub @ post"
    then obtain pre post where e: "c # cs = pre @ sub @ post" by auto
    show "js_includes (c # cs) sub"
    proof (cases pre)
      case Nil
      with e have "take (length sub) (c # cs) = sub" by simp
      then show ?thesis by simp
    next
      case (Cons p ps)
      with e have "cs = ps @ sub @ post" by simp
      with Cons.IH show ?thesis by auto
    qed
  qed
qed

lemma opt_member_string: "opt_member k body = JStr s \<Longrightarrow> \<exists>kvs. body = JObj kvs"
  by (cases body) (simp_all add: own_def)

text \<open>
  C5. When the destination of the body of the request is a string that contains
  \<^verbatim>\<open>antarctica\<close> in any letter case, \<^verbatim>\<open>POST\<close> returns the response with status 400, the
  header \<^verbatim>\<open>Content-Type: application/json\<close> and the body that \<^verbatim>\<open>JSON.stringify\<close> gives for
  the object with the one property \<^verbatim>\<open>error\<close>, and it has made no request: no \<^verbatim>\<open>fetch\<close>, no
  search, no call of the model.
\<close>

theorem antarctica_guard:
  assumes "opt_member ''destination'' body = JStr (pre @ mid @ post)"
    and "toLowerCase mid = ''antarctica''"
  shows "POST pf env w (Inr body) =
     (Inr \<lparr>resp_status = 400,
           resp_headers = [(''Content-Type'', ''application/json'')],
           resp_body = Text (JSON_stringify pf (JObj [(''error'',
             JStr ''Travel to Antarctica requires a specialized expedition and cannot be planned this way.'')]))\<rparr>,
      [])"
proof -
  from opt_member_string[OF assms(1)] obtain kvs where b: "body = JObj kvs" by blast
  have "toLowerCase (pre @ mid @ post) = toLowerCase pre @ ''antarctica'' @ toLowerCase post"
    using assms(2) by (simp add: toLowerCase_def)
  then have "js_includes (toLowerCase (pre @ mid @ post)) ''antarctica''"
    unfolding js_includes_iff by blast
  with assms(1) show ?thesis
    unfolding b by (simp add: POST_def destructure_def json_error_def)
qed

text \<open>The theorem at a destination with mixed letter case.\<close>

theorem antarctica_guard_witness:
  "POST example_platform example_env example_world
      (Inr (request_body ''McMurdo, ANTarcTIca (base)'' ''2024-02-28'' ''2024-03-01'')) =
     (Inr \<lparr>resp_status = 400,
           resp_headers = [(''Content-Type'', ''application/json'')],
           resp_body = Text (show_json (JObj [(''error'',
             JStr ''Travel to Antarctica requires a specialized expedition and cannot be planned this way.'')]))\<rparr>,
      [])"
proof -
  have a: "opt_member ''destination''
      (request_body ''McMurdo, ANTarcTIca (base)'' ''2024-02-28'' ''2024-03-01'') =
      JStr (''McMurdo, '' @ ''ANTarcTIca'' @ '' (base)'')"
    by (simp add: request_body_def own_def)
  have b: "toLowerCase ''ANTarcTIca'' = ''antarctica''"
    by (simp add: toLowerCase_def lower_char_def)
  from antarctica_guard[OF a b, of example_platform example_env example_world]
  show ?thesis by (simp add: example_platform_def)
qed

subsection \<open>The requests that the helpers make\<close>

lemma promise_all2_calls: "snd (promise_all2 b x y) = snd x @ snd y"
  by (simp add: promise_all2_def)

lemma getCoords_calls: "\<forall>c\<in>set (snd (getCoords enc env w l)). \<not> is_post c"
  by (auto simp: getCoords_def Let_def split: sum.splits)

lemma ensure_coords_calls: "\<forall>c\<in>set (snd (ensure_coords enc env w f d pf pd)). \<not> is_post c"
  using getCoords_calls[of enc env w f] getCoords_calls[of enc env w d]
  by (auto simp: ensure_coords_def promise_all2_calls)

lemma coords_failed_calls: "\<forall>c\<in>set (snd (coords_failed env w f d)). \<not> is_post c"
  by (auto simp: coords_failed_def Let_def split: sum.splits)

lemma routing_calls: "\<forall>c\<in>set (snd (routing ar env w f d)). \<not> is_post c"
  by (auto simp: routing_def Let_def split: sum.splits)

lemma flight_info_calls: "\<forall>c\<in>set (snd (flight_info ar env w f d fc dc opts)). \<not> is_post c"
  by (auto simp: flight_info_def Let_def split: sum.splits)

lemma distance_fallback_calls:
  "\<forall>c\<in>set (snd (distance_fallback ar env w f d fc dc dist)). \<not> is_post c"
  by (auto simp: distance_fallback_def Let_def split: sum.splits)

lemma getTravelData_calls:
  "\<forall>c\<in>set (snd (getTravelData enc ar env w f d pf pd)). \<not> is_post c"
proof -
  obtain res cs1 where en: "ensure_coords enc env w f d pf pd = (res, cs1)"
    by (cases "ensure_coords enc env w f d pf pd")
  have e: "\<forall>c\<in>set cs1. \<not> is_post c"
    using ensure_coords_calls[of enc env w f d pf pd] en by simp
  show ?thesis
  proof (cases res)
    case (Inl error)
    show ?thesis
      unfolding getTravelData_def en Inl
      using e coords_failed_calls[of env w f d]
      by (auto split: prod.splits)
  next
    case (Inr p)
    obtain fc dc where p: "p = (fc, dc)" by (cases p)
    obtain r2 cs2 where r: "routing ar env w fc dc = (r2, cs2)" by (cases "routing ar env w fc dc")
    obtain o2 d2 where r2: "r2 = (o2, d2)" by (cases r2)
    obtain o3 cs3 where fl: "flight_info ar env w f d fc dc o2 = (o3, cs3)"
      by (cases "flight_info ar env w f d fc dc o2")
    obtain r4 cs4 where df: "distance_fallback ar env w f d fc dc d2 = (r4, cs4)"
      by (cases "distance_fallback ar env w f d fc dc d2")
    have "\<forall>c\<in>set cs2. \<not> is_post c" "\<forall>c\<in>set cs3. \<not> is_post c" "\<forall>c\<in>set cs4. \<not> is_post c"
      using routing_calls[of ar env w fc dc] flight_info_calls[of ar env w f d fc dc o2]
        distance_fallback_calls[of ar env w f d fc dc d2] r fl df
      by simp_all
    with e show ?thesis
      unfolding getTravelData_def en Inr p
      by (cases r4) (auto simp: r r2 fl df)
  qed
qed

lemma hotels_fallback_calls: "snd (hotels_fallback w p hs) = [GetJson p]"
  by (simp add: hotels_fallback_def)

lemma with_fallbacks_calls: "\<forall>c\<in>set (snd (with_fallbacks w pm ps hs)). \<not> is_post c"
  by (auto simp: with_fallbacks_def Let_def hotels_fallback_calls)

lemma destination_searches_calls:
  "\<forall>c\<in>set (snd (destination_searches w pa ph pb pm ps)). \<not> is_post c"
  unfolding destination_searches_def Let_def
  by (auto split: sum.splits dest: with_fallbacks_calls[THEN bspec])

lemma destination_body_shape:
  "snd (destination_body env w d b) = [] \<and>
     (\<forall>w' :: 'c world. destination_body env w' d b = destination_body env w d b) \<or>
   (\<exists>pa ph pb pm ps.
      \<forall>w' :: 'c world. destination_body env w' d b = destination_searches w' pa ph pb pm ps)"
  for w :: "'c world"
proof (cases "unset (SERPAPI_API_KEY env)")
  case True
  then show ?thesis by (simp add: destination_body_def)
next
  case False
  note k = this
  show ?thesis
  proof (cases "budgetSearchTerm b")
    case (Inl e)
    with k show ?thesis by (simp add: destination_body_def)
  next
    case (Inr tm)
    note t = this
    show ?thesis
    proof (cases "ToString d")
      case (Inl e)
      with k t show ?thesis by (simp add: destination_body_def)
    next
      case (Inr dest)
      with k t have "\<forall>w' :: 'c world. destination_body env w' d b =
          destination_searches w'
              (serp_query env (''top attractions in '' @ dest))
              (serp_query env (tm @ '' in '' @ dest) @
                 [(''location'', d), (''num'', JNum ''6''), (''tbm'', JStr ''lcl'')])
              (serp_query env (''when is the best time to visit '' @ dest))
              [(''api_key'', JStr (key_text (SERPAPI_API_KEY env))), (''engine'', JStr ''google_maps''),
               (''q'', JStr (tm @ '' '' @ dest)), (''type'', JStr ''search'')]
              (serp_query env (''hotels in '' @ dest) @
                 [(''location'', d), (''num'', JNum ''6'')])"
        by (simp add: destination_body_def Let_def)
      then show ?thesis by (intro disjI2 exI)
    qed
  qed
qed

lemma destination_body_calls:
  "\<forall>c\<in>set (snd (destination_body env w d b)). \<not> is_post c"
proof -
  from destination_body_shape[of env w d b]
  consider "snd (destination_body env w d b) = []"
    | pa ph pb pm ps where "destination_body env w d b = destination_searches w pa ph pb pm ps"
    by blast
  then show ?thesis
  proof cases
    case 1
    then show ?thesis by simp
  next
    case 2
    show ?thesis unfolding 2 by (rule destination_searches_calls)
  qed
qed

lemma getDestinationInfo_calls:
  "\<forall>c\<in>set (snd (getDestinationInfo env w d b)). \<not> is_post c"
  using destination_body_calls[of env w d b]
  by (auto simp: getDestinationInfo_def split: prod.splits sum.splits)

subsection \<open>The paths through the handler\<close>

lemma POST_success:
  assumes d: "destructure body = Inr req"
    and l: "call_toLowerCase (req_destination req) = Inr lower"
    and g: "\<not> js_includes lower ''antarctica''"
    and c1: "fst (getCoords (encodeURIComponent pf) env w (req_from req)) = Inr fc"
    and c2: "fst (getCoords (encodeURIComponent pf) env w (req_destination req)) = Inr dc"
    and t: "fst (getTravelData (encodeURIComponent pf) (arithmetic pf) env w
               (req_from req) (req_destination req) fc dc) = Inr td"
    and i: "fst (getDestinationInfo env w (req_destination req) (req_budget req)) = Inr info"
  shows "\<exists>cs. (\<forall>c\<in>set cs. \<not> is_post c) \<and>
        POST pf env w (Inr body) =
          (fst (call_model pf env w req fc dc td info),
           cs @ snd (call_model pf env w req fc dc td info))"
proof -
  define g1 where "g1 = getCoords (encodeURIComponent pf) env w (req_from req)"
  define g2 where "g2 = getCoords (encodeURIComponent pf) env w (req_destination req)"
  define tt where "tt = getTravelData (encodeURIComponent pf) (arithmetic pf) env w
               (req_from req) (req_destination req) fc dc"
  define ii where "ii = getDestinationInfo env w (req_destination req) (req_budget req)"
  have pa: "promise_all2 (second_rejects_first w) g1 g2 = (Inr (fc, dc), snd g1 @ snd g2)"
    using c1 c2 by (simp add: promise_all2_def g1_def g2_def)
  have pb: "promise_all2 (second_rejects_first w) tt ii = (Inr (td, info), snd tt @ snd ii)"
    using t i by (simp add: promise_all2_def tt_def ii_def)
  have cs: "\<forall>c\<in>set ((snd g1 @ snd g2) @ snd tt @ snd ii). \<not> is_post c"
    using getCoords_calls[of "encodeURIComponent pf" env w "req_from req"]
      getCoords_calls[of "encodeURIComponent pf" env w "req_destination req"]
      getTravelData_calls[of "encodeURIComponent pf" "arithmetic pf" env w "req_from req"
        "req_destination req" fc dc]
      getDestinationInfo_calls[of env w "req_destination req" "req_budget req"]
    by (auto simp: g1_def g2_def tt_def ii_def)
  have "POST pf env w (Inr body) =
        (fst (call_model pf env w req fc dc td info),
         ((snd g1 @ snd g2) @ snd tt @ snd ii) @ snd (call_model pf env w req fc dc td info))"
    using d l g pa pb
    by (simp add: POST_def g1_def[symmetric] g2_def[symmetric] tt_def[symmetric]
          ii_def[symmetric] split: prod.splits)
  with cs show ?thesis by blast
qed

lemma POST_cases:
  "(\<forall>c\<in>set (snd (POST pf env w rq)). \<not> is_post c) \<or>
   (\<exists>body req lower fc dc td info cs.
      rq = Inr body \<and> destructure body = Inr req \<and>
      call_toLowerCase (req_destination req) = Inr lower \<and> \<not> js_includes lower ''antarctica'' \<and>
      fst (getCoords (encodeURIComponent pf) env w (req_from req)) = Inr fc \<and>
      fst (getCoords (encodeURIComponent pf) env w (req_destination req)) = Inr dc \<and>
      fst (getTravelData (encodeURIComponent pf) (arithmetic pf) env w
             (req_from req) (req_destination req) fc dc) = Inr td \<and>
      fst (getDestinationInfo env w (req_destination req) (req_budget req)) = Inr info \<and>
      (\<forall>c\<in>set cs. \<not> is_post c) \<and>
      POST pf env w rq =
        (fst (call_model pf env w req fc dc td info),
         cs @ snd (call_model pf env w req fc dc td info)))"
proof (cases rq)
  case (Inl e)
  then show ?thesis by (simp add: POST_def)
next
  case (Inr body)
  note rq = this
  show ?thesis
  proof (cases "destructure body")
    case (Inl e)
    with rq show ?thesis by (simp add: POST_def)
  next
    case (Inr req)
    note d = this
    show ?thesis
    proof (cases "call_toLowerCase (req_destination req)")
      case (Inl e)
      with rq d show ?thesis by (simp add: POST_def)
    next
      case (Inr lower)
      note l = this
      show ?thesis
      proof (cases "js_includes lower ''antarctica''")
        case True
        with rq d l show ?thesis by (simp add: POST_def)
      next
        case False
        define g1 where "g1 = getCoords (encodeURIComponent pf) env w (req_from req)"
        define g2 where "g2 = getCoords (encodeURIComponent pf) env w (req_destination req)"
        obtain res cs1 where pa: "promise_all2 (second_rejects_first w) g1 g2 = (res, cs1)"
          by (cases "promise_all2 (second_rejects_first w) g1 g2")
        have cs1: "\<forall>c\<in>set cs1. \<not> is_post c"
          using pa promise_all2_calls[of "second_rejects_first w" g1 g2]
            getCoords_calls[of "encodeURIComponent pf" env w "req_from req"]
            getCoords_calls[of "encodeURIComponent pf" env w "req_destination req"]
          by (auto simp: g1_def g2_def)
        show ?thesis
        proof (cases res)
          case (Inl error)
          have "POST pf env w rq =
              (Inr (json_error (JSON_stringify pf) 500 (fetch_error_message error)), cs1)"
            using rq d l False pa Inl by (simp add: POST_def g1_def g2_def)
          with cs1 show ?thesis by simp
        next
          case (Inr p)
          note res = this
          obtain fc dc where p: "p = (fc, dc)" by (cases p)
          from pa Inr p have c: "fst g1 = Inr fc" "fst g2 = Inr dc"
            by (auto simp: promise_all2_def split: sum.splits)
          define tt where "tt = getTravelData (encodeURIComponent pf) (arithmetic pf) env w
                     (req_from req) (req_destination req) fc dc"
          define ii where "ii = getDestinationInfo env w (req_destination req) (req_budget req)"
          obtain res2 cs2 where pb: "promise_all2 (second_rejects_first w) tt ii = (res2, cs2)"
            by (cases "promise_all2 (second_rejects_first w) tt ii")
          have cs2: "\<forall>c\<in>set cs2. \<not> is_post c"
            using pb promise_all2_calls[of "second_rejects_first w" tt ii]
              getTravelData_calls[of "encodeURIComponent pf" "arithmetic pf" env w "req_from req"
                "req_destination req" fc dc]
              getDestinationInfo_calls[of env w "req_destination req" "req_budget req"]
            by (auto simp: tt_def ii_def)
          show ?thesis
          proof (cases res2)
            case (Inl error)
            have "POST pf env w rq =
                (Inr (json_error (JSON_stringify pf) 500 (fetch_error_message error)), cs1 @ cs2)"
              using rq d l False pa res p pb Inl by (simp add: POST_def g1_def g2_def tt_def ii_def)
            with cs1 cs2 show ?thesis by auto
          next
            case (Inr q)
            obtain td info where q: "q = (td, info)" by (cases q)
            from pb Inr q have r: "fst tt = Inr td" "fst ii = Inr info"
              by (auto simp: promise_all2_def split: sum.splits)
            have "POST pf env w rq =
                (fst (call_model pf env w req fc dc td info),
                 (cs1 @ cs2) @ snd (call_model pf env w req fc dc td info))"
              using rq d l False pa res p pb Inr q
              by (simp add: POST_def g1_def g2_def tt_def ii_def split: prod.splits)
            with rq d l False cs1 cs2 c r show ?thesis
              unfolding g1_def g2_def tt_def ii_def
              by (intro disjI2 exI[of _ body] exI[of _ req] exI[of _ lower] exI[of _ fc]
                    exI[of _ dc] exI[of _ td] exI[of _ info] exI[of _ "cs1 @ cs2"]) auto
          qed
        qed
      qed
    qed
  qed
qed

subsection \<open>The prompt and the request that carries it\<close>

lemma template_member:
  "template ps = Inr p \<Longrightarrow> x \<in> set ps \<Longrightarrow> \<exists>s. x = Inr s \<and> sublist s p"
proof (induction ps arbitrary: p)
  case Nil
  then show ?case by simp
next
  case (Cons a ps)
  from Cons.prems(1) obtain s t where a: "a = Inr s" and t: "template ps = Inr t" and p: "p = s @ t"
    by (auto split: sum.splits)
  show ?case
  proof (cases "x = a")
    case True
    have "sublist s (s @ t)" by simp
    with True a p show ?thesis by simp
  next
    case False
    with Cons.prems(2) have "x \<in> set ps" by simp
    from Cons.IH[OF t this] obtain s' where "x = Inr s'" "sublist s' t" by blast
    then show ?thesis unfolding p using sublist_append by blast
  qed
qed

lemma template_total: "(\<And>x. x \<in> set ps \<Longrightarrow> \<exists>s. x = Inr s) \<Longrightarrow> \<exists>p. template ps = Inr p"
proof (induction ps)
  case Nil
  show ?case by simp
next
  case (Cons a ps)
  from Cons.prems[of a] obtain s where a: "a = Inr s" by auto
  from Cons.IH Cons.prems obtain t where "template ps = Inr t" by auto
  with a show ?case by simp
qed

lemma prompt_members:
  "ToString (distance td) \<in> set (prompt_parts sf req fc dc td info plan)"
  "Inr (sf (JArr (options td))) \<in> set (prompt_parts sf req fc dc td info plan)"
  "ToString (bestTime info) \<in> set (prompt_parts sf req fc dc td info plan)"
  "Inr (sf (JArr (hotels info))) \<in> set (prompt_parts sf req fc dc td info plan)"
  "Inr (sf fc) \<in> set (prompt_parts sf req fc dc td info plan)"
  "Inr (sf dc) \<in> set (prompt_parts sf req fc dc td info plan)"
  by (simp_all add: prompt_parts_def)

lemma call_model_calls:
  assumes "c \<in> set (snd (call_model pf env w req fc dc td info))"
  shows "\<exists>p. prompt (JSON_stringify pf) req fc dc td info
               (plan_dates (arithmetic pf) (Date_parse pf) (LocalTZA pf)
                  (req_startDate req) (req_endDate req)) = Inr p \<and>
             \<not> unset (GROQ_API_KEY env) \<and>
             snd (call_model pf env w req fc dc td info) = [c] \<and>
             c = FetchPost ''https://api.groq.com/openai/v1/chat/completions''
                   [(''Content-Type'', ''application/json''),
                    (''Authorization'', ''Bearer '' @ key_text (GROQ_API_KEY env))]
                   (JSON_stringify pf
                      (JObj [(''model'', JStr (GROQ_MODEL env)),
                             (''messages'', JArr [JObj [(''role'', JStr ''user''), (''content'', JStr p)]]),
                             (''temperature'', JNum ''0.7''),
                             (''stream'', JBool True)]))"
  using assms
  by (auto simp: call_model_def Let_def groq_headers_def groq_body_def split: sum.splits if_splits)

lemma call_model_sent:
  assumes "prompt (JSON_stringify pf) req fc dc td info
               (plan_dates (arithmetic pf) (Date_parse pf) (LocalTZA pf)
                  (req_startDate req) (req_endDate req)) = Inr p"
    and "\<not> unset (GROQ_API_KEY env)"
  shows "snd (call_model pf env w req fc dc td info) =
     [FetchPost ''https://api.groq.com/openai/v1/chat/completions'' (groq_headers env)
        (JSON_stringify pf (groq_body env p))]"
  using assms by (simp add: call_model_def Let_def)

lemma convertible_text: "convertible v \<Longrightarrow> \<exists>s. ToString v = Inr s"
  by (cases "ToString v") (simp_all add: convertible_def)

lemma element_texts_total: "list_all convertible xs \<Longrightarrow> \<exists>ts. element_texts xs = Inr ts"
proof (induction xs)
  case Nil
  show ?case by simp
next
  case (Cons x xs)
  then obtain s ts where "ToString x = Inr s" "element_texts xs = Inr ts"
    using convertible_text[of x] by auto
  then show ?case by simp
qed

lemma call_join_total: "text_array v \<Longrightarrow> \<exists>s. call_join sep v = Inr s"
proof (cases v)
  case (JArr xs)
  assume "text_array v"
  with JArr have "list_all convertible xs" by (simp add: text_array_def)
  from element_texts_total[OF this] obtain ts where "element_texts xs = Inr ts" by blast
  with JArr show ?thesis by (simp add: js_join_def)
qed (simp_all add: text_array_def)

lemma highlights_text_total: "list_all convertible hl \<Longrightarrow> \<exists>s. highlights_text hl = Inr s"
proof -
  assume "list_all convertible hl"
  from element_texts_total[OF this] obtain ts where "element_texts hl = Inr ts" by blast
  then show ?thesis by (simp add: highlights_text_def js_join_def)
qed

lemma getCoords_convertible:
  "fst (getCoords enc env w l) = Inr c \<Longrightarrow> \<exists>s. ToString l = Inr s"
  by (cases "ToString l") (auto simp: getCoords_def split: if_splits)

lemma call_toLowerCase_string: "call_toLowerCase v = Inr lower \<Longrightarrow> \<exists>s. v = JStr s"
  by (cases v) simp_all

lemma first_hotel_text_total:
  assumes i: "fst (getDestinationInfo env w d b) = Inr info" and c: "convertible b'"
  shows "\<exists>s. first_hotel_text (hotels info) b' = Inr s"
proof (cases "hotels info")
  case Nil
  with convertible_text[OF c] show ?thesis by (auto simp: first_hotel_text_def)
next
  case (Cons h hs)
  obtain res cs where b: "destination_body env w d b = (res, cs)"
    by (cases "destination_body env w d b")
  have "res = Inr info"
  proof (cases res)
    case (Inl e)
    with b i have "info = error_info" by (simp add: getDestinationInfo_def)
    with Cons show ?thesis by (simp add: error_info_def)
  next
    case (Inr r)
    with b i show ?thesis by (simp add: getDestinationInfo_def)
  qed
  with b have "destination_body env w d b = (Inr info, cs)" by simp
  from destination_body_good[OF this] Cons obtain src where "from_search w cs src h" by auto
  then have "to_hotel src = Inr h" unfolding from_search_def by blast
  then obtain n where "member ''name'' h = Inr (JStr n)"
    by (auto simp: to_hotel_def own_def split: sum.splits)
  with Cons show ?thesis by (simp add: first_hotel_text_def)
qed

lemma element_text: "\<exists>s. ToString (element k ds) = Inr s"
  by (simp add: element_def)

lemma prompt_total:
  assumes "ToString (req_from req) = Inr a1" "ToString (req_destination req) = Inr a2"
    "ToString (req_startDate req) = Inr a3" "ToString (req_endDate req) = Inr a4"
    "ToString (req_budget req) = Inr a5" "ToString (req_transportMode req) = Inr a6"
    "call_join '', '' (req_interests req) = Inr a7" "ToString (distance td) = Inr a8"
    "highlights_text (highlights info) = Inr a9" "ToString (bestTime info) = Inr a10"
    "first_hotel_text (hotels info) (req_budget req) = Inr a11"
  shows "\<exists>p. prompt sf req fc dc td info plan = Inr p"
  unfolding prompt_def
proof (rule template_total)
  fix x
  assume "x \<in> set (prompt_parts sf req fc dc td info plan)"
  then show "\<exists>s. x = Inr s"
    unfolding prompt_parts_def using assms element_text by auto
qed

text \<open>
  C4. Take a request that passes the guard rail and whose data fetches succeed: the two
  geocoding requests give the positions \<open>fc\<close> and \<open>dc\<close>, \<^verbatim>\<open>getTravelData\<close> gives \<open>td\<close> and
  \<^verbatim>\<open>getDestinationInfo\<close> gives \<open>info\<close>. Then every request that \<^verbatim>\<open>POST\<close> makes to the
  model's service goes to the chat completions address with the two headers of the code,
  and its body is \<^verbatim>\<open>JSON.stringify\<close> of the object with the model, one message of the role
  \<^verbatim>\<open>user\<close>, the temperature 0.7 and \<^verbatim>\<open>stream: true\<close>; the content \<open>p\<close> of that message
  contains the text of \<^verbatim>\<open>travelData.distance\<close>, \<^verbatim>\<open>JSON.stringify\<close> of \<^verbatim>\<open>travelData.options\<close>,
  the text of \<^verbatim>\<open>destinationInfo.bestTime\<close>, \<^verbatim>\<open>JSON.stringify\<close> of \<^verbatim>\<open>destinationInfo.hotels\<close>
  and \<^verbatim>\<open>JSON.stringify\<close> of each of the two positions. And exactly one such request is
  made when the key of the model's service is set and the values that the template
  converts have a primitive form: the dates, the budget, the transport mode, the elements
  of the array \<^verbatim>\<open>interests\<close>, the distance, the highlights and the best time.
\<close>

theorem prompt_contains_data:
  assumes d: "destructure body = Inr req"
    and l: "call_toLowerCase (req_destination req) = Inr lower"
    and g: "\<not> js_includes lower ''antarctica''"
    and c1: "fst (getCoords (encodeURIComponent pf) env w (req_from req)) = Inr fc"
    and c2: "fst (getCoords (encodeURIComponent pf) env w (req_destination req)) = Inr dc"
    and t: "fst (getTravelData (encodeURIComponent pf) (arithmetic pf) env w
               (req_from req) (req_destination req) fc dc) = Inr td"
    and i: "fst (getDestinationInfo env w (req_destination req) (req_budget req)) = Inr info"
  shows "(\<forall>c\<in>set (snd (POST pf env w (Inr body))). is_post c \<longrightarrow>
           (\<exists>p dist bt.
              c = FetchPost ''https://api.groq.com/openai/v1/chat/completions''
                    [(''Content-Type'', ''application/json''),
                     (''Authorization'', ''Bearer '' @ key_text (GROQ_API_KEY env))]
                    (JSON_stringify pf
                       (JObj [(''model'', JStr (GROQ_MODEL env)),
                              (''messages'',
                               JArr [JObj [(''role'', JStr ''user''), (''content'', JStr p)]]),
                              (''temperature'', JNum ''0.7''),
                              (''stream'', JBool True)])) \<and>
              ToString (distance td) = Inr dist \<and> sublist dist p \<and>
              sublist (JSON_stringify pf (JArr (options td))) p \<and>
              ToString (bestTime info) = Inr bt \<and> sublist bt p \<and>
              sublist (JSON_stringify pf (JArr (hotels info))) p \<and>
              sublist (JSON_stringify pf fc) p \<and>
              sublist (JSON_stringify pf dc) p)) \<and>
         (\<not> unset (GROQ_API_KEY env) \<and>
          convertible (req_startDate req) \<and> convertible (req_endDate req) \<and>
          convertible (req_budget req) \<and> convertible (req_transportMode req) \<and>
          text_array (req_interests req) \<and>
          convertible (distance td) \<and> list_all convertible (highlights info) \<and>
          convertible (bestTime info) \<longrightarrow>
          length (filter is_post (snd (POST pf env w (Inr body)))) = 1)"
proof -
  let ?plan = "plan_dates (arithmetic pf) (Date_parse pf) (LocalTZA pf)
                 (req_startDate req) (req_endDate req)"
  from POST_success[OF d l g c1 c2 t i] obtain cs where cs: "\<forall>c\<in>set cs. \<not> is_post c"
    and P: "POST pf env w (Inr body) =
          (fst (call_model pf env w req fc dc td info),
           cs @ snd (call_model pf env w req fc dc td info))"
    by blast
  have one: "\<exists>p dist bt.
              c = FetchPost ''https://api.groq.com/openai/v1/chat/completions''
                    [(''Content-Type'', ''application/json''),
                     (''Authorization'', ''Bearer '' @ key_text (GROQ_API_KEY env))]
                    (JSON_stringify pf
                       (JObj [(''model'', JStr (GROQ_MODEL env)),
                              (''messages'',
                               JArr [JObj [(''role'', JStr ''user''), (''content'', JStr p)]]),
                              (''temperature'', JNum ''0.7''),
                              (''stream'', JBool True)])) \<and>
              ToString (distance td) = Inr dist \<and> sublist dist p \<and>
              sublist (JSON_stringify pf (JArr (options td))) p \<and>
              ToString (bestTime info) = Inr bt \<and> sublist bt p \<and>
              sublist (JSON_stringify pf (JArr (hotels info))) p \<and>
              sublist (JSON_stringify pf fc) p \<and>
              sublist (JSON_stringify pf dc) p"
    if "c \<in> set (snd (POST pf env w (Inr body)))" and "is_post c" for c
  proof -
    from that P cs have "c \<in> set (snd (call_model pf env w req fc dc td info))" by auto
    from call_model_calls[OF this] obtain p where
      p: "prompt (JSON_stringify pf) req fc dc td info ?plan = Inr p"
      and c: "c = FetchPost ''https://api.groq.com/openai/v1/chat/completions''
                    [(''Content-Type'', ''application/json''),
                     (''Authorization'', ''Bearer '' @ key_text (GROQ_API_KEY env))]
                    (JSON_stringify pf
                       (JObj [(''model'', JStr (GROQ_MODEL env)),
                              (''messages'',
                               JArr [JObj [(''role'', JStr ''user''), (''content'', JStr p)]]),
                              (''temperature'', JNum ''0.7''),
                              (''stream'', JBool True)]))"
      by blast
    from p have tp: "template (prompt_parts (JSON_stringify pf) req fc dc td info ?plan) = Inr p"
      by (simp add: prompt_def)
    from template_member[OF tp prompt_members(1)] obtain dist where
      s1: "ToString (distance td) = Inr dist" "sublist dist p" by blast
    from template_member[OF tp prompt_members(2)] have
      s2: "sublist (JSON_stringify pf (JArr (options td))) p" by auto
    from template_member[OF tp prompt_members(3)] obtain bt where
      s3: "ToString (bestTime info) = Inr bt" "sublist bt p" by blast
    from template_member[OF tp prompt_members(4)] have
      s4: "sublist (JSON_stringify pf (JArr (hotels info))) p" by auto
    from template_member[OF tp prompt_members(5)] have
      s5: "sublist (JSON_stringify pf fc) p" by auto
    from template_member[OF tp prompt_members(6)] have
      s6: "sublist (JSON_stringify pf dc) p" by auto
    from c s1 s2 s3 s4 s5 s6 show ?thesis by blast
  qed
  have two: "length (filter is_post (snd (POST pf env w (Inr body)))) = 1"
    if k: "\<not> unset (GROQ_API_KEY env)"
      and v: "convertible (req_startDate req)" "convertible (req_endDate req)"
        "convertible (req_budget req)" "convertible (req_transportMode req)"
        "convertible (distance td)" "convertible (bestTime info)"
      and a: "text_array (req_interests req)" and h: "list_all convertible (highlights info)"
  proof -
    from getCoords_convertible[OF c1] obtain a1 where a1: "ToString (req_from req) = Inr a1"
      by blast
    from call_toLowerCase_string[OF l] obtain a2 where "req_destination req = JStr a2" by blast
    then have a2: "ToString (req_destination req) = Inr a2" by simp
    from v obtain a3 a4 a5 a6 a8 a10 where
      a3: "ToString (req_startDate req) = Inr a3" and a4: "ToString (req_endDate req) = Inr a4"
      and a5: "ToString (req_budget req) = Inr a5"
      and a6: "ToString (req_transportMode req) = Inr a6"
      and a8: "ToString (distance td) = Inr a8" and a10: "ToString (bestTime info) = Inr a10"
      using convertible_text by meson
    from call_join_total[OF a] obtain a7 where a7: "call_join '', '' (req_interests req) = Inr a7"
      by blast
    from highlights_text_total[OF h] obtain a9 where
      a9: "highlights_text (highlights info) = Inr a9" by blast
    from first_hotel_text_total[OF i v(3)] obtain a11 where
      a11: "first_hotel_text (hotels info) (req_budget req) = Inr a11" by blast
    from prompt_total[OF a1 a2 a3 a4 a5 a6 a7 a8 a9 a10 a11] obtain p where
      "prompt (JSON_stringify pf) req fc dc td info ?plan = Inr p" by blast
    from call_model_sent[OF this k] cs P show ?thesis by simp
  qed
  from one two show ?thesis by blast
qed

text \<open>The requests of the examples, and what the helpers give for them in the first world.\<close>

lemma example_request_fields:
  "destructure (request_body d s e) =
     Inr \<lparr>req_from = JStr ''Paris'', req_destination = JStr d, req_startDate = JStr s,
          req_endDate = JStr e, req_budget = JStr ''Luxury'', req_transportMode = JStr ''Train'',
          req_interests = JArr [JStr ''art'', JStr ''food'']\<rparr>"
  by (simp add: destructure_def request_body_def own_def)

lemma example_guard:
  "call_toLowerCase (JStr ''Rome'') = Inr ''rome''" "\<not> js_includes ''rome'' ''antarctica''"
  by (simp_all add: toLowerCase_def lower_char_def)

lemma example_coords:
  "fst (getCoords id example_env example_world (JStr l)) = Inr example_position"
  by (simp add: getCoords_def example_env_def example_world_def unset_def key_text_def
        is_geocode_url_def geocoder_answer_def own_def Let_def)

lemma example_json:
  "show_json (JArr [route_option ''Car'' ''11 hours 6 mins'' ''1148 km'',
             route_option ''Bus/Train (Public)'' ''11 hours 6 mins'' ''1148 km'',
             flight_option (JStr ''1h 30m'')]) =
     ''[{\"mode\":\"Car\",\"time\":\"11 hours 6 mins\",\"distance\":\"1148 km\"},{\"mode\":\"Bus/Train (Public)\",\"time\":\"11 hours 6 mins\",\"distance\":\"1148 km\"},{\"mode\":\"Flight\",\"time\":\"1h 30m\"}]''"
  "show_json (JArr [JObj [(''name'', JStr ''Ritz''), (''address'', JStr ''1 Main St''),
                          (''photo'', JStr ''https://img/1.png''), (''rating'', JNum ''4.5''),
                          (''link'', JStr ''https://ritz.example'')]]) =
     ''[{\"name\":\"Ritz\",\"address\":\"1 Main St\",\"photo\":\"https://img/1.png\",\"rating\":4.5,\"link\":\"https://ritz.example\"}]''"
  "show_json example_position = ''{\"lat\":48.85,\"lon\":2.35}''"
  by (simp_all add: route_option_def flight_option_def example_position_def)

lemma example_platform_fields:
  "encodeURIComponent example_platform = id" "arithmetic example_platform = example_arith"
  "JSON_stringify example_platform = show_json" "JSON_parse example_platform = toy_parse"
  "decode example_platform = text_decoder" "new_TextDecoder example_platform = ()"
  "encode example_platform = id" "Date_parse example_platform = example_date_parse"
  "LocalTZA example_platform = (\<lambda>t u. 0)"
  "encodeURIComponent western_platform = id" "arithmetic western_platform = example_arith"
  "JSON_stringify western_platform = show_json" "JSON_parse western_platform = toy_parse"
  "decode western_platform = text_decoder" "new_TextDecoder western_platform = ()"
  "encode western_platform = id" "Date_parse western_platform = example_date_parse"
  "LocalTZA western_platform = (\<lambda>t u. - 18000000)"
  by (simp_all add: example_platform_def western_platform_def)

text \<open>The theorem on the request from Paris to Rome in the world where every service answers.\<close>

theorem prompt_contains_data_witness:
  "\<exists>p. FetchPost ''https://api.groq.com/openai/v1/chat/completions''
          [(''Content-Type'', ''application/json''), (''Authorization'', ''Bearer gk'')]
          (show_json
             (JObj [(''model'', JStr ''llama-3.3-70b-versatile''),
                    (''messages'', JArr [JObj [(''role'', JStr ''user''), (''content'', JStr p)]]),
                    (''temperature'', JNum ''0.7''),
                    (''stream'', JBool True)]))
        \<in> set (snd (POST example_platform example_env example_world (Inr example_request))) \<and>
      length (filter is_post
               (snd (POST example_platform example_env example_world (Inr example_request)))) = 1 \<and>
      sublist ''1148 km'' p \<and>
      sublist ''[{\"mode\":\"Car\",\"time\":\"11 hours 6 mins\",\"distance\":\"1148 km\"},{\"mode\":\"Bus/Train (Public)\",\"time\":\"11 hours 6 mins\",\"distance\":\"1148 km\"},{\"mode\":\"Flight\",\"time\":\"1h 30m\"}]'' p \<and>
      sublist ''May to June'' p \<and>
      sublist ''[{\"name\":\"Ritz\",\"address\":\"1 Main St\",\"photo\":\"https://img/1.png\",\"rating\":4.5,\"link\":\"https://ritz.example\"}]'' p \<and>
      sublist ''{\"lat\":48.85,\"lon\":2.35}'' p"
proof -
  let ?calls = "snd (POST example_platform example_env example_world (Inr example_request))"
  let ?req = "\<lparr>req_from = JStr ''Paris'', req_destination = JStr ''Rome'',
          req_startDate = JStr ''2024-02-28'', req_endDate = JStr ''2024-03-01'',
          req_budget = JStr ''Luxury'', req_transportMode = JStr ''Train'',
          req_interests = JArr [JStr ''art'', JStr ''food'']\<rparr>"
  let ?td = "\<lparr>options =
            [route_option ''Car'' ''11 hours 6 mins'' ''1148 km'',
             route_option ''Bus/Train (Public)'' ''11 hours 6 mins'' ''1148 km'',
             flight_option (JStr ''1h 30m'')],
          distance = JStr ''1148 km''\<rparr>"
  let ?info = "\<lparr>highlights = [JStr ''Colosseum''],
          hotels = [JObj [(''name'', JStr ''Ritz''), (''address'', JStr ''1 Main St''),
                          (''photo'', JStr ''https://img/1.png''), (''rating'', JNum ''4.5''),
                          (''link'', JStr ''https://ritz.example'')]],
          bestTime = JStr ''May to June''\<rparr>"
  have d: "destructure example_request = Inr ?req"
    unfolding example_request_def by (rule example_request_fields)
  have l: "call_toLowerCase (req_destination ?req) = Inr ''rome''"
    and g: "\<not> js_includes ''rome'' ''antarctica''"
    using example_guard by simp_all
  have c1: "fst (getCoords (encodeURIComponent example_platform) example_env example_world
                  (req_from ?req)) = Inr example_position"
    and c2: "fst (getCoords (encodeURIComponent example_platform) example_env example_world
                  (req_destination ?req)) = Inr example_position"
    by (simp_all add: example_platform_fields example_coords)
  have t: "fst (getTravelData (encodeURIComponent example_platform) (arithmetic example_platform)
                  example_env example_world (req_from ?req) (req_destination ?req)
                  example_position example_position) = Inr ?td"
    by (simp add: example_platform_fields example_travel_data)
  have i: "fst (getDestinationInfo example_env example_world (req_destination ?req)
                  (req_budget ?req)) = Inr ?info"
    by (simp add: example_destination_info)
  have k: "\<not> unset (GROQ_API_KEY example_env)" by (simp add: example_env_def unset_def)
  have v: "convertible (req_startDate ?req)" "convertible (req_endDate ?req)"
    "convertible (req_budget ?req)" "convertible (req_transportMode ?req)"
    "text_array (req_interests ?req)" "convertible (distance ?td)"
    "list_all convertible (highlights ?info)" "convertible (bestTime ?info)"
    by (simp_all add: convertible_def text_array_def)
  note th = prompt_contains_data[OF d l g c1 c2 t i]
  from th k v have n: "length (filter is_post ?calls) = 1" by blast
  then have "filter is_post ?calls \<noteq> []" by auto
  then obtain c where c: "c \<in> set ?calls" "is_post c"
    by (auto simp: filter_empty_conv)
  with th obtain p dist bt where
    "c = FetchPost ''https://api.groq.com/openai/v1/chat/completions''
           [(''Content-Type'', ''application/json''),
            (''Authorization'', ''Bearer '' @ key_text (GROQ_API_KEY example_env))]
           (JSON_stringify example_platform
              (JObj [(''model'', JStr (GROQ_MODEL example_env)),
                     (''messages'', JArr [JObj [(''role'', JStr ''user''), (''content'', JStr p)]]),
                     (''temperature'', JNum ''0.7''),
                     (''stream'', JBool True)]))"
    "ToString (distance ?td) = Inr dist" "sublist dist p"
    "sublist (JSON_stringify example_platform (JArr (options ?td))) p"
    "ToString (bestTime ?info) = Inr bt" "sublist bt p"
    "sublist (JSON_stringify example_platform (JArr (hotels ?info))) p"
    "sublist (JSON_stringify example_platform example_position) p"
    by blast
  then have "c = FetchPost ''https://api.groq.com/openai/v1/chat/completions''
          [(''Content-Type'', ''application/json''), (''Authorization'', ''Bearer gk'')]
          (show_json
             (JObj [(''model'', JStr ''llama-3.3-70b-versatile''),
                    (''messages'', JArr [JObj [(''role'', JStr ''user''), (''content'', JStr p)]]),
                    (''temperature'', JNum ''0.7''),
                    (''stream'', JBool True)]))"
    "sublist ''1148 km'' p"
    "sublist ''[{\"mode\":\"Car\",\"time\":\"11 hours 6 mins\",\"distance\":\"1148 km\"},{\"mode\":\"Bus/Train (Public)\",\"time\":\"11 hours 6 mins\",\"distance\":\"1148 km\"},{\"mode\":\"Flight\",\"time\":\"1h 30m\"}]'' p"
    "sublist ''May to June'' p"
    "sublist ''[{\"name\":\"Ritz\",\"address\":\"1 Main St\",\"photo\":\"https://img/1.png\",\"rating\":4.5,\"link\":\"https://ritz.example\"}]'' p"
    "sublist ''{\"lat\":48.85,\"lon\":2.35}'' p"
    unfolding example_platform_fields
    by (simp_all only: example_json travel_data.simps destination_info.simps)
       (simp_all add: example_env_def key_text_def)
  with c(1) n show ?thesis by blast
qed

lemma example_data:
  assumes "fetch w = fetch example_world" "getJson w = getJson example_world"
    "second_rejects_first w = second_rejects_first example_world"
  shows "fst (getCoords id example_env w (JStr l)) = Inr example_position"
    "fst (getTravelData id example_arith example_env w (JStr ''Paris'') (JStr ''Rome'')
            example_position example_position) = Inr example_travel"
    "fst (getDestinationInfo example_env w (JStr ''Rome'') (JStr ''Luxury'')) = Inr example_info"
proof -
  show "fst (getCoords id example_env w (JStr l)) = Inr example_position"
    by (simp add: getCoords_def assms example_env_def example_world_def unset_def key_text_def
          is_geocode_url_def geocoder_answer_def own_def Let_def)
  show "fst (getTravelData id example_arith example_env w (JStr ''Paris'') (JStr ''Rome'')
            example_position example_position) = Inr example_travel"
    by (simp add: getTravelData_def ensure_coords_def routing_def coords_text_def route_options_def
          read_route_def read_summary_def first_route_def formatTravelTime_def flight_info_def
          flight_answer_def query_text_def distance_fallback_def assms example_eval Let_def
          example_travel_def)
  show "fst (getDestinationInfo example_env w (JStr ''Rome'') (JStr ''Luxury'')) = Inr example_info"
    by (simp add: getDestinationInfo_def destination_body_def destination_searches_def assms
          example_env_def example_world_def example_search_def
          unset_def key_text_def serp_query_def budgetSearchTerm_def
          toLowerCase_def lower_char_def highlights_of_def opt_map_member_def own_def
          hotels_of_def to_hotel_def photo_of_def link_of_def
          keep_hotel_def js_or_def trim_eval with_fallbacks_def bestTime_of_def Let_def
          example_info_def)
qed

lemma example_post:
  assumes w: "fetch w = fetch example_world" "getJson w = getJson example_world"
    "second_rejects_first w = second_rejects_first example_world"
    and pf: "encodeURIComponent pf = id" "arithmetic pf = example_arith"
  shows "\<exists>p cs.
     prompt (JSON_stringify pf) (example_fields ''Rome'' s e) example_position example_position
        example_travel example_info
        (plan_dates example_arith (Date_parse pf) (LocalTZA pf) (JStr s) (JStr e)) = Inr p \<and>
     (\<forall>c\<in>set cs. \<not> is_post c) \<and>
     POST pf example_env w (Inr (request_body ''Rome'' s e)) =
       (fst (call_model pf example_env w (example_fields ''Rome'' s e) example_position
               example_position example_travel example_info),
        cs @ [FetchPost ''https://api.groq.com/openai/v1/chat/completions''
                (groq_headers example_env) (JSON_stringify pf (groq_body example_env p))])"
proof -
  let ?req = "example_fields ''Rome'' s e"
  have d: "destructure (request_body ''Rome'' s e) = Inr ?req"
    by (simp add: example_request_fields example_fields_def)
  have l: "call_toLowerCase (req_destination ?req) = Inr ''rome''"
    using example_guard(1) by (simp add: example_fields_def)
  have c1: "fst (getCoords (encodeURIComponent pf) example_env w (req_from ?req)) =
      Inr example_position"
    and c2: "fst (getCoords (encodeURIComponent pf) example_env w (req_destination ?req)) =
      Inr example_position"
    by (simp_all add: pf example_fields_def example_data(1)[OF w])
  have t: "fst (getTravelData (encodeURIComponent pf) (arithmetic pf) example_env w
                  (req_from ?req) (req_destination ?req) example_position example_position) =
      Inr example_travel"
    by (simp add: pf example_fields_def example_data(2)[OF w])
  have i: "fst (getDestinationInfo example_env w (req_destination ?req) (req_budget ?req)) =
      Inr example_info"
    by (simp add: example_fields_def example_data(3)[OF w])
  from POST_success[OF d l example_guard(2) c1 c2 t i] obtain cs where
    cs: "\<forall>c\<in>set cs. \<not> is_post c"
    and P: "POST pf example_env w (Inr (request_body ''Rome'' s e)) =
       (fst (call_model pf example_env w ?req example_position example_position
               example_travel example_info),
        cs @ snd (call_model pf example_env w ?req example_position example_position
               example_travel example_info))"
    by blast
  have "first_hotel_text (hotels example_info) (req_budget ?req) = Inr ''Ritz''"
    by (simp add: first_hotel_text_def example_info_def own_def)
  with prompt_total[of ?req "''Paris''" "''Rome''" s e "''Luxury''" "''Train''" "''art, food''"
      example_travel "''1148 km''" example_info "''Colosseum''" "''May to June''" "''Ritz''"
      "JSON_stringify pf" example_position example_position
      "plan_dates example_arith (Date_parse pf) (LocalTZA pf) (JStr s) (JStr e)"]
  obtain p where p: "prompt (JSON_stringify pf) ?req example_position example_position
        example_travel example_info
        (plan_dates example_arith (Date_parse pf) (LocalTZA pf) (JStr s) (JStr e)) = Inr p"
    by (auto simp: example_fields_def example_travel_def example_info_def js_join_def
          highlights_text_def)
  have k: "\<not> unset (GROQ_API_KEY example_env)" by (simp add: example_env_def unset_def)
  have "snd (call_model pf example_env w ?req example_position example_position
               example_travel example_info) =
     [FetchPost ''https://api.groq.com/openai/v1/chat/completions'' (groq_headers example_env)
        (JSON_stringify pf (groq_body example_env p))]"
    using call_model_sent[of pf ?req example_position example_position example_travel
        example_info p example_env w] p k
    by (simp add: pf example_fields_def)
  with p cs P show ?thesis by simp
qed

subsection \<open>The response that streams\<close>

lemma reads_split:
  "\<exists>rest st. rs = map ReadValue (values_read rs) @ rest \<and>
     (\<forall>d b q. start_loop dec parse enc d b q rest = \<lparr>enqueued = q, status = st\<rparr>)"
proof (induction rs)
  case Nil
  show ?case by simp
next
  case (Cons r rs)
  show ?case
  proof (cases r)
    case (ReadValue v)
    from Cons obtain rest st where "rs = map ReadValue (values_read rs) @ rest"
      "\<forall>d b q. start_loop dec parse enc d b q rest = \<lparr>enqueued = q, status = st\<rparr>"
      by blast
    with ReadValue have "r # rs = map ReadValue (values_read (r # rs)) @ rest" by simp
    with \<open>\<forall>d b q. start_loop dec parse enc d b q rest = \<lparr>enqueued = q, status = st\<rparr>\<close>
    show ?thesis by blast
  next
    case ReadDone
    then have "r # rs = map ReadValue (values_read (r # rs)) @ (r # rs)"
      "\<forall>d b q. start_loop dec parse enc d b q (r # rs) = \<lparr>enqueued = q, status = Closed\<rparr>"
      by simp_all
    then show ?thesis by blast
  next
    case (ReadRejected e)
    then have "r # rs = map ReadValue (values_read (r # rs)) @ (r # rs)"
      "\<forall>d b q. start_loop dec parse enc d b q (r # rs) = \<lparr>enqueued = q, status = Errored e\<rparr>"
      by simp_all
    then show ?thesis by blast
  qed
qed

lemma start_enqueued:
  "enqueued (start dec parse enc d0 rs) =
     map enc (sse_deltas parse (complete_lines (decoded_text dec d0 (values_read rs))))"
proof -
  from reads_split[of rs dec parse enc] obtain rest st where
    r: "rs = map ReadValue (values_read rs) @ rest"
    and f: "\<And>d b q. start_loop dec parse enc d b q rest = \<lparr>enqueued = q, status = st\<rparr>"
    by blast
  have e: "complete_lines [] = []" by (simp add: complete_lines_def)
  have "enqueued (start_loop dec parse enc d0 [] [] (map ReadValue (values_read rs) @ rest)) =
      map enc (sse_deltas parse (complete_lines (decoded_text dec d0 (values_read rs))))"
    using start_loop_values[of dec parse enc rest st "[]" d0 "[]" "values_read rs", OF f e]
    by simp
  with r show ?thesis unfolding start_def by simp
qed

lemma call_model_ok:
  assumes "prompt (JSON_stringify pf) req fc dc td info
               (plan_dates (arithmetic pf) (Date_parse pf) (LocalTZA pf)
                  (req_startDate req) (req_endDate req)) = Inr p"
    and "\<not> unset (GROQ_API_KEY env)"
    and "fetch_groq w (groq_headers env) (JSON_stringify pf (groq_body env p)) = GroqOk (Some reads)"
  shows "fst (call_model pf env w req fc dc td info) =
     Inr \<lparr>resp_status = 200,
          resp_headers = [(''Content-Type'', ''text/plain; charset=utf-8'')],
          resp_body = Stream (\<lambda>k. start (decode pf) (JSON_parse pf) (encode pf)
                                      (new_TextDecoder pf) (take k reads))\<rparr>"
  using assms by (simp add: call_model_def Let_def)

text \<open>
  C7, as the code has it. On every request on which \<^verbatim>\<open>POST\<close> has called the model's
  service and the service has answered ok with a body, \<^verbatim>\<open>POST\<close> returns a response with
  status 200, the header \<^verbatim>\<open>Content-Type: text/plain; charset=utf-8\<close> and a stream as its
  body. The stream does not wait for the end of the completion: once the upstream reader
  has delivered its first \<open>k\<close> results, for every \<open>k\<close>, the stream has been given exactly the
  encoded contents of the complete lines of the chunks among these results, before the
  \<^verbatim>\<open>[DONE]\<close> line.
\<close>

theorem streaming_response:
  assumes m: "FetchPost url hs b \<in> set (snd (POST pf env w rq))"
    and ok: "fetch_groq w hs b = GroqOk (Some reads)"
  shows "\<exists>f. fst (POST pf env w rq) =
            Inr \<lparr>resp_status = 200,
                 resp_headers = [(''Content-Type'', ''text/plain; charset=utf-8'')],
                 resp_body = Stream f\<rparr> \<and>
          (\<forall>k. enqueued (f k) =
                 map (encode pf)
                   (sse_deltas (JSON_parse pf)
                      (complete_lines
                         (decoded_text (decode pf) (new_TextDecoder pf)
                            (values_read (take k reads))))))"
proof -
  have "is_post (FetchPost url hs b)" by simp
  with m POST_cases[of pf env w rq] obtain req fc dc td info cs where
    cs: "\<forall>c\<in>set cs. \<not> is_post c"
    and P: "POST pf env w rq =
        (fst (call_model pf env w req fc dc td info),
         cs @ snd (call_model pf env w req fc dc td info))"
    by blast
  from m P cs have "FetchPost url hs b \<in> set (snd (call_model pf env w req fc dc td info))"
    by auto
  from call_model_calls[OF this] obtain p where
    p: "prompt (JSON_stringify pf) req fc dc td info
               (plan_dates (arithmetic pf) (Date_parse pf) (LocalTZA pf)
                  (req_startDate req) (req_endDate req)) = Inr p"
    and k: "\<not> unset (GROQ_API_KEY env)"
    and c: "hs = groq_headers env" "b = JSON_stringify pf (groq_body env p)"
    by (auto simp: groq_headers_def groq_body_def)
  from ok c have "fetch_groq w (groq_headers env) (JSON_stringify pf (groq_body env p)) =
      GroqOk (Some reads)"
    by simp
  from call_model_ok[OF p k this] P
  have "fst (POST pf env w rq) =
     Inr \<lparr>resp_status = 200,
          resp_headers = [(''Content-Type'', ''text/plain; charset=utf-8'')],
          resp_body = Stream (\<lambda>k. start (decode pf) (JSON_parse pf) (encode pf)
                                      (new_TextDecoder pf) (take k reads))\<rparr>"
    by simp
  then show ?thesis
    by (intro exI[of _ "\<lambda>k. start (decode pf) (JSON_parse pf) (encode pf)
                            (new_TextDecoder pf) (take k reads)"])
       (simp add: start_enqueued)
qed

lemma example_lines_1:
  "complete_lines (decoded_text text_decoder () (take 1 example_chunks)) =
     [''data: {\"choices\":[{\"delta\":{\"content\":\"Hel\"}}]}'', []]"
  by (simp add: example_chunks_def complete_lines_def text_decoder_def)

text \<open>
  The theorem on the request from Paris to Rome in the world where every service answers:
  what the stream holds before the first chunk, after one chunk and after two.
\<close>

theorem streaming_response_witness:
  "\<exists>f. fst (POST example_platform example_env example_world (Inr example_request)) =
          Inr \<lparr>resp_status = 200,
               resp_headers = [(''Content-Type'', ''text/plain; charset=utf-8'')],
               resp_body = Stream f\<rparr> \<and>
        enqueued (f 0) = [] \<and> enqueued (f 1) = [''Hel''] \<and> enqueued (f 2) = [''Hel'', ''lo'']"
proof -
  from example_post[of example_world example_platform "''2024-02-28''" "''2024-03-01''"]
  obtain b cs where
    P: "snd (POST example_platform example_env example_world (Inr example_request)) =
        cs @ [FetchPost ''https://api.groq.com/openai/v1/chat/completions''
                (groq_headers example_env) b]"
    by (auto simp: example_platform_fields example_request_def)
  then have m: "FetchPost ''https://api.groq.com/openai/v1/chat/completions''
      (groq_headers example_env) b \<in>
      set (snd (POST example_platform example_env example_world (Inr example_request)))"
    by simp
  have ok: "fetch_groq example_world (groq_headers example_env) b =
      GroqOk (Some (map ReadValue example_chunks @ [ReadDone]))"
    by (simp add: example_world_def)
  from streaming_response[OF m ok] obtain f where
    r: "fst (POST example_platform example_env example_world (Inr example_request)) =
          Inr \<lparr>resp_status = 200,
               resp_headers = [(''Content-Type'', ''text/plain; charset=utf-8'')],
               resp_body = Stream f\<rparr>"
    and e: "\<And>k. enqueued (f k) =
        map id (sse_deltas toy_parse (complete_lines (decoded_text text_decoder ()
          (values_read (take k (map ReadValue example_chunks @ [ReadDone]))))))"
    unfolding example_platform_fields by blast
  have v: "values_read (take 0 (map ReadValue example_chunks @ [ReadDone])) = []"
    "values_read (take 1 (map ReadValue example_chunks @ [ReadDone])) = take 1 example_chunks"
    "values_read (take 2 (map ReadValue example_chunks @ [ReadDone])) = take 2 example_chunks"
    by (simp_all add: example_chunks_def)
  have "enqueued (f 0) = []"
    unfolding e v by (simp add: complete_lines_def sse_deltas_def map_filter_simps)
  moreover have "enqueued (f 1) = [''Hel'']"
    unfolding e v example_lines_1
    by (simp add: sse_deltas_def map_filter_simps line_delta_def toy_parse_def delta_content_def
          own_def)
  moreover have "enqueued (f 2) = [''Hel'', ''lo'']"
    unfolding e v example_lines_2
    by (simp add: sse_deltas_def map_filter_simps line_delta_def toy_parse_def delta_content_def
          own_def)
  ultimately show ?thesis using r by blast
qed

text \<open>
  C7 as it was stated fails where the service answers ok with no body (as a response with
  status 204 has none): \<^verbatim>\<open>groqResponse.body\<close> is \<^verbatim>\<open>null\<close>, \<^verbatim>\<open>getReader\<close> throws, and the
  \<^verbatim>\<open>catch\<close> answers with status 500 and a JSON body. The last request that \<^verbatim>\<open>POST\<close> has made
  is the one to the model's service, and its answer was ok.
\<close>

theorem ok_without_body_counterexample:
  "fst (POST example_platform example_env bodiless_world (Inr example_request)) =
     Inr \<lparr>resp_status = 500,
          resp_headers = [(''Content-Type'', ''application/json'')],
          resp_body = Text ''{\"error\":\"Failed to generate itinerary using Groq API. Check your GROQ_API_KEY and network connectivity.\"}''\<rparr>
   \<and> groq_answer bodiless_world
        (last (snd (POST example_platform example_env bodiless_world (Inr example_request)))) =
      Some (GroqOk None)"
proof -
  from example_post[of bodiless_world example_platform "''2024-02-28''" "''2024-03-01''"]
  obtain p cs where
    p: "prompt show_json (example_fields ''Rome'' ''2024-02-28'' ''2024-03-01'') example_position
          example_position example_travel example_info
          (plan_dates example_arith example_date_parse (\<lambda>t u. 0) (JStr ''2024-02-28'')
             (JStr ''2024-03-01'')) = Inr p"
    and P: "POST example_platform example_env bodiless_world (Inr example_request) =
       (fst (call_model example_platform example_env bodiless_world
               (example_fields ''Rome'' ''2024-02-28'' ''2024-03-01'') example_position
               example_position example_travel example_info),
        cs @ [FetchPost ''https://api.groq.com/openai/v1/chat/completions''
                (groq_headers example_env) (show_json (groq_body example_env p))])"
    by (auto simp: example_platform_fields example_request_def bodiless_world_def)
  have "fst (call_model example_platform example_env bodiless_world
               (example_fields ''Rome'' ''2024-02-28'' ''2024-03-01'') example_position
               example_position example_travel example_info) =
      Inr (json_error show_json 500 generic_failure)"
    using p
    by (simp add: call_model_def example_platform_fields example_fields_def bodiless_world_def
          example_env_def unset_def Let_def)
  with P show ?thesis
    by (simp add: json_error_def generic_failure_def bodiless_world_def)
qed

subsection \<open>The dates in the prompt\<close>

lemma posted_last:
  "\<forall>c\<in>set cs. \<not> is_post c \<Longrightarrow> posted (cs @ [FetchPost u h b]) = [b]"
proof (induction cs)
  case Nil
  show ?case by simp
next
  case (Cons c cs)
  then show ?case by (cases c) simp_all
qed

lemma groq_body_text:
  "show_json (groq_body env p) =
     (''{\"model\":\"'' @ GROQ_MODEL env @ ''\",\"messages\":[{\"role\":\"user\",\"content\":\"'') @
     p @ ''\"}],\"temperature\":0.7,\"stream\":true}''"
  by (simp add: groq_body_def)

lemma sublist_inside: "sublist x p \<Longrightarrow> sublist x (a @ p @ b)"
proof -
  assume "sublist x p"
  then obtain c d where "p = c @ x @ d" unfolding sublist_def by blast
  then have "a @ p @ b = (a @ c) @ x @ (d @ b)" by simp
  then show ?thesis unfolding sublist_def by blast
qed

lemma prompt_dates_member:
  "Inr (if calculatedDays plan > 0
        then ''4. Specific Dates To Plan For: '' @ sf (JArr (map JStr (allDates plan)))
        else []) \<in> set (prompt_parts sf req fc dc td info plan)"
  by (simp add: prompt_parts_def)

text \<open>
  C2 at a request for 10 to 12 January 2024 that arrives on a server whose local time is
  five hours behind universal time. \<^verbatim>\<open>new Date('2024-01-10')\<close> is midnight of 10 January in
  universal time, which is 19:00 of 9 January on that server, and the loop prints the dates
  with \<^verbatim>\<open>getFullYear\<close>, \<^verbatim>\<open>getMonth\<close> and \<^verbatim>\<open>getDate\<close>, which read local time. So
  \<^verbatim>\<open>calculatedDays\<close> is 3, and \<^verbatim>\<open>allDates\<close> holds 9, 10 and 11 January: its first element is
  the day before \<^verbatim>\<open>startDate\<close> and the day of \<^verbatim>\<open>endDate\<close> is missing. These are the dates
  that the prompt gives to the model. On a server whose local time is universal time the
  same request gives 10, 11 and 12 January.
\<close>

theorem dates_west_of_greenwich:
  "plan_dates (arithmetic western_platform) (Date_parse western_platform)
      (LocalTZA western_platform) (JStr ''2024-01-10'') (JStr ''2024-01-12'') =
     \<lparr>numberOfDays = ''3 days'', calculatedDays = 3,
      allDates = [''2024-01-09'', ''2024-01-10'', ''2024-01-11'']\<rparr>
   \<and> sublist ''4. Specific Dates To Plan For: [\"2024-01-09\",\"2024-01-10\",\"2024-01-11\"]''
        (concat (posted (snd (POST western_platform example_env example_world
           (Inr (request_body ''Rome'' ''2024-01-10'' ''2024-01-12''))))))
   \<and> plan_dates (arithmetic example_platform) (Date_parse example_platform)
      (LocalTZA example_platform) (JStr ''2024-01-10'') (JStr ''2024-01-12'') =
     \<lparr>numberOfDays = ''3 days'', calculatedDays = 3,
      allDates = [''2024-01-10'', ''2024-01-11'', ''2024-01-12'']\<rparr>"
proof -
  let ?plan = "\<lparr>numberOfDays = ''3 days'', calculatedDays = 3,
      allDates = [''2024-01-09'', ''2024-01-10'', ''2024-01-11'']\<rparr>"
  have w: "plan_dates example_arith example_date_parse (\<lambda>t u. - 18000000)
      (JStr ''2024-01-10'') (JStr ''2024-01-12'') = ?plan"
    by (simp add: plan_dates_january fill_dates_west)
  have u: "plan_dates example_arith example_date_parse (\<lambda>t u. 0)
      (JStr ''2024-01-10'') (JStr ''2024-01-12'') =
     \<lparr>numberOfDays = ''3 days'', calculatedDays = 3,
      allDates = [''2024-01-10'', ''2024-01-11'', ''2024-01-12'']\<rparr>"
    by (simp add: plan_dates_january fill_dates_greenwich)
  from example_post[of example_world western_platform "''2024-01-10''" "''2024-01-12''"]
  obtain p cs where
    p: "prompt show_json (example_fields ''Rome'' ''2024-01-10'' ''2024-01-12'') example_position
          example_position example_travel example_info ?plan = Inr p"
    and cs: "\<forall>c\<in>set cs. \<not> is_post c"
    and P: "snd (POST western_platform example_env example_world
               (Inr (request_body ''Rome'' ''2024-01-10'' ''2024-01-12''))) =
        cs @ [FetchPost ''https://api.groq.com/openai/v1/chat/completions''
                (groq_headers example_env) (show_json (groq_body example_env p))]"
    by (auto simp: example_platform_fields w)
  from p have tp: "template (prompt_parts show_json
      (example_fields ''Rome'' ''2024-01-10'' ''2024-01-12'') example_position example_position
      example_travel example_info ?plan) = Inr p"
    by (simp add: prompt_def)
  from template_member[OF tp prompt_dates_member]
  have "sublist ''4. Specific Dates To Plan For: [\"2024-01-09\",\"2024-01-10\",\"2024-01-11\"]'' p"
    by simp
  then have "sublist ''4. Specific Dates To Plan For: [\"2024-01-09\",\"2024-01-10\",\"2024-01-11\"]''
      (show_json (groq_body example_env p))"
    unfolding groq_body_text by (rule sublist_inside)
  with P posted_last[OF cs] w u show ?thesis
    by (simp add: example_platform_fields)
qed

section \<open>The handler meets the world through its requests only\<close>


















end
